theory Spec2Isabelle
  imports Main
begin

section \<open>JSON values and the ECMAScript operations the edge function relies on\<close>

text \<open>
  The edge function \<^verbatim>\<open>supabase/functions/ai-report/index.ts\<close> handles values produced by
  \<^verbatim>\<open>JSON.parse\<close>.  An object carries its own properties in enumeration order with distinct
  keys; a number is carried by its ECMAScript \<^verbatim>\<open>Number::toString\<close> rendering (so \<^verbatim>\<open>0.2\<close> is
  \<open>JNum ''0.2''\<close> and both zeros are \<open>JNum ''0''\<close>).  The value \<^verbatim>\<open>undefined\<close> is not a JSON
  value: a JavaScript value that may be undefined is a \<open>json option\<close>, with \<open>None\<close> for
  \<^verbatim>\<open>undefined\<close>.
\<close>

datatype json =
    JNull
  | JBool bool
  | JNum string
  | JStr string
  | JArr "json list"
  | JObj "(string \<times> json) list"

type_synonym jsval = "json option"

text \<open>A thrown value: an \<^verbatim>\<open>Error\<close> object with its \<^verbatim>\<open>name\<close> and \<^verbatim>\<open>message\<close>.\<close>

datatype js_error = JsError (err_name: string) (err_message: string)

definition Error :: "string \<Rightarrow> js_error" where
  "Error msg = JsError ''Error'' msg"

definition TypeError :: "string \<Rightarrow> js_error" where
  "TypeError msg = JsError ''TypeError'' msg"

text \<open>\<^verbatim>\<open>String(error)\<close>, that is \<^verbatim>\<open>Error.prototype.toString\<close>.\<close>

definition String_error :: "js_error \<Rightarrow> string" where
  "String_error e =
     (if err_name e = [] then err_message e
      else if err_message e = [] then err_name e
      else err_name e @ '': '' @ err_message e)"

text \<open>Truthiness, as tested by \<^verbatim>\<open>!x\<close> and \<^verbatim>\<open>&&\<close>.\<close>

fun truthy :: "jsval \<Rightarrow> bool" where
  "truthy None = False"
| "truthy (Some JNull) = False"
| "truthy (Some (JBool b)) = b"
| "truthy (Some (JNum s)) = (s \<noteq> ''0'')"
| "truthy (Some (JStr s)) = (s \<noteq> [])"
| "truthy (Some (JArr xs)) = True"
| "truthy (Some (JObj kvs)) = True"

text \<open>
  Property reads, for the property names of the source (\<^verbatim>\<open>choices\<close>, \<^verbatim>\<open>message\<close>,
  \<^verbatim>\<open>content\<close>, \<^verbatim>\<open>candidates\<close>, \<^verbatim>\<open>parts\<close>, \<^verbatim>\<open>text\<close>, \<^verbatim>\<open>generated_text\<close>, \<^verbatim>\<open>summary_text\<close>,
  \<^verbatim>\<open>urls\<close>, \<^verbatim>\<open>get\<close>, \<^verbatim>\<open>status\<close>, \<^verbatim>\<open>output\<close>, \<^verbatim>\<open>prompt\<close>): none of them is inherited from a
  prototype, so only an object's own property answers.
  \<open>get_prop\<close> is \<^verbatim>\<open>v.name\<close>, which throws on \<^verbatim>\<open>null\<close>; \<open>opt_prop\<close> is \<^verbatim>\<open>v?.name\<close>.
\<close>

fun own_prop :: "json \<Rightarrow> string \<Rightarrow> jsval" where
  "own_prop (JObj kvs) k = map_of kvs k"
| "own_prop v k = None"

definition get_prop :: "json \<Rightarrow> string \<Rightarrow> js_error + jsval" where
  "get_prop v k =
     (if v = JNull
      then Inl (TypeError (''Cannot read properties of null (reading '' @ [CHR 0x27] @ k @ [CHR 0x27] @ '')''))
      else Inr (own_prop v k))"

fun opt_prop :: "jsval \<Rightarrow> string \<Rightarrow> jsval" where
  "opt_prop None k = None"
| "opt_prop (Some v) k = own_prop v k"

text \<open>\<^verbatim>\<open>v?.[0]\<close>: the first element of an array, the property \<^verbatim>\<open>"0"\<close> of an object, the
  first unit of a string.\<close>

fun opt_index0 :: "jsval \<Rightarrow> jsval" where
  "opt_index0 (Some (JArr xs)) = (case xs of [] \<Rightarrow> None | x # _ \<Rightarrow> Some x)"
| "opt_index0 (Some (JObj kvs)) = map_of kvs ''0''"
| "opt_index0 (Some (JStr s)) = (case s of [] \<Rightarrow> None | c # _ \<Rightarrow> Some (JStr [c]))"
| "opt_index0 v = None"

text \<open>
  \<^verbatim>\<open>ToString\<close> on a JSON value and \<^verbatim>\<open>Array.prototype.join\<close>.  An object converts to
  \<^verbatim>\<open>[object Object]\<close> unless an own property \<^verbatim>\<open>toString\<close> (never callable in parsed JSON)
  shadows the inherited method, in which case the conversion throws a \<^verbatim>\<open>TypeError\<close>.
  \<^verbatim>\<open>join\<close> renders \<^verbatim>\<open>null\<close> elements as the empty string.
\<close>

fun js_toString :: "json \<Rightarrow> js_error + string"
  and js_join :: "string \<Rightarrow> json list \<Rightarrow> js_error + string" where
  "js_toString JNull = Inr ''null''"
| "js_toString (JBool b) = Inr (if b then ''true'' else ''false'')"
| "js_toString (JNum s) = Inr s"
| "js_toString (JStr s) = Inr s"
| "js_toString (JArr xs) = js_join '','' xs"
| "js_toString (JObj kvs) =
     (if ''toString'' \<in> fst ` set kvs
      then Inl (TypeError ''Cannot convert object to primitive value'')
      else Inr ''[object Object]'')"
| "js_join sep [] = Inr []"
| "js_join sep (x # xs) =
     (case (if x = JNull then Inr [] else js_toString x) of
        Inl e \<Rightarrow> Inl e
      | Inr s \<Rightarrow>
          (if xs = [] then Inr s
           else (case js_join sep xs of Inl e \<Rightarrow> Inl e | Inr r \<Rightarrow> Inr (s @ sep @ r))))"

text \<open>\<^verbatim>\<open>v?.toString()\<close>: undefined on \<^verbatim>\<open>null\<close> and \<^verbatim>\<open>undefined\<close>; an own non-callable
  \<^verbatim>\<open>toString\<close> property makes the call throw a \<^verbatim>\<open>TypeError\<close> whose message names the callee
  expression as the source writes it.\<close>

fun opt_toString :: "string \<Rightarrow> jsval \<Rightarrow> js_error + string option" where
  "opt_toString callee None = Inr None"
| "opt_toString callee (Some JNull) = Inr None"
| "opt_toString callee (Some (JObj kvs)) =
     (if ''toString'' \<in> fst ` set kvs
      then Inl (TypeError (callee @ '' is not a function''))
      else Inr (Some ''[object Object]''))"
| "opt_toString callee (Some v) =
     (case js_toString v of Inl e \<Rightarrow> Inl e | Inr s \<Rightarrow> Inr (Some s))"

text \<open>\<^verbatim>\<open>String(v ?? "")\<close>.\<close>

fun String_or_empty :: "jsval \<Rightarrow> js_error + string" where
  "String_or_empty None = Inr []"
| "String_or_empty (Some JNull) = Inr []"
| "String_or_empty (Some v) = js_toString v"

text \<open>Decimal rendering of a number in a template literal (an HTTP status).\<close>

fun show_nat :: "nat \<Rightarrow> string" where
  "show_nat n =
     (if n < 10 then [''0123456789'' ! n]
      else show_nat (n div 10) @ [''0123456789'' ! (n mod 10)])"

text \<open>
  \<^verbatim>\<open>JSON.stringify\<close>.  Strings are quoted with the escapes of \<^verbatim>\<open>QuoteJSONString\<close>; a number that
  is not finite serialises as \<^verbatim>\<open>null\<close>.
\<close>

definition hex_digit :: "nat \<Rightarrow> char" where
  "hex_digit n = ''0123456789abcdef'' ! (n mod 16)"

definition json_escape :: "char \<Rightarrow> string" where
  "json_escape c =
     (if c = CHR 0x22 then [CHR 0x5C, CHR 0x22]
      else if c = CHR 0x5C then [CHR 0x5C, CHR 0x5C]
      else if c = CHR 0x08 then [CHR 0x5C, CHR ''b'']
      else if c = CHR 0x09 then [CHR 0x5C, CHR ''t'']
      else if c = CHR 0x0A then [CHR 0x5C, CHR ''n'']
      else if c = CHR 0x0C then [CHR 0x5C, CHR ''f'']
      else if c = CHR 0x0D then [CHR 0x5C, CHR ''r'']
      else if of_char c < (32 :: nat)
        then [CHR 0x5C, CHR ''u'', CHR ''0'', CHR ''0'',
              hex_digit (of_char c div 16), hex_digit (of_char c)]
      else [c])"

definition json_quote :: "string \<Rightarrow> string" where
  "json_quote s = [CHR 0x22] @ concat (map json_escape s) @ [CHR 0x22]"

fun intercalate :: "string \<Rightarrow> string list \<Rightarrow> string" where
  "intercalate sep [] = []"
| "intercalate sep [x] = x"
| "intercalate sep (x # y # ys) = x @ sep @ intercalate sep (y # ys)"

fun json_stringify :: "json \<Rightarrow> string" where
  "json_stringify JNull = ''null''"
| "json_stringify (JBool b) = (if b then ''true'' else ''false'')"
| "json_stringify (JNum s) =
     (if s = ''Infinity'' \<or> s = ''-Infinity'' \<or> s = ''NaN'' then ''null'' else s)"
| "json_stringify (JStr s) = json_quote s"
| "json_stringify (JArr xs) = ''['' @ intercalate '','' (map json_stringify xs) @ '']''"
| "json_stringify (JObj kvs) =
     ''{'' @ intercalate '','' (map (\<lambda>kv. json_quote (fst kv) @ '':'' @ json_stringify (snd kv)) kvs) @ ''}''"

section \<open>Effects: network calls, delays, console output, exceptions\<close>

text \<open>
  A run of the function is observed through the events it causes, in order: each call of
  \<^verbatim>\<open>fetch\<close>, each \<^verbatim>\<open>setTimeout\<close> delay awaited, each \<^verbatim>\<open>console.error\<close> line.  The outside
  world is a \<open>server\<close>: given the events so far and a request, it makes \<^verbatim>\<open>fetch\<close> reject
  (a network fault) or answers with a status and what \<^verbatim>\<open>res.json()\<close> will give, a parsed value
  or a rejection for an unparseable body.
\<close>

record fetch_request =
  url :: string
  http_method :: string
  http_headers :: "(string \<times> string) list"
  http_body :: "string option"

datatype fetch_response = FetchResponse (res_status: nat) (res_json: "js_error + json")

definition res_ok :: "fetch_response \<Rightarrow> bool" where
  "res_ok res = (200 \<le> res_status res \<and> res_status res \<le> 299)"

datatype event = Fetch fetch_request | Sleep nat | ConsoleError string js_error

type_synonym trace = "event list"

type_synonym server = "trace \<Rightarrow> fetch_request \<Rightarrow> js_error + fetch_response"

text \<open>An asynchronous computation: it extends the trace and either throws or returns.\<close>

type_synonym 'a comp = "trace \<Rightarrow> (js_error + 'a) \<times> trace"

definition returnE :: "'a \<Rightarrow> 'a comp" where
  "returnE x = (\<lambda>t. (Inr x, t))"

definition throwE :: "js_error \<Rightarrow> 'a comp" where
  "throwE e = (\<lambda>t. (Inl e, t))"

definition liftE :: "js_error + 'a \<Rightarrow> 'a comp" where
  "liftE r = (\<lambda>t. (r, t))"

definition bindE :: "'a comp \<Rightarrow> ('a \<Rightarrow> 'b comp) \<Rightarrow> 'b comp" where
  "bindE m f = (\<lambda>t. case m t of (Inl e, t') \<Rightarrow> (Inl e, t') | (Inr x, t') \<Rightarrow> f x t')"

definition catchE :: "'a comp \<Rightarrow> (js_error \<Rightarrow> 'a comp) \<Rightarrow> 'a comp" where
  "catchE m h = (\<lambda>t. case m t of (Inl e, t') \<Rightarrow> h e t' | (Inr x, t') \<Rightarrow> (Inr x, t'))"

definition fetch :: "server \<Rightarrow> fetch_request \<Rightarrow> fetch_response comp" where
  "fetch srv rq = (\<lambda>t. (srv t rq, t @ [Fetch rq]))"

definition sleep :: "nat \<Rightarrow> unit comp" where
  "sleep ms = (\<lambda>t. (Inr (), t @ [Sleep ms]))"

definition console_error :: "string \<Rightarrow> js_error \<Rightarrow> unit comp" where
  "console_error label e = (\<lambda>t. (Inr (), t @ [ConsoleError label e]))"

text \<open>\<^verbatim>\<open>Deno.env\<close>: the process-wide configuration.\<close>

type_synonym env = "string \<rightharpoonup> string"

section \<open>The provider adapters\<close>

text \<open>What an adapter returns: \<^verbatim>\<open>{ ok: true, provider, text }\<close> or
  \<^verbatim>\<open>{ ok: false, provider, error }\<close>.\<close>

datatype outcome =
    Ok (out_provider: string) (out_text: json)
  | Fail (out_provider: string) (out_error: string)

type_synonym adapter = "string \<Rightarrow> outcome comp"

definition system_instruction :: string where
  "system_instruction = ''You are an expert analyst that produces concise, actionable reports.''"

definition chat_payload :: "string \<Rightarrow> string \<Rightarrow> json" where
  "chat_payload model prompt =
     JObj [(''model'', JStr model),
           (''messages'',
              JArr [JObj [(''role'', JStr ''system''), (''content'', JStr system_instruction)],
                    JObj [(''role'', JStr ''user''), (''content'', JStr prompt)]]),
           (''temperature'', JNum ''0.2'')]"

definition bearer_headers :: "string \<Rightarrow> (string \<times> string) list" where
  "bearer_headers key =
     [(''Authorization'', ''Bearer '' @ key), (''Content-Type'', ''application/json'')]"

text \<open>The text of a chat completion: \<^verbatim>\<open>data?.choices?.[0]?.message?.content?.toString()\<close>,
  the optional chain first, then the method call.\<close>

definition chat_content :: "json \<Rightarrow> jsval" where
  "chat_content data =
     opt_prop (opt_prop (opt_index0 (opt_prop (Some data) ''choices'')) ''message'') ''content''"

definition chat_text :: "json \<Rightarrow> js_error + string option" where
  "chat_text data =
     opt_toString ''data?.choices?.[0]?.message?.content?.toString'' (chat_content data)"

text \<open>\<^verbatim>\<open>if (!text) throw new Error(msg); return text\<close> for a text that is a string or undefined.\<close>

definition require_text :: "string \<Rightarrow> string option \<Rightarrow> json comp" where
  "require_text msg text =
     (case text of
        None \<Rightarrow> throwE (Error msg)
      | Some s \<Rightarrow> if s = [] then throwE (Error msg) else returnE (JStr s))"

definition openai_payload :: "string \<Rightarrow> json" where
  "openai_payload prompt = chat_payload ''gpt-4.1-2025-04-14'' prompt"

definition openai_request :: "string \<Rightarrow> string \<Rightarrow> fetch_request" where
  "openai_request key prompt =
     \<lparr>url = ''https://api.openai.com/v1/chat/completions'', http_method = ''POST'',
      http_headers = bearer_headers key,
      http_body = Some (json_stringify (openai_payload prompt))\<rparr>"

text \<open>The \<^verbatim>\<open>try\<close> block of \<^verbatim>\<open>tryOpenAI\<close>, up to the text it returns.\<close>

definition openai_attempt :: "string \<Rightarrow> server \<Rightarrow> string \<Rightarrow> json comp" where
  "openai_attempt key srv prompt =
     bindE (fetch srv (openai_request key prompt)) (\<lambda>res.
       if \<not> res_ok res then throwE (Error (''OpenAI HTTP '' @ show_nat (res_status res)))
       else bindE (liftE (res_json res)) (\<lambda>data.
            bindE (liftE (chat_text data)) (\<lambda>text.
            require_text ''OpenAI empty response'' text)))"

definition tryOpenAI :: "env \<Rightarrow> server \<Rightarrow> adapter" where
  "tryOpenAI env srv prompt =
     (case env ''OPENAI_API_KEY'' of
        None \<Rightarrow> returnE (Fail ''openai'' ''OPENAI_API_KEY not set'')
      | Some key \<Rightarrow>
          if key = [] then returnE (Fail ''openai'' ''OPENAI_API_KEY not set'')
          else catchE
                 (bindE (openai_attempt key srv prompt) (\<lambda>text. returnE (Ok ''openai'' text)))
                 (\<lambda>error. bindE (console_error ''OpenAI error:'' error) (\<lambda>_.
                    returnE (Fail ''openai'' (String_error error)))))"

definition openrouter_payload :: "string \<Rightarrow> json" where
  "openrouter_payload prompt = chat_payload ''openai/gpt-4o-mini'' prompt"

definition openrouter_request :: "string \<Rightarrow> string \<Rightarrow> fetch_request" where
  "openrouter_request key prompt =
     \<lparr>url = ''https://openrouter.ai/api/v1/chat/completions'', http_method = ''POST'',
      http_headers = bearer_headers key,
      http_body = Some (json_stringify (openrouter_payload prompt))\<rparr>"

definition openrouter_attempt :: "string \<Rightarrow> server \<Rightarrow> string \<Rightarrow> json comp" where
  "openrouter_attempt key srv prompt =
     bindE (fetch srv (openrouter_request key prompt)) (\<lambda>res.
       if \<not> res_ok res then throwE (Error (''OpenRouter HTTP '' @ show_nat (res_status res)))
       else bindE (liftE (res_json res)) (\<lambda>data.
            bindE (liftE (chat_text data)) (\<lambda>text.
            require_text ''OpenRouter empty response'' text)))"

definition tryOpenRouter :: "env \<Rightarrow> server \<Rightarrow> adapter" where
  "tryOpenRouter env srv prompt =
     (case env ''OPENROUTER_API_KEY'' of
        None \<Rightarrow> returnE (Fail ''openrouter'' ''OPENROUTER_API_KEY not set'')
      | Some key \<Rightarrow>
          if key = [] then returnE (Fail ''openrouter'' ''OPENROUTER_API_KEY not set'')
          else catchE
                 (bindE (openrouter_attempt key srv prompt) (\<lambda>text. returnE (Ok ''openrouter'' text)))
                 (\<lambda>error. bindE (console_error ''OpenRouter error:'' error) (\<lambda>_.
                    returnE (Fail ''openrouter'' (String_error error)))))"

definition gemini_payload :: "string \<Rightarrow> json" where
  "gemini_payload prompt =
     JObj [(''contents'',
              JArr [JObj [(''role'', JStr ''user''),
                          (''parts'', JArr [JObj [(''text'', JStr prompt)]])]])]"

definition gemini_request :: "string \<Rightarrow> string \<Rightarrow> fetch_request" where
  "gemini_request key prompt =
     \<lparr>url = ''https://generativelanguage.googleapis.com/v1beta/models/gemini-1.5-flash:generateContent?key='' @ key,
      http_method = ''POST'',
      http_headers = [(''Content-Type'', ''application/json'')],
      http_body = Some (json_stringify (gemini_payload prompt))\<rparr>"

text \<open>\<^verbatim>\<open>data?.candidates?.[0]?.content?.parts?.[0]?.text?.toString()\<close>.\<close>

definition gemini_part_text :: "json \<Rightarrow> jsval" where
  "gemini_part_text data =
     opt_prop
       (opt_index0
          (opt_prop (opt_prop (opt_index0 (opt_prop (Some data) ''candidates'')) ''content'') ''parts''))
       ''text''"

definition gemini_text :: "json \<Rightarrow> js_error + string option" where
  "gemini_text data =
     opt_toString ''data?.candidates?.[0]?.content?.parts?.[0]?.text?.toString''
       (gemini_part_text data)"

definition gemini_attempt :: "string \<Rightarrow> server \<Rightarrow> string \<Rightarrow> json comp" where
  "gemini_attempt key srv prompt =
     bindE (fetch srv (gemini_request key prompt)) (\<lambda>res.
       if \<not> res_ok res then throwE (Error (''Gemini HTTP '' @ show_nat (res_status res)))
       else bindE (liftE (res_json res)) (\<lambda>data.
            bindE (liftE (gemini_text data)) (\<lambda>text.
            require_text ''Gemini empty response'' text)))"

definition tryGemini :: "env \<Rightarrow> server \<Rightarrow> adapter" where
  "tryGemini env srv prompt =
     (case env ''GOOGLE_GEMINI_API_KEY'' of
        None \<Rightarrow> returnE (Fail ''gemini'' ''GOOGLE_GEMINI_API_KEY not set'')
      | Some key \<Rightarrow>
          if key = [] then returnE (Fail ''gemini'' ''GOOGLE_GEMINI_API_KEY not set'')
          else catchE
                 (bindE (gemini_attempt key srv prompt) (\<lambda>text. returnE (Ok ''gemini'' text)))
                 (\<lambda>error. bindE (console_error ''Gemini error:'' error) (\<lambda>_.
                    returnE (Fail ''gemini'' (String_error error)))))"

definition huggingface_payload :: "string \<Rightarrow> json" where
  "huggingface_payload prompt =
     JObj [(''inputs'', JStr prompt), (''options'', JObj [(''wait_for_model'', JBool True)])]"

definition huggingface_request :: "string \<Rightarrow> string \<Rightarrow> fetch_request" where
  "huggingface_request key prompt =
     \<lparr>url = ''https://api-inference.huggingface.co/models/'' @ ''mistralai/Mixtral-8x7B-Instruct-v0.1'',
      http_method = ''POST'',
      http_headers = bearer_headers key,
      http_body = Some (json_stringify (huggingface_payload prompt))\<rparr>"

text \<open>\<^verbatim>\<open>Array.isArray(data)\<close> and \<^verbatim>\<open>typeof data === "object"\<close> (true of \<^verbatim>\<open>null\<close> and of arrays
  too).\<close>

fun isArray :: "json \<Rightarrow> bool" where
  "isArray (JArr xs) = True"
| "isArray v = False"

fun typeof_object :: "json \<Rightarrow> bool" where
  "typeof_object JNull = True"
| "typeof_object (JArr xs) = True"
| "typeof_object (JObj kvs) = True"
| "typeof_object v = False"

text \<open>A value when it is truthy: the test \<^verbatim>\<open>c && x\<close> of a branch that then reads \<^verbatim>\<open>x\<close>.\<close>

definition when_truthy :: "jsval \<Rightarrow> jsval" where
  "when_truthy v = (if truthy v then v else None)"

text \<open>The four-way extraction of \<^verbatim>\<open>tryHuggingFace\<close>; its last branch serialises the whole
  body.\<close>

definition huggingface_text :: "json \<Rightarrow> json" where
  "huggingface_text data =
     (case when_truthy (if isArray data then opt_prop (opt_index0 (Some data)) ''generated_text'' else None) of
        Some text \<Rightarrow> text
      | None \<Rightarrow>
     (case when_truthy (if typeof_object data then opt_prop (Some data) ''generated_text'' else None) of
        Some text \<Rightarrow> text
      | None \<Rightarrow>
     (case when_truthy (if isArray data then opt_prop (opt_index0 (Some data)) ''summary_text'' else None) of
        Some text \<Rightarrow> text
      | None \<Rightarrow> JStr (json_stringify data))))"

definition huggingface_attempt :: "string \<Rightarrow> server \<Rightarrow> string \<Rightarrow> json comp" where
  "huggingface_attempt key srv prompt =
     bindE (fetch srv (huggingface_request key prompt)) (\<lambda>res.
       if \<not> res_ok res then throwE (Error (''HuggingFace HTTP '' @ show_nat (res_status res)))
       else bindE (liftE (res_json res)) (\<lambda>data.
            let text = huggingface_text data
            in if \<not> truthy (Some text) then throwE (Error ''HuggingFace empty response'')
               else returnE text))"

definition tryHuggingFace :: "env \<Rightarrow> server \<Rightarrow> adapter" where
  "tryHuggingFace env srv prompt =
     (case env ''HUGGING_FACE_ACCESS_TOKEN'' of
        None \<Rightarrow> returnE (Fail ''huggingface'' ''HUGGING_FACE_ACCESS_TOKEN not set'')
      | Some key \<Rightarrow>
          if key = [] then returnE (Fail ''huggingface'' ''HUGGING_FACE_ACCESS_TOKEN not set'')
          else catchE
                 (bindE (huggingface_attempt key srv prompt) (\<lambda>text. returnE (Ok ''huggingface'' text)))
                 (\<lambda>error. bindE (console_error ''HuggingFace error:'' error) (\<lambda>_.
                    returnE (Fail ''huggingface'' (String_error error)))))"

definition replicate_payload :: "string \<Rightarrow> json" where
  "replicate_payload prompt = JObj [(''input'', JObj [(''prompt'', JStr prompt)])]"

definition replicate_request :: "string \<Rightarrow> string \<Rightarrow> fetch_request" where
  "replicate_request key prompt =
     \<lparr>url = ''https://api.replicate.com/v1/models/meta/meta-llama-3-8b-instruct/predictions'',
      http_method = ''POST'',
      http_headers = [(''Authorization'', ''Token '' @ key), (''Content-Type'', ''application/json'')],
      http_body = Some (json_stringify (replicate_payload prompt))\<rparr>"

text \<open>A status read: \<^verbatim>\<open>fetch(endpoint, { headers: { Authorization } })\<close>.\<close>

definition status_request :: "string \<Rightarrow> string \<Rightarrow> fetch_request" where
  "status_request key u =
     \<lparr>url = u, http_method = ''GET'',
      http_headers = [(''Authorization'', ''Token '' @ key)], http_body = None\<rparr>"

text \<open>\<^verbatim>\<open>Array.isArray(output) ? output.join("\n") : String(output ?? "")\<close>.\<close>

definition replicate_output_text :: "jsval \<Rightarrow> js_error + string" where
  "replicate_output_text output =
     (case output of
        Some (JArr xs) \<Rightarrow> js_join [CHR 0x0A] xs
      | _ \<Rightarrow> String_or_empty output)"

text \<open>The string a status takes in the template literal of the \<^verbatim>\<open>failed\<close>/\<^verbatim>\<open>canceled\<close> branch,
  where it is one of these two strings.\<close>

fun status_string :: "jsval \<Rightarrow> string" where
  "status_string (Some (JStr s)) = s"
| "status_string v = ''undefined''"

text \<open>
  The polling loop \<^verbatim>\<open>for (let i = 0; i < 30; i++)\<close>, entered at \<open>i\<close>.  \<^verbatim>\<open>fetch\<close> takes the
  endpoint through \<^verbatim>\<open>ToString\<close>; the status read is not checked for \<^verbatim>\<open>ok\<close>.
\<close>

function replicate_poll :: "server \<Rightarrow> string \<Rightarrow> json \<Rightarrow> nat \<Rightarrow> json comp" where
  "replicate_poll srv key endpoint i =
     (if i < 30 then
        bindE (liftE (js_toString endpoint)) (\<lambda>u.
        bindE (fetch srv (status_request key u)) (\<lambda>check.
        bindE (liftE (res_json check)) (\<lambda>body.
        bindE (liftE (get_prop body ''status'')) (\<lambda>status.
          if status = Some (JStr ''succeeded'') then
            bindE (liftE (get_prop body ''output'')) (\<lambda>output.
            bindE (liftE (replicate_output_text output)) (\<lambda>text.
              if text = [] then throwE (Error ''Replicate empty output'')
              else returnE (JStr text)))
          else if status = Some (JStr ''failed'') \<or> status = Some (JStr ''canceled'') then
            throwE (Error (''Replicate '' @ status_string status))
          else bindE (sleep 1000) (\<lambda>_. replicate_poll srv key endpoint (Suc i))))))
      else throwE (Error ''Replicate timeout''))"
  by pat_completeness auto
termination
  by (relation "measure (\<lambda>(srv, key, endpoint, i). 30 - i)") auto

declare replicate_poll.simps [simp del]

definition replicate_attempt :: "string \<Rightarrow> server \<Rightarrow> string \<Rightarrow> json comp" where
  "replicate_attempt key srv prompt =
     bindE (fetch srv (replicate_request key prompt)) (\<lambda>res.
       if \<not> res_ok res then throwE (Error (''Replicate HTTP '' @ show_nat (res_status res)))
       else bindE (liftE (res_json res)) (\<lambda>data.
            case when_truthy (opt_prop (opt_prop (Some data) ''urls'') ''get'') of
              None \<Rightarrow> throwE (Error ''Replicate missing status URL'')
            | Some endpoint \<Rightarrow> replicate_poll srv key endpoint 0))"

definition tryReplicate :: "env \<Rightarrow> server \<Rightarrow> adapter" where
  "tryReplicate env srv prompt =
     (case env ''REPLICATE_API_KEY'' of
        None \<Rightarrow> returnE (Fail ''replicate'' ''REPLICATE_API_KEY not set'')
      | Some key \<Rightarrow>
          if key = [] then returnE (Fail ''replicate'' ''REPLICATE_API_KEY not set'')
          else catchE
                 (bindE (replicate_attempt key srv prompt) (\<lambda>text. returnE (Ok ''replicate'' text)))
                 (\<lambda>error. bindE (console_error ''Replicate error:'' error) (\<lambda>_.
                    returnE (Fail ''replicate'' (String_error error)))))"

section \<open>The request handler\<close>

text \<open>The inbound request, as far as the handler reads it: its method and what
  \<^verbatim>\<open>await req.json()\<close> gives, a parsed value or a rejection.\<close>

record inbound =
  req_method :: string
  req_json :: "js_error + json"

record response =
  status :: nat
  headers :: "(string \<times> string) list"
  body :: "string option"

definition corsHeaders :: "(string \<times> string) list" where
  "corsHeaders =
     [(''Access-Control-Allow-Origin'', ''*''),
      (''Access-Control-Allow-Headers'', ''authorization, x-client-info, apikey, content-type'')]"

text \<open>\<^verbatim>\<open>new Response(JSON.stringify(v), { status, headers: { ...corsHeaders, "Content-Type":
  "application/json" } })\<close>; the status is 200 where the source gives none.\<close>

definition json_response :: "nat \<Rightarrow> json \<Rightarrow> response" where
  "json_response st v =
     \<lparr>status = st, headers = corsHeaders @ [(''Content-Type'', ''application/json'')],
      body = Some (json_stringify v)\<rparr>"

text \<open>\<^verbatim>\<open>const { prompt } = v\<close>: destructuring \<^verbatim>\<open>null\<close> throws.\<close>

definition destructure_prompt :: "json \<Rightarrow> js_error + jsval" where
  "destructure_prompt v =
     (if v = JNull
      then Inl (TypeError ''Cannot destructure property 'prompt' of '(intermediate value)' as it is null.'')
      else Inr (own_prop v ''prompt''))"

text \<open>\<^verbatim>\<open>typeof prompt === "string"\<close>.\<close>

fun typeof_string :: "jsval \<Rightarrow> bool" where
  "typeof_string (Some (JStr s)) = True"
| "typeof_string v = False"

fun string_value :: "jsval \<Rightarrow> string" where
  "string_value (Some (JStr s)) = s"
| "string_value v = []"

text \<open>
  The fallback loop \<^verbatim>\<open>for (const attempt of attempts)\<close> with its accumulator \<^verbatim>\<open>results\<close>:
  it leaves with the success response of the first adapter that returns \<^verbatim>\<open>ok\<close>, or runs out
  and gives the results collected.
\<close>

fun run_attempts :: "adapter list \<Rightarrow> string \<Rightarrow> json list \<Rightarrow> (response + json list) comp" where
  "run_attempts [] prompt results = returnE (Inr results)"
| "run_attempts (attempt # rest) prompt results =
     bindE (attempt prompt) (\<lambda>r.
       case r of
         Ok p txt \<Rightarrow>
           returnE (Inl (json_response 200 (JObj [(''provider'', JStr p), (''text'', txt)])))
       | Fail p err \<Rightarrow>
           run_attempts rest prompt
             (results @ [JObj [(''provider'', JStr p), (''error'', JStr err)]]))"

text \<open>The handler, over the array \<^verbatim>\<open>attempts\<close> it iterates.\<close>

definition serve_with :: "adapter list \<Rightarrow> inbound \<Rightarrow> response comp" where
  "serve_with attempts req =
     (if req_method req = ''OPTIONS''
      then returnE \<lparr>status = 200, headers = corsHeaders, body = None\<rparr>
      else catchE
        (bindE (liftE (req_json req)) (\<lambda>v.
         bindE (liftE (destructure_prompt v)) (\<lambda>prompt.
           if \<not> truthy prompt \<or> \<not> typeof_string prompt
           then returnE (json_response 400 (JObj [(''error'', JStr ''Missing 'prompt' string in body'')]))
           else bindE (run_attempts attempts (string_value prompt) []) (\<lambda>r.
                  case r of
                    Inl resp \<Rightarrow> returnE resp
                  | Inr results \<Rightarrow>
                      returnE (json_response 502
                        (JObj [(''error'', JStr ''All providers failed''),
                               (''attempts'', JArr results)]))))))
        (\<lambda>error. bindE (console_error ''ai-report handler error:'' error) (\<lambda>_.
           returnE (json_response 500
             (JObj [(''error'', JStr ''Unexpected error''),
                    (''details'', JStr (String_error error))])))))"

text \<open>\<^verbatim>\<open>const attempts = [tryOpenAI, tryOpenRouter, tryGemini, tryHuggingFace, tryReplicate]\<close>.\<close>

definition attempts :: "env \<Rightarrow> server \<Rightarrow> adapter list" where
  "attempts env srv =
     [tryOpenAI env srv, tryOpenRouter env srv, tryGemini env srv,
      tryHuggingFace env srv, tryReplicate env srv]"

definition serve :: "env \<Rightarrow> server \<Rightarrow> inbound \<Rightarrow> response comp" where
  "serve env srv req = serve_with (attempts env srv) req"

section \<open>Runs of a list of adapters\<close>

text \<open>
  Two notions used to state what the fallback loop does.  \<open>outcomes_of as p t\<close> is what each
  adapter of \<open>as\<close> gives when they are invoked one after the other on the prompt \<open>p\<close>, from
  the trace \<open>t\<close>; \<open>trace_after as p t\<close> is the trace once they have all been invoked.
\<close>

fun outcomes_of :: "adapter list \<Rightarrow> string \<Rightarrow> trace \<Rightarrow> (js_error + outcome) list" where
  "outcomes_of [] p t = []"
| "outcomes_of (a # as) p t = fst (a p t) # outcomes_of as p (snd (a p t))"

fun trace_after :: "adapter list \<Rightarrow> string \<Rightarrow> trace \<Rightarrow> trace" where
  "trace_after [] p t = t"
| "trace_after (a # as) p t = trace_after as p (snd (a p t))"

fun returned_failure :: "js_error + outcome \<Rightarrow> bool" where
  "returned_failure (Inr (Fail p e)) = True"
| "returned_failure r = False"

text \<open>The entry \<^verbatim>\<open>{ provider: r.provider, error: r.error }\<close> pushed for a failure.\<close>

definition attempt_entry :: "string \<Rightarrow> string \<Rightarrow> json" where
  "attempt_entry p e = JObj [(''provider'', JStr p), (''error'', JStr e)]"

section \<open>Polling: pending reads and rounds\<close>

text \<open>
  A status body counts as pending when it is a parsed value other than \<^verbatim>\<open>null\<close> whose
  \<^verbatim>\<open>status\<close> is none of \<^verbatim>\<open>succeeded\<close>, \<^verbatim>\<open>failed\<close>, \<^verbatim>\<open>canceled\<close> (a missing status included);
  a status read is pending when it answers, with any HTTP status, such a body.
\<close>

definition pending_body :: "json \<Rightarrow> bool" where
  "pending_body b =
     (b \<noteq> JNull \<and> own_prop b ''status'' \<noteq> Some (JStr ''succeeded'') \<and>
      own_prop b ''status'' \<noteq> Some (JStr ''failed'') \<and>
      own_prop b ''status'' \<noteq> Some (JStr ''canceled''))"

fun pending_read :: "js_error + fetch_response \<Rightarrow> bool" where
  "pending_read (Inr (FetchResponse st (Inr b))) = pending_body b"
| "pending_read r = False"

text \<open>The events of \<open>n\<close> rounds of polling that found the job pending: a status read, then the
  delay of one second.\<close>

definition poll_rounds :: "nat \<Rightarrow> string \<Rightarrow> string \<Rightarrow> event list" where
  "poll_rounds n key u = concat (replicate n [Fetch (status_request key u), Sleep 1000])"

text \<open>The status reads of a trace are its \<^verbatim>\<open>GET\<close> fetches (the submission is a \<^verbatim>\<open>POST\<close>).\<close>

fun is_status_read :: "event \<Rightarrow> bool" where
  "is_status_read (Fetch rq) = (http_method rq = ''GET'')"
| "is_status_read ev = False"

section \<open>The contents of a payload\<close>

text \<open>What a payload contains: the keys of all its objects and all its string values, in
  document order.\<close>

fun json_keys :: "json \<Rightarrow> string list" where
  "json_keys (JObj kvs) = concat (map (\<lambda>kv. fst kv # json_keys (snd kv)) kvs)"
| "json_keys (JArr xs) = concat (map json_keys xs)"
| "json_keys v = []"

fun json_strings :: "json \<Rightarrow> string list" where
  "json_strings (JStr s) = [s]"
| "json_strings (JArr xs) = concat (map json_strings xs)"
| "json_strings (JObj kvs) = concat (map (\<lambda>kv. json_strings (snd kv)) kvs)"
| "json_strings v = []"

section \<open>Answers and their texts\<close>

text \<open>
  The situations the extraction properties speak of: a credential that is set; a request
  answered 2xx with a body that parses to \<open>data\<close>; a status read that reports \<^verbatim>\<open>succeeded\<close>
  with a given \<^verbatim>\<open>output\<close>.
\<close>

definition credential :: "env \<Rightarrow> string \<Rightarrow> string \<Rightarrow> bool" where
  "credential env name key = (env name = Some key \<and> key \<noteq> [])"

fun answered :: "js_error + fetch_response \<Rightarrow> json \<Rightarrow> bool" where
  "answered (Inr (FetchResponse st (Inr d))) data = (200 \<le> st \<and> st \<le> 299 \<and> d = data)"
| "answered r data = False"

fun succeeded_read :: "js_error + fetch_response \<Rightarrow> jsval \<Rightarrow> bool" where
  "succeeded_read (Inr (FetchResponse st (Inr b))) out =
     (own_prop b ''status'' = Some (JStr ''succeeded'') \<and> own_prop b ''output'' = out)"
| "succeeded_read r out = False"

text \<open>A status read that reports the terminal status \<open>s\<close>, \<^verbatim>\<open>failed\<close> or \<^verbatim>\<open>canceled\<close>.\<close>

fun failed_read :: "js_error + fetch_response \<Rightarrow> string \<Rightarrow> bool" where
  "failed_read (Inr (FetchResponse st (Inr b))) s =
     (own_prop b ''status'' = Some (JStr s) \<and> (s = ''failed'' \<or> s = ''canceled''))"
| "failed_read r s = False"

section \<open>Example configurations\<close>

text \<open>Concrete requests, configurations and servers on which the theorems below are
  instantiated.\<close>

definition example_request :: inbound where
  "example_request = \<lparr>req_method = ''POST'', req_json = Inr (JObj [(''prompt'', JStr ''hi'')])\<rparr>"

definition gemini_hello_server :: server where
  "gemini_hello_server t rq =
     Inr (FetchResponse 200
       (Inr (JObj [(''candidates'',
          JArr [JObj [(''content'', JObj [(''parts'', JArr [JObj [(''text'', JStr ''hello'')]])])]])])))"

text \<open>A network on which every \<^verbatim>\<open>fetch\<close> rejects.\<close>

definition offline_server :: server where
  "offline_server t rq = Inl (TypeError ''error sending request'')"

definition all_keys_env :: env where
  "all_keys_env =
     [''OPENAI_API_KEY'' \<mapsto> ''k1'', ''OPENROUTER_API_KEY'' \<mapsto> ''k2'',
      ''GOOGLE_GEMINI_API_KEY'' \<mapsto> ''k3'', ''HUGGING_FACE_ACCESS_TOKEN'' \<mapsto> ''k4'',
      ''REPLICATE_API_KEY'' \<mapsto> ''k5'']"

definition faulty_server :: server where
  "faulty_server t rq =
     (if url rq = url (openai_request ''k1'' []) then Inl (TypeError ''error sending request'')
      else if url rq = url (openrouter_request ''k2'' []) then Inr (FetchResponse 500 (Inr JNull))
      else if url rq = url (gemini_request ''k3'' [])
        then Inr (FetchResponse 200 (Inl (JsError ''SyntaxError'' ''Unexpected end of JSON input'')))
      else if url rq = url (huggingface_request ''k4'' [])
        then Inr (FetchResponse 503 (Inr (JObj [(''error'', JStr ''loading'')])))
      else if http_method rq = ''POST''
        then Inr (FetchResponse 201 (Inr (JObj [(''urls'', JObj [(''get'', JStr ''status-url'')])])))
      else Inr (FetchResponse 200 (Inr JNull)))"

definition replicate_only_env :: env where
  "replicate_only_env = [''REPLICATE_API_KEY'' \<mapsto> ''k'']"

definition job_created :: "js_error + fetch_response" where
  "job_created =
     Inr (FetchResponse 201 (Inr (JObj [(''urls'', JObj [(''get'', JStr ''status-url'')])])))"

text \<open>A job that never completes.\<close>

definition always_pending_server :: server where
  "always_pending_server t rq =
     (if http_method rq = ''POST'' then job_created
      else Inr (FetchResponse 200 (Inr (JObj [(''status'', JStr ''processing'')]))))"

text \<open>A job reported \<^verbatim>\<open>processing\<close> on the first 29 status reads and \<^verbatim>\<open>succeeded\<close> with
  output \<^verbatim>\<open>X\<close> from the 30th.\<close>

definition succeeds_on_30th_server :: server where
  "succeeds_on_30th_server t rq =
     (if http_method rq = ''POST'' then job_created
      else if length (filter is_status_read t) < 29
        then Inr (FetchResponse 200 (Inr (JObj [(''status'', JStr ''processing'')])))
      else Inr (FetchResponse 200
             (Inr (JObj [(''status'', JStr ''succeeded''), (''output'', JStr ''X'')]))))"

text \<open>A network on which OpenAI answers a whitespace-only text, OpenRouter no choice, Gemini
  the text \<^verbatim>\<open>hello\<close>, HuggingFace the generated text \<^verbatim>\<open>report\<close>, and the Replicate job has
  succeeded at the first status read with two output segments.\<close>

definition extraction_server :: server where
  "extraction_server t rq =
     (if url rq = url (openai_request ''k1'' [])
        then Inr (FetchResponse 200
               (Inr (JObj [(''choices'',
                      JArr [JObj [(''message'',
                        JObj [(''role'', JStr ''assistant''), (''content'', JStr '' '')])]])])))
      else if url rq = url (openrouter_request ''k2'' [])
        then Inr (FetchResponse 200 (Inr (JObj [(''choices'', JArr [])])))
      else if url rq = url (gemini_request ''k3'' []) then gemini_hello_server t rq
      else if url rq = url (huggingface_request ''k4'' [])
        then Inr (FetchResponse 200
               (Inr (JArr [JObj [(''generated_text'', JStr ''report'')]])))
      else if http_method rq = ''POST'' then job_created
      else Inr (FetchResponse 200
             (Inr (JObj [(''status'', JStr ''succeeded''),
                         (''output'', JArr [JStr ''a'', JStr ''b''])]))))"

text \<open>A string between double quotes, to write the expected bodies of responses.\<close>

definition quoted :: "string \<Rightarrow> string" where
  "quoted s = [CHR 0x22] @ s @ [CHR 0x22]"

text \<open>A network on which OpenAI is unreachable, OpenRouter answers 500, Gemini answers the
  text \<^verbatim>\<open>hello\<close>, and every other request is answered 200 with the empty object.\<close>

definition third_succeeds_server :: server where
  "third_succeeds_server t rq =
     (if url rq = url (openai_request ''k1'' []) then Inl (TypeError ''error sending request'')
      else if url rq = url (openrouter_request ''k2'' []) then Inr (FetchResponse 500 (Inr JNull))
      else if url rq = url (gemini_request ''k3'' []) then gemini_hello_server t rq
      else Inr (FetchResponse 200 (Inr (JObj []))))"

text \<open>A job whose status reads answer, in turn: 404 with an error body that has no status,
  500 with the status \<^verbatim>\<open>starting\<close>, 200 with the status \<^verbatim>\<open>processing\<close>, and from then on
  \<^verbatim>\<open>succeeded\<close> with output \<^verbatim>\<open>X\<close>.\<close>

definition slow_job_server :: server where
  "slow_job_server t rq =
     (if http_method rq = ''POST'' then job_created
      else if length (filter is_status_read t) = 0
        then Inr (FetchResponse 404 (Inr (JObj [(''detail'', JStr ''Not found'')])))
      else if length (filter is_status_read t) = 1
        then Inr (FetchResponse 500 (Inr (JObj [(''status'', JStr ''starting'')])))
      else if length (filter is_status_read t) = 2
        then Inr (FetchResponse 200 (Inr (JObj [(''status'', JStr ''processing'')])))
      else Inr (FetchResponse 200
             (Inr (JObj [(''status'', JStr ''succeeded''), (''output'', JStr ''X'')]))))"

section \<open>Laws of the effect combinators\<close>

lemma bindE_returnE [simp]: "bindE (returnE x) f = f x"
  by (rule ext) (simp add: bindE_def returnE_def)

lemma bindE_throwE [simp]: "bindE (throwE e) f = throwE e"
  by (rule ext) (simp add: bindE_def throwE_def)

lemma bindE_liftE_Inr [simp]: "bindE (liftE (Inr x)) f = f x"
  by (rule ext) (simp add: bindE_def liftE_def)

lemma bindE_liftE_Inl [simp]: "bindE (liftE (Inl e)) f = throwE e"
  by (rule ext) (simp add: bindE_def liftE_def throwE_def)

lemma catchE_returnE [simp]: "catchE (returnE x) h = returnE x"
  by (rule ext) (simp add: catchE_def returnE_def)

lemma catchE_throwE [simp]: "catchE (throwE e) h = h e"
  by (rule ext) (simp add: catchE_def throwE_def)

lemma bindE_Inr: "m t = (Inr x, t') \<Longrightarrow> bindE m f t = f x t'"
  by (simp add: bindE_def)

lemma bindE_Inl: "m t = (Inl e, t') \<Longrightarrow> bindE m f t = (Inl e, t')"
  by (simp add: bindE_def)

lemma catchE_Inr: "m t = (Inr x, t') \<Longrightarrow> catchE m h t = (Inr x, t')"
  by (simp add: catchE_def)

lemma catchE_Inl: "m t = (Inl e, t') \<Longrightarrow> catchE m h t = h e t'"
  by (simp add: catchE_def)

lemma bindE_console_error:
  "bindE (console_error label e) f t = f () (t @ [ConsoleError label e])"
  by (simp add: bindE_def console_error_def)

lemma bindE_fetch: "bindE (fetch srv rq) f t = bindE (liftE (srv t rq)) f (t @ [Fetch rq])"
  by (simp add: bindE_def fetch_def liftE_def)

lemma bindE_sleep: "bindE (sleep ms) f t = f () (t @ [Sleep ms])"
  by (simp add: bindE_def sleep_def)

lemmas effect_defs = catchE_def bindE_def fetch_def liftE_def returnE_def throwE_def
  console_error_def sleep_def

section \<open>Request validation\<close>

text \<open>
  C9, as the code has it.  A request other than an \<^verbatim>\<open>OPTIONS\<close> preflight whose body does not
  parse as JSON (\<^verbatim>\<open>req.json()\<close> rejects with \<open>e\<close>) is answered with status 500 and the body
  \<^verbatim>\<open>{ error: "Unexpected error", details: String(e) }\<close>, not with the 400 of the validation;
  whatever the adapters are, none is invoked: the only event is the handler's own console
  line.
\<close>

theorem unparseable_body_500:
  assumes "req_method req \<noteq> ''OPTIONS''" and "req_json req = Inl e"
  shows "serve env srv req t =
           (Inr \<lparr>status = 500,
                  headers = corsHeaders @ [(''Content-Type'', ''application/json'')],
                  body = Some (json_stringify
                           (JObj [(''error'', JStr ''Unexpected error''),
                                  (''details'', JStr (String_error e))]))\<rparr>,
            t @ [ConsoleError ''ai-report handler error:'' e]) \<and>
         serve_with as req t =
           (Inr \<lparr>status = 500,
                  headers = corsHeaders @ [(''Content-Type'', ''application/json'')],
                  body = Some (json_stringify
                           (JObj [(''error'', JStr ''Unexpected error''),
                                  (''details'', JStr (String_error e))]))\<rparr>,
            t @ [ConsoleError ''ai-report handler error:'' e])"
proof -
  have "serve_with as' req t =
           (Inr \<lparr>status = 500,
                  headers = corsHeaders @ [(''Content-Type'', ''application/json'')],
                  body = Some (json_stringify
                           (JObj [(''error'', JStr ''Unexpected error''),
                                  (''details'', JStr (String_error e))]))\<rparr>,
            t @ [ConsoleError ''ai-report handler error:'' e])" for as'
    using assms
    by (simp add: serve_with_def bindE_console_error json_response_def) (simp add: returnE_def)
  then show ?thesis by (simp add: serve_def)
qed

theorem unparseable_body_500_witness:
  "serve all_keys_env offline_server
         \<lparr>req_method = ''POST'',
          req_json = Inl (JsError ''SyntaxError'' ''Unexpected end of JSON input'')\<rparr> [] =
     (Inr \<lparr>status = 500,
            headers = [(''Access-Control-Allow-Origin'', ''*''),
                       (''Access-Control-Allow-Headers'',
                        ''authorization, x-client-info, apikey, content-type''),
                       (''Content-Type'', ''application/json'')],
            body = Some (''{'' @ quoted ''error'' @ '':'' @ quoted ''Unexpected error'' @ '','' @
                         quoted ''details'' @ '':'' @
                         quoted ''SyntaxError: Unexpected end of JSON input'' @ ''}'')\<rparr>,
      [ConsoleError ''ai-report handler error:''
         (JsError ''SyntaxError'' ''Unexpected end of JSON input'')])"
proof -
  let ?req = "\<lparr>req_method = ''POST'',
                req_json = Inl (JsError ''SyntaxError'' ''Unexpected end of JSON input'')\<rparr>"
  have m: "req_method ?req \<noteq> ''OPTIONS''" by simp
  have j: "req_json ?req = Inl (JsError ''SyntaxError'' ''Unexpected end of JSON input'')" by simp
  show ?thesis
    using unparseable_body_500 [OF m j, of all_keys_env offline_server "[]"]
    by (simp add: String_error_def corsHeaders_def quoted_def json_quote_def json_escape_def)
qed

text \<open>
  C9, as stated, fails on a preflight: an \<^verbatim>\<open>OPTIONS\<close> request whose body does not parse is
  answered 200 with no body, before the body is read.
\<close>

theorem options_unparseable_counterexample:
  "serve all_keys_env offline_server
         \<lparr>req_method = ''OPTIONS'',
          req_json = Inl (JsError ''SyntaxError'' ''Unexpected end of JSON input'')\<rparr> [] =
     (Inr \<lparr>status = 200,
            headers = [(''Access-Control-Allow-Origin'', ''*''),
                       (''Access-Control-Allow-Headers'',
                        ''authorization, x-client-info, apikey, content-type'')],
            body = None\<rparr>,
      [])"
  by (simp add: serve_def serve_with_def corsHeaders_def returnE_def)

text \<open>
  The validation itself: a body that parses to any value but \<^verbatim>\<open>null\<close>, and whose \<^verbatim>\<open>prompt\<close>
  is missing, not a string, or the empty string, is answered 400 and nothing else happens.
\<close>

lemma falsy_or_not_string:
  "(\<not> truthy v \<or> \<not> typeof_string v) = (\<forall>s. v = Some (JStr s) \<longrightarrow> s = [])"
  by (cases v rule: typeof_string.cases) auto

lemma missing_prompt_400:
  assumes "req_method req \<noteq> ''OPTIONS''" and "req_json req = Inr v" and "v \<noteq> JNull"
    and "\<forall>s. own_prop v ''prompt'' = Some (JStr s) \<longrightarrow> s = []"
  shows "serve_with as req t =
           (Inr (json_response 400 (JObj [(''error'', JStr ''Missing 'prompt' string in body'')])), t)"
proof -
  have "\<not> truthy (own_prop v ''prompt'') \<or> \<not> typeof_string (own_prop v ''prompt'')"
    using assms(4) falsy_or_not_string [of "own_prop v ''prompt''"] by blast
  then show ?thesis
    using assms(1-3) by (auto simp add: serve_with_def destructure_prompt_def) (simp_all add: returnE_def)
qed

text \<open>
  C8.  Every JSON body that lacks a \<^verbatim>\<open>prompt\<close> is to be answered 400 with
  \<^verbatim>\<open>Missing 'prompt' string in body\<close>.  The body \<^verbatim>\<open>null\<close> lacks it, yet there the destructuring
  \<^verbatim>\<open>const { prompt } = null\<close> throws before the validation is reached, and the handler answers
  500 \<^verbatim>\<open>Unexpected error\<close>.  (No adapter is invoked in either case.)
\<close>

theorem null_body_500:
  "serve_with as \<lparr>req_method = ''POST'', req_json = Inr JNull\<rparr> t =
     (Inr (json_response 500
             (JObj [(''error'', JStr ''Unexpected error''),
                    (''details'',
                       JStr ''TypeError: Cannot destructure property 'prompt' of '(intermediate value)' as it is null.'')])),
      t @ [ConsoleError ''ai-report handler error:''
             (TypeError ''Cannot destructure property 'prompt' of '(intermediate value)' as it is null.'')])"
  by (simp add: serve_with_def destructure_prompt_def bindE_console_error
      String_error_def TypeError_def) (simp add: returnE_def)

theorem null_body_500_witness:
  "serve Map.empty offline_server \<lparr>req_method = ''POST'', req_json = Inr JNull\<rparr> [] =
     (Inr (json_response 500
             (JObj [(''error'', JStr ''Unexpected error''),
                    (''details'',
                       JStr ''TypeError: Cannot destructure property 'prompt' of '(intermediate value)' as it is null.'')])),
      [ConsoleError ''ai-report handler error:''
         (TypeError ''Cannot destructure property 'prompt' of '(intermediate value)' as it is null.'')])"
  unfolding serve_def
  using null_body_500 [of "attempts Map.empty offline_server" "[]"] by simp

section \<open>Credentials\<close>

text \<open>
  C7.  An adapter whose credential is absent from the configuration (or is the empty string)
  returns at once the failure \<^verbatim>\<open><NAME> not set\<close> naming its credential, and leaves the trace
  as it found it: no \<^verbatim>\<open>fetch\<close> is issued.
\<close>

theorem missing_credential_no_call:
  "(env ''OPENAI_API_KEY'' = None \<or> env ''OPENAI_API_KEY'' = Some [] \<longrightarrow>
      tryOpenAI env srv prompt t = (Inr (Fail ''openai'' ''OPENAI_API_KEY not set''), t)) \<and>
   (env ''OPENROUTER_API_KEY'' = None \<or> env ''OPENROUTER_API_KEY'' = Some [] \<longrightarrow>
      tryOpenRouter env srv prompt t = (Inr (Fail ''openrouter'' ''OPENROUTER_API_KEY not set''), t)) \<and>
   (env ''GOOGLE_GEMINI_API_KEY'' = None \<or> env ''GOOGLE_GEMINI_API_KEY'' = Some [] \<longrightarrow>
      tryGemini env srv prompt t = (Inr (Fail ''gemini'' ''GOOGLE_GEMINI_API_KEY not set''), t)) \<and>
   (env ''HUGGING_FACE_ACCESS_TOKEN'' = None \<or> env ''HUGGING_FACE_ACCESS_TOKEN'' = Some [] \<longrightarrow>
      tryHuggingFace env srv prompt t =
        (Inr (Fail ''huggingface'' ''HUGGING_FACE_ACCESS_TOKEN not set''), t)) \<and>
   (env ''REPLICATE_API_KEY'' = None \<or> env ''REPLICATE_API_KEY'' = Some [] \<longrightarrow>
      tryReplicate env srv prompt t = (Inr (Fail ''replicate'' ''REPLICATE_API_KEY not set''), t))"
  by (auto simp add: tryOpenAI_def tryOpenRouter_def tryGemini_def tryHuggingFace_def
      tryReplicate_def returnE_def)

theorem missing_credential_no_call_witness:
  "tryOpenAI Map.empty offline_server ''hi'' [] = (Inr (Fail ''openai'' ''OPENAI_API_KEY not set''), []) \<and>
   tryOpenRouter Map.empty offline_server ''hi'' [] = (Inr (Fail ''openrouter'' ''OPENROUTER_API_KEY not set''), []) \<and>
   tryGemini Map.empty offline_server ''hi'' [] = (Inr (Fail ''gemini'' ''GOOGLE_GEMINI_API_KEY not set''), []) \<and>
   tryHuggingFace Map.empty offline_server ''hi'' [] =
     (Inr (Fail ''huggingface'' ''HUGGING_FACE_ACCESS_TOKEN not set''), []) \<and>
   tryReplicate Map.empty offline_server ''hi'' [] = (Inr (Fail ''replicate'' ''REPLICATE_API_KEY not set''), [])"
  using missing_credential_no_call [of Map.empty offline_server "''hi''" "[]"] by simp

section \<open>The fallback loop\<close>

lemma run_attempts_first_success:
  assumes "list_all returned_failure (outcomes_of pre p t)"
    and "a p (trace_after pre p t) = (Inr (Ok pr txt), t')"
  shows "run_attempts (pre @ a # post) p rs t =
           (Inr (Inl (json_response 200 (JObj [(''provider'', JStr pr), (''text'', txt)]))), t')"
  using assms
proof (induction pre arbitrary: rs t)
  case Nil
  then show ?case by (simp add: bindE_def returnE_def)
next
  case (Cons b pre)
  from Cons.prems(1) obtain q e where "fst (b p t) = Inr (Fail q e)"
    by (cases "fst (b p t)" rule: returned_failure.cases) auto
  then have b: "b p t = (Inr (Fail q e), snd (b p t))"
    by (simp add: prod_eq_iff)
  have "run_attempts ((b # pre) @ a # post) p rs t =
          run_attempts (pre @ a # post) p (rs @ [JObj [(''provider'', JStr q), (''error'', JStr e)]]) (snd (b p t))"
    by (simp add: bindE_Inr [where m = "b p" and t = t, OF b])
  also have "\<dots> = (Inr (Inl (json_response 200 (JObj [(''provider'', JStr pr), (''text'', txt)]))), t')"
    using Cons.prems by (intro Cons.IH) simp_all
  finally show ?case .
qed

lemma run_attempts_all_failed:
  assumes "outcomes_of as p t = map (\<lambda>(q, e). Inr (Fail q e)) fs"
  shows "run_attempts as p rs t =
           (Inr (Inr (rs @ map (\<lambda>(q, e). attempt_entry q e) fs)), trace_after as p t)"
  using assms
proof (induction as arbitrary: rs t fs)
  case Nil
  then show ?case by (simp add: returnE_def)
next
  case (Cons b as)
  from Cons.prems obtain q e fs' where fs: "fs = (q, e) # fs'"
    and hd: "fst (b p t) = Inr (Fail q e)"
    and tl: "outcomes_of as p (snd (b p t)) = map (\<lambda>(q, e). Inr (Fail q e)) fs'"
    by (cases fs) auto
  have b: "b p t = (Inr (Fail q e), snd (b p t))"
    using hd by (simp add: prod_eq_iff)
  show ?case
    by (simp add: bindE_Inr [where m = "b p" and t = t, OF b] Cons.IH [OF tl] fs attempt_entry_def)
qed

lemma tryOpenAI_provider: "fst (tryOpenAI env srv p t) = Inr out \<Longrightarrow> out_provider out = ''openai''"
  by (auto simp add: tryOpenAI_def catchE_def bindE_def returnE_def console_error_def
      split: option.splits if_splits prod.splits sum.splits)

lemma serve_with_valid_prompt:
  assumes "req_method req \<noteq> ''OPTIONS''" and "req_json req = Inr v"
    and "destructure_prompt v = Inr (Some (JStr p))" and "p \<noteq> []"
    and "run_attempts as p [] t = (Inr r, t')"
  shows "serve_with as req t =
           (Inr (case r of
                   Inl resp \<Rightarrow> resp
                 | Inr results \<Rightarrow>
                     json_response 502
                       (JObj [(''error'', JStr ''All providers failed''),
                              (''attempts'', JArr results)])), t')"
proof -
  let ?k = "\<lambda>r. case r of
                 Inl resp \<Rightarrow> returnE resp
               | Inr results \<Rightarrow>
                   returnE (json_response 502
                     (JObj [(''error'', JStr ''All providers failed''),
                            (''attempts'', JArr results)]))"
  have "bindE (run_attempts as p []) ?k t = ?k r t'"
    using assms(5) by (rule bindE_Inr)
  then have "bindE (run_attempts as p []) ?k t =
               (Inr (case r of
                   Inl resp \<Rightarrow> resp
                 | Inr results \<Rightarrow>
                     json_response 502
                       (JObj [(''error'', JStr ''All providers failed''),
                              (''attempts'', JArr results)])), t')"
    by (simp add: returnE_def split: sum.splits)
  then show ?thesis
    using assms(1-4) by (simp add: serve_with_def catchE_Inr)
qed

lemma tryOpenRouter_provider:
  "fst (tryOpenRouter env srv p t) = Inr out \<Longrightarrow> out_provider out = ''openrouter''"
  by (auto simp add: tryOpenRouter_def catchE_def bindE_def returnE_def console_error_def
      split: option.splits if_splits prod.splits sum.splits)

lemma tryGemini_provider:
  "fst (tryGemini env srv p t) = Inr out \<Longrightarrow> out_provider out = ''gemini''"
  by (auto simp add: tryGemini_def catchE_def bindE_def returnE_def console_error_def
      split: option.splits if_splits prod.splits sum.splits)

lemma tryHuggingFace_provider:
  "fst (tryHuggingFace env srv p t) = Inr out \<Longrightarrow> out_provider out = ''huggingface''"
  by (auto simp add: tryHuggingFace_def catchE_def bindE_def returnE_def console_error_def
      split: option.splits if_splits prod.splits sum.splits)

lemma tryReplicate_provider:
  "fst (tryReplicate env srv p t) = Inr out \<Longrightarrow> out_provider out = ''replicate''"
  by (auto simp add: tryReplicate_def catchE_def bindE_def returnE_def console_error_def
      split: option.splits if_splits prod.splits sum.splits)

lemma fixed_order_provider:
  assumes "k < 5"
    and "fst (([tryOpenAI env srv, tryOpenRouter env srv, tryGemini env srv,
                tryHuggingFace env srv, tryReplicate env srv] ! k) p t) = Inr out"
  shows "out_provider out = [''openai'', ''openrouter'', ''gemini'', ''huggingface'', ''replicate''] ! k"
proof -
  from assms(1) have "k = 0 \<or> k = 1 \<or> k = 2 \<or> k = 3 \<or> k = 4" by arith
  then show ?thesis
    using assms(2) tryOpenAI_provider [of env srv p t out] tryOpenRouter_provider [of env srv p t out]
      tryGemini_provider [of env srv p t out] tryHuggingFace_provider [of env srv p t out]
      tryReplicate_provider [of env srv p t out]
    by auto
qed

lemma serve_with_first_success:
  assumes "req_method req \<noteq> ''OPTIONS''" and "req_json req = Inr v"
    and "destructure_prompt v = Inr (Some (JStr p))" and "p \<noteq> []"
    and "list_all returned_failure (outcomes_of pre p t)"
    and "a p (trace_after pre p t) = (Inr (Ok pr tx), t')"
  shows "serve_with (pre @ a # post) req t =
           (Inr \<lparr>status = 200,
                  headers = corsHeaders @ [(''Content-Type'', ''application/json'')],
                  body = Some (json_stringify (JObj [(''provider'', JStr pr), (''text'', tx)]))\<rparr>,
            t')"
proof -
  have "run_attempts (pre @ a # post) p [] t =
          (Inr (Inl (json_response 200 (JObj [(''provider'', JStr pr), (''text'', tx)]))), t')"
    using assms(5,6) by (rule run_attempts_first_success)
  from serve_with_valid_prompt [OF assms(1-4) this] show ?thesis
    by (simp add: json_response_def)
qed

text \<open>
  C1.  The handler takes the adapters in the fixed order OpenAI, OpenRouter, Gemini,
  HuggingFace, Replicate.  If the first \<open>k\<close> of them, invoked in turn, return a failure and
  the next returns the success \<open>Ok pr tx\<close>, the answer has status 200 and the body
  \<^verbatim>\<open>{ provider, text }\<close> of that success, whose provider id is the one of position \<open>k\<close>, and
  the final trace is the one this adapter left.  No adapter after it is invoked: for any
  list \<open>pre @ a # post\<close> of adapters handled the same way, the answer and the final trace do
  not depend on \<open>post\<close>.
\<close>

theorem first_success_short_circuits:
  assumes "req_method req \<noteq> ''OPTIONS''" and "req_json req = Inr v"
    and "destructure_prompt v = Inr (Some (JStr p))" and "p \<noteq> []"
  shows "(k < 5 \<and>
          list_all returned_failure
            (outcomes_of
               (take k [tryOpenAI env srv, tryOpenRouter env srv, tryGemini env srv,
                        tryHuggingFace env srv, tryReplicate env srv]) p t) \<and>
          ([tryOpenAI env srv, tryOpenRouter env srv, tryGemini env srv,
            tryHuggingFace env srv, tryReplicate env srv] ! k) p
            (trace_after
               (take k [tryOpenAI env srv, tryOpenRouter env srv, tryGemini env srv,
                        tryHuggingFace env srv, tryReplicate env srv]) p t) =
            (Inr (Ok pr tx), t') \<longrightarrow>
          serve env srv req t =
            (Inr \<lparr>status = 200,
                   headers = corsHeaders @ [(''Content-Type'', ''application/json'')],
                   body = Some (json_stringify (JObj [(''provider'', JStr pr), (''text'', tx)]))\<rparr>,
             t') \<and>
          pr = [''openai'', ''openrouter'', ''gemini'', ''huggingface'', ''replicate''] ! k) \<and>
         (list_all returned_failure (outcomes_of pre p t) \<and>
          a p (trace_after pre p t) = (Inr (Ok pr tx), t') \<longrightarrow>
          serve_with (pre @ a # post) req t =
            (Inr \<lparr>status = 200,
                   headers = corsHeaders @ [(''Content-Type'', ''application/json'')],
                   body = Some (json_stringify (JObj [(''provider'', JStr pr), (''text'', tx)]))\<rparr>,
             t'))"
proof (intro conjI impI)
  let ?L = "[tryOpenAI env srv, tryOpenRouter env srv, tryGemini env srv,
             tryHuggingFace env srv, tryReplicate env srv]"
  assume h: "k < 5 \<and> list_all returned_failure (outcomes_of (take k ?L) p t) \<and>
             (?L ! k) p (trace_after (take k ?L) p t) = (Inr (Ok pr tx), t')"
  then have k: "k < length ?L" by simp
  from h have h1: "list_all returned_failure (outcomes_of (take k ?L) p t)"
    and h2: "(?L ! k) p (trace_after (take k ?L) p t) = (Inr (Ok pr tx), t')"
    by blast+
  have split: "?L = take k ?L @ (?L ! k) # drop (Suc k) ?L"
    using k by (rule id_take_nth_drop)
  have "serve_with (take k ?L @ (?L ! k) # drop (Suc k) ?L) req t =
            (Inr \<lparr>status = 200,
                   headers = corsHeaders @ [(''Content-Type'', ''application/json'')],
                   body = Some (json_stringify (JObj [(''provider'', JStr pr), (''text'', tx)]))\<rparr>,
             t')"
    by (rule serve_with_first_success
        [where pre = "take k ?L" and a = "?L ! k", OF assms h1 h2])
  then show "serve env srv req t =
            (Inr \<lparr>status = 200,
                   headers = corsHeaders @ [(''Content-Type'', ''application/json'')],
                   body = Some (json_stringify (JObj [(''provider'', JStr pr), (''text'', tx)]))\<rparr>,
             t')"
    using split by (simp add: serve_def attempts_def)
  have "fst ((?L ! k) p (trace_after (take k ?L) p t)) = Inr (Ok pr tx)"
    using h by simp
  from fixed_order_provider [OF _ this] h
  show "pr = [''openai'', ''openrouter'', ''gemini'', ''huggingface'', ''replicate''] ! k"
    by simp
next
  assume "list_all returned_failure (outcomes_of pre p t) \<and>
          a p (trace_after pre p t) = (Inr (Ok pr tx), t')"
  then have g1: "list_all returned_failure (outcomes_of pre p t)"
    and g2: "a p (trace_after pre p t) = (Inr (Ok pr tx), t')"
    by blast+
  show "serve_with (pre @ a # post) req t =
            (Inr \<lparr>status = 200,
                   headers = corsHeaders @ [(''Content-Type'', ''application/json'')],
                   body = Some (json_stringify (JObj [(''provider'', JStr pr), (''text'', tx)]))\<rparr>,
             t')"
    by (rule serve_with_first_success [where pre = pre and a = a, OF assms g1 g2])
qed


theorem first_success_short_circuits_witness:
  "serve all_keys_env third_succeeds_server example_request [] =
     (Inr \<lparr>status = 200,
            headers = [(''Access-Control-Allow-Origin'', ''*''),
                       (''Access-Control-Allow-Headers'',
                        ''authorization, x-client-info, apikey, content-type''),
                       (''Content-Type'', ''application/json'')],
            body = Some (''{'' @ quoted ''provider'' @ '':'' @ quoted ''gemini'' @ '','' @
                         quoted ''text'' @ '':'' @ quoted ''hello'' @ ''}'')\<rparr>,
      [Fetch (openai_request ''k1'' ''hi''),
       ConsoleError ''OpenAI error:'' (TypeError ''error sending request''),
       Fetch (openrouter_request ''k2'' ''hi''),
       ConsoleError ''OpenRouter error:'' (Error ''OpenRouter HTTP 500''),
       Fetch (gemini_request ''k3'' ''hi'')]) \<and>
   serve_with
     ([tryOpenAI all_keys_env third_succeeds_server,
       tryOpenRouter all_keys_env third_succeeds_server] @
      tryGemini all_keys_env third_succeeds_server #
      [\<lambda>prompt. throwE (Error ''invoked after the success'')])
     example_request [] =
     (Inr \<lparr>status = 200,
            headers = [(''Access-Control-Allow-Origin'', ''*''),
                       (''Access-Control-Allow-Headers'',
                        ''authorization, x-client-info, apikey, content-type''),
                       (''Content-Type'', ''application/json'')],
            body = Some (''{'' @ quoted ''provider'' @ '':'' @ quoted ''gemini'' @ '','' @
                         quoted ''text'' @ '':'' @ quoted ''hello'' @ ''}'')\<rparr>,
      [Fetch (openai_request ''k1'' ''hi''),
       ConsoleError ''OpenAI error:'' (TypeError ''error sending request''),
       Fetch (openrouter_request ''k2'' ''hi''),
       ConsoleError ''OpenRouter error:'' (Error ''OpenRouter HTTP 500''),
       Fetch (gemini_request ''k3'' ''hi'')])"
proof -
  let ?e = all_keys_env and ?s = third_succeeds_server
  let ?L = "[tryOpenAI ?e ?s, tryOpenRouter ?e ?s, tryGemini ?e ?s, tryHuggingFace ?e ?s,
             tryReplicate ?e ?s]"
  let ?t1 = "[Fetch (openai_request ''k1'' ''hi''),
              ConsoleError ''OpenAI error:'' (TypeError ''error sending request'')]"
  let ?t2 = "?t1 @ [Fetch (openrouter_request ''k2'' ''hi''),
              ConsoleError ''OpenRouter error:'' (Error ''OpenRouter HTTP 500'')]"
  let ?t3 = "?t2 @ [Fetch (gemini_request ''k3'' ''hi'')]"
  have m: "req_method example_request \<noteq> ''OPTIONS''"
    by (simp add: example_request_def)
  have j: "req_json example_request = Inr (JObj [(''prompt'', JStr ''hi'')])"
    by (simp add: example_request_def)
  have d: "destructure_prompt (JObj [(''prompt'', JStr ''hi'')]) = Inr (Some (JStr ''hi''))"
    by (simp add: destructure_prompt_def)
  have n: "''hi'' \<noteq> []" by simp
  have o1: "tryOpenAI ?e ?s ''hi'' [] =
      (Inr (Fail ''openai'' ''TypeError: error sending request''), ?t1)"
    by (simp add: tryOpenAI_def all_keys_env_def openai_attempt_def third_succeeds_server_def
        openai_request_def String_error_def TypeError_def effect_defs)
  have o2: "tryOpenRouter ?e ?s ''hi'' ?t1 =
      (Inr (Fail ''openrouter'' ''Error: OpenRouter HTTP 500''), ?t2)"
    by (simp add: tryOpenRouter_def all_keys_env_def openrouter_attempt_def
        third_succeeds_server_def openai_request_def openrouter_request_def res_ok_def
        String_error_def Error_def effect_defs)
  have o3: "tryGemini ?e ?s ''hi'' ?t2 = (Inr (Ok ''gemini'' (JStr ''hello'')), ?t3)"
    by (simp add: tryGemini_def all_keys_env_def gemini_attempt_def third_succeeds_server_def
        gemini_hello_server_def openai_request_def openrouter_request_def gemini_request_def
        gemini_text_def gemini_part_text_def require_text_def res_ok_def effect_defs)
  have tk: "take 2 ?L = [tryOpenAI ?e ?s, tryOpenRouter ?e ?s]" and nt: "?L ! 2 = tryGemini ?e ?s"
    by (simp_all add: numeral_2_eq_2)
  have f: "list_all returned_failure (outcomes_of [tryOpenAI ?e ?s, tryOpenRouter ?e ?s] ''hi'' [])"
    using o2 by (simp add: o1)
  have a: "tryGemini ?e ?s ''hi'' (trace_after [tryOpenAI ?e ?s, tryOpenRouter ?e ?s] ''hi'' []) =
      (Inr (Ok ''gemini'' (JStr ''hello'')), ?t3)"
    using o3 by (simp add: o1 o2)
  note T = first_success_short_circuits [OF m j d n, where env = ?e and srv = ?s and k = 2
      and t = "[]" and pr = "''gemini''" and tx = "JStr ''hello''" and t' = ?t3
      and pre = "[tryOpenAI ?e ?s, tryOpenRouter ?e ?s]" and a = "tryGemini ?e ?s"
      and post = "[\<lambda>prompt. throwE (Error ''invoked after the success'')]"]
  have r1: "serve ?e ?s example_request [] =
            (Inr \<lparr>status = 200,
                   headers = corsHeaders @ [(''Content-Type'', ''application/json'')],
                   body = Some (json_stringify
                            (JObj [(''provider'', JStr ''gemini''), (''text'', JStr ''hello'')]))\<rparr>,
             ?t3)"
    using T [THEN conjunct1] f a by (simp add: tk nt)
  have r2: "serve_with
     ([tryOpenAI ?e ?s, tryOpenRouter ?e ?s] @ tryGemini ?e ?s #
      [\<lambda>prompt. throwE (Error ''invoked after the success'')])
     example_request [] =
            (Inr \<lparr>status = 200,
                   headers = corsHeaders @ [(''Content-Type'', ''application/json'')],
                   body = Some (json_stringify
                            (JObj [(''provider'', JStr ''gemini''), (''text'', JStr ''hello'')]))\<rparr>,
             ?t3)"
    using T [THEN conjunct2] f a by simp
  have b: "json_stringify (JObj [(''provider'', JStr ''gemini''), (''text'', JStr ''hello'')]) =
      ''{'' @ quoted ''provider'' @ '':'' @ quoted ''gemini'' @ '','' @
      quoted ''text'' @ '':'' @ quoted ''hello'' @ ''}''"
    by (simp add: quoted_def json_quote_def json_escape_def)
  show ?thesis
    unfolding r1 r2 b by (simp add: corsHeaders_def)
qed


text \<open>
  C2.  When the five adapters, invoked in turn in the fixed order, all return a failure, the
  answer has status 502 and the body \<^verbatim>\<open>{ error: "All providers failed", attempts }\<close>, where
  \<^verbatim>\<open>attempts\<close> has exactly five entries, for \<^verbatim>\<open>openai\<close>, \<^verbatim>\<open>openrouter\<close>, \<^verbatim>\<open>gemini\<close>,
  \<^verbatim>\<open>huggingface\<close>, \<^verbatim>\<open>replicate\<close> in this order, each with the reason its own adapter gave.
\<close>

theorem all_failed_502:
  assumes "req_method req \<noteq> ''OPTIONS''" and "req_json req = Inr v"
    and "destructure_prompt v = Inr (Some (JStr p))" and "p \<noteq> []"
    and "outcomes_of [tryOpenAI env srv, tryOpenRouter env srv, tryGemini env srv,
                          tryHuggingFace env srv, tryReplicate env srv] p t =
           [Inr (Fail q1 e1), Inr (Fail q2 e2), Inr (Fail q3 e3), Inr (Fail q4 e4),
            Inr (Fail q5 e5)]"
  shows "serve env srv req t =
           (Inr \<lparr>status = 502,
                  headers = corsHeaders @ [(''Content-Type'', ''application/json'')],
                  body = Some (json_stringify
                    (JObj [(''error'', JStr ''All providers failed''),
                           (''attempts'',
                              JArr [JObj [(''provider'', JStr ''openai''), (''error'', JStr e1)],
                                    JObj [(''provider'', JStr ''openrouter''), (''error'', JStr e2)],
                                    JObj [(''provider'', JStr ''gemini''), (''error'', JStr e3)],
                                    JObj [(''provider'', JStr ''huggingface''), (''error'', JStr e4)],
                                    JObj [(''provider'', JStr ''replicate''), (''error'', JStr e5)]])]))\<rparr>,
            trace_after [tryOpenAI env srv, tryOpenRouter env srv, tryGemini env srv,
                          tryHuggingFace env srv, tryReplicate env srv] p t)"
proof -
  have q: "q1 = ''openai''" "q2 = ''openrouter''" "q3 = ''gemini''" "q4 = ''huggingface''"
    "q5 = ''replicate''"
    using assms(5) tryOpenAI_provider [of env srv p t "Fail q1 e1"]
      tryOpenRouter_provider [of env srv p _ "Fail q2 e2"]
      tryGemini_provider [of env srv p _ "Fail q3 e3"]
      tryHuggingFace_provider [of env srv p _ "Fail q4 e4"]
      tryReplicate_provider [of env srv p _ "Fail q5 e5"]
    by auto
  have "outcomes_of (attempts env srv) p t =
          map (\<lambda>(q, e). Inr (Fail q e)) [(q1, e1), (q2, e2), (q3, e3), (q4, e4), (q5, e5)]"
    using assms(5) by (simp add: attempts_def)
  then have "run_attempts (attempts env srv) p [] t =
          (Inr (Inr ([] @ map (\<lambda>(q, e). attempt_entry q e)
                            [(q1, e1), (q2, e2), (q3, e3), (q4, e4), (q5, e5)])),
           trace_after (attempts env srv) p t)"
    by (rule run_attempts_all_failed)
  from serve_with_valid_prompt [OF assms(1-4) this] show ?thesis
    by (simp add: serve_def q json_response_def attempt_entry_def attempts_def)
qed

theorem all_failed_502_witness:
  "serve all_keys_env faulty_server example_request [] =
     (Inr \<lparr>status = 502,
            headers = [(''Access-Control-Allow-Origin'', ''*''),
                       (''Access-Control-Allow-Headers'',
                        ''authorization, x-client-info, apikey, content-type''),
                       (''Content-Type'', ''application/json'')],
            body = Some
              (''{'' @ quoted ''error'' @ '':'' @ quoted ''All providers failed'' @ '','' @
               quoted ''attempts'' @ '':['' @
               ''{'' @ quoted ''provider'' @ '':'' @ quoted ''openai'' @ '','' @
                 quoted ''error'' @ '':'' @ quoted ''TypeError: error sending request'' @ ''},'' @
               ''{'' @ quoted ''provider'' @ '':'' @ quoted ''openrouter'' @ '','' @
                 quoted ''error'' @ '':'' @ quoted ''Error: OpenRouter HTTP 500'' @ ''},'' @
               ''{'' @ quoted ''provider'' @ '':'' @ quoted ''gemini'' @ '','' @
                 quoted ''error'' @ '':'' @
                 quoted ''SyntaxError: Unexpected end of JSON input'' @ ''},'' @
               ''{'' @ quoted ''provider'' @ '':'' @ quoted ''huggingface'' @ '','' @
                 quoted ''error'' @ '':'' @ quoted ''Error: HuggingFace HTTP 503'' @ ''},'' @
               ''{'' @ quoted ''provider'' @ '':'' @ quoted ''replicate'' @ '','' @
                 quoted ''error'' @ '':'' @
                 quoted ''TypeError: Cannot read properties of null (reading 'status')'' @
               ''}]}'')\<rparr>,
      [Fetch (openai_request ''k1'' ''hi''),
       ConsoleError ''OpenAI error:'' (TypeError ''error sending request''),
       Fetch (openrouter_request ''k2'' ''hi''),
       ConsoleError ''OpenRouter error:'' (Error ''OpenRouter HTTP 500''),
       Fetch (gemini_request ''k3'' ''hi''),
       ConsoleError ''Gemini error:'' (JsError ''SyntaxError'' ''Unexpected end of JSON input''),
       Fetch (huggingface_request ''k4'' ''hi''),
       ConsoleError ''HuggingFace error:'' (Error ''HuggingFace HTTP 503''),
       Fetch (replicate_request ''k5'' ''hi''),
       Fetch (status_request ''k5'' ''status-url''),
       ConsoleError ''Replicate error:''
         (TypeError ''Cannot read properties of null (reading 'status')'')])"
proof -
  let ?e = all_keys_env and ?s = faulty_server
  have m: "req_method example_request \<noteq> ''OPTIONS''"
    by (simp add: example_request_def)
  have j: "req_json example_request = Inr (JObj [(''prompt'', JStr ''hi'')])"
    by (simp add: example_request_def)
  have d: "destructure_prompt (JObj [(''prompt'', JStr ''hi'')]) = Inr (Some (JStr ''hi''))"
    by (simp add: destructure_prompt_def)
  have n: "''hi'' \<noteq> []" by simp
  have o1: "tryOpenAI ?e ?s ''hi'' t =
      (Inr (Fail ''openai'' ''TypeError: error sending request''),
       t @ [Fetch (openai_request ''k1'' ''hi''),
            ConsoleError ''OpenAI error:'' (TypeError ''error sending request'')])" for t
    by (simp add: tryOpenAI_def all_keys_env_def openai_attempt_def faulty_server_def
        openai_request_def String_error_def TypeError_def effect_defs)
  have o2: "tryOpenRouter ?e ?s ''hi'' t =
      (Inr (Fail ''openrouter'' ''Error: OpenRouter HTTP 500''),
       t @ [Fetch (openrouter_request ''k2'' ''hi''),
            ConsoleError ''OpenRouter error:'' (Error ''OpenRouter HTTP 500'')])" for t
    by (simp add: tryOpenRouter_def all_keys_env_def openrouter_attempt_def faulty_server_def
        openai_request_def openrouter_request_def res_ok_def String_error_def Error_def
        effect_defs)
  have o3: "tryGemini ?e ?s ''hi'' t =
      (Inr (Fail ''gemini'' ''SyntaxError: Unexpected end of JSON input''),
       t @ [Fetch (gemini_request ''k3'' ''hi''),
            ConsoleError ''Gemini error:''
              (JsError ''SyntaxError'' ''Unexpected end of JSON input'')])" for t
    by (simp add: tryGemini_def all_keys_env_def gemini_attempt_def faulty_server_def
        openai_request_def openrouter_request_def gemini_request_def res_ok_def
        String_error_def effect_defs)
  have o4: "tryHuggingFace ?e ?s ''hi'' t =
      (Inr (Fail ''huggingface'' ''Error: HuggingFace HTTP 503''),
       t @ [Fetch (huggingface_request ''k4'' ''hi''),
            ConsoleError ''HuggingFace error:'' (Error ''HuggingFace HTTP 503'')])" for t
    by (simp add: tryHuggingFace_def all_keys_env_def huggingface_attempt_def faulty_server_def
        openai_request_def openrouter_request_def gemini_request_def huggingface_request_def
        res_ok_def String_error_def Error_def effect_defs)
  have o5: "tryReplicate ?e ?s ''hi'' t =
      (Inr (Fail ''replicate'' ''TypeError: Cannot read properties of null (reading 'status')''),
       t @ [Fetch (replicate_request ''k5'' ''hi''), Fetch (status_request ''k5'' ''status-url''),
            ConsoleError ''Replicate error:''
              (TypeError ''Cannot read properties of null (reading 'status')'')])" for t
    by (simp add: tryReplicate_def all_keys_env_def replicate_attempt_def
        replicate_poll.simps [of _ _ _ 0] faulty_server_def openai_request_def
        openrouter_request_def gemini_request_def huggingface_request_def replicate_request_def
        status_request_def res_ok_def when_truthy_def get_prop_def String_error_def
        TypeError_def effect_defs)
  have o: "outcomes_of [tryOpenAI ?e ?s, tryOpenRouter ?e ?s, tryGemini ?e ?s,
                        tryHuggingFace ?e ?s, tryReplicate ?e ?s] ''hi'' [] =
      [Inr (Fail ''openai'' ''TypeError: error sending request''),
       Inr (Fail ''openrouter'' ''Error: OpenRouter HTTP 500''),
       Inr (Fail ''gemini'' ''SyntaxError: Unexpected end of JSON input''),
       Inr (Fail ''huggingface'' ''Error: HuggingFace HTTP 503''),
       Inr (Fail ''replicate'' ''TypeError: Cannot read properties of null (reading 'status')'')]"
    by (simp add: o1 o2 o3 o4 o5)
  show ?thesis
    using all_failed_502 [OF m j d n o]
    by (simp add: o1 o2 o3 o4 o5 corsHeaders_def quoted_def json_quote_def json_escape_def)
qed

section \<open>Adapters never raise\<close>

lemma tryOpenAI_returns: "\<exists>out t'. tryOpenAI env srv p t = (Inr out, t')"
  by (auto simp add: tryOpenAI_def catchE_def bindE_def returnE_def console_error_def
      split: option.splits prod.splits sum.splits)

lemma tryOpenAI_downgrades:
  assumes "env ''OPENAI_API_KEY'' = Some key" and "key \<noteq> []"
    and "openai_attempt key srv p t = (Inl e, t')"
  shows "tryOpenAI env srv p t =
           (Inr (Fail ''openai'' (String_error e)), t' @ [ConsoleError ''OpenAI error:'' e])"
  using assms by (simp add: tryOpenAI_def catchE_def bindE_def returnE_def console_error_def)

lemma tryOpenRouter_returns: "\<exists>out t'. tryOpenRouter env srv p t = (Inr out, t')"
  by (auto simp add: tryOpenRouter_def catchE_def bindE_def returnE_def console_error_def
      split: option.splits prod.splits sum.splits)

lemma tryOpenRouter_downgrades:
  assumes "env ''OPENROUTER_API_KEY'' = Some key" and "key \<noteq> []"
    and "openrouter_attempt key srv p t = (Inl e, t')"
  shows "tryOpenRouter env srv p t =
           (Inr (Fail ''openrouter'' (String_error e)), t' @ [ConsoleError ''OpenRouter error:'' e])"
  using assms by (simp add: tryOpenRouter_def catchE_def bindE_def returnE_def console_error_def)

lemma tryGemini_returns: "\<exists>out t'. tryGemini env srv p t = (Inr out, t')"
  by (auto simp add: tryGemini_def catchE_def bindE_def returnE_def console_error_def
      split: option.splits prod.splits sum.splits)

lemma tryGemini_downgrades:
  assumes "env ''GOOGLE_GEMINI_API_KEY'' = Some key" and "key \<noteq> []"
    and "gemini_attempt key srv p t = (Inl e, t')"
  shows "tryGemini env srv p t =
           (Inr (Fail ''gemini'' (String_error e)), t' @ [ConsoleError ''Gemini error:'' e])"
  using assms by (simp add: tryGemini_def catchE_def bindE_def returnE_def console_error_def)

lemma tryHuggingFace_returns: "\<exists>out t'. tryHuggingFace env srv p t = (Inr out, t')"
  by (auto simp add: tryHuggingFace_def catchE_def bindE_def returnE_def console_error_def
      split: option.splits prod.splits sum.splits)

lemma tryHuggingFace_downgrades:
  assumes "env ''HUGGING_FACE_ACCESS_TOKEN'' = Some key" and "key \<noteq> []"
    and "huggingface_attempt key srv p t = (Inl e, t')"
  shows "tryHuggingFace env srv p t =
           (Inr (Fail ''huggingface'' (String_error e)), t' @ [ConsoleError ''HuggingFace error:'' e])"
  using assms by (simp add: tryHuggingFace_def catchE_def bindE_def returnE_def console_error_def)

lemma tryReplicate_returns: "\<exists>out t'. tryReplicate env srv p t = (Inr out, t')"
  by (auto simp add: tryReplicate_def catchE_def bindE_def returnE_def console_error_def
      split: option.splits prod.splits sum.splits)

lemma tryReplicate_downgrades:
  assumes "env ''REPLICATE_API_KEY'' = Some key" and "key \<noteq> []"
    and "replicate_attempt key srv p t = (Inl e, t')"
  shows "tryReplicate env srv p t =
           (Inr (Fail ''replicate'' (String_error e)), t' @ [ConsoleError ''Replicate error:'' e])"
  using assms by (simp add: tryReplicate_def catchE_def bindE_def returnE_def console_error_def)

text \<open>
  C4.  Whatever the configuration, the prompt and the behaviour of the network (\<^verbatim>\<open>fetch\<close>
  rejecting, any status, a body that does not parse, any parsed value), each of the five
  adapters returns an outcome and does not throw.  And whatever its \<^verbatim>\<open>try\<close> block throws is
  caught: the adapter logs the error and returns the failure whose reason is \<^verbatim>\<open>String(error)\<close>.
\<close>

theorem adapters_never_raise:
  "(\<exists>out t'. tryOpenAI env srv p t = (Inr out, t')) \<and>
   (\<exists>out t'. tryOpenRouter env srv p t = (Inr out, t')) \<and>
   (\<exists>out t'. tryGemini env srv p t = (Inr out, t')) \<and>
   (\<exists>out t'. tryHuggingFace env srv p t = (Inr out, t')) \<and>
   (\<exists>out t'. tryReplicate env srv p t = (Inr out, t')) \<and>
   (env ''OPENAI_API_KEY'' = Some key1 \<and> key1 \<noteq> [] \<and>
      openai_attempt key1 srv p t = (Inl e1, t1) \<longrightarrow>
      tryOpenAI env srv p t =
        (Inr (Fail ''openai'' (String_error e1)), t1 @ [ConsoleError ''OpenAI error:'' e1])) \<and>
   (env ''OPENROUTER_API_KEY'' = Some key2 \<and> key2 \<noteq> [] \<and>
      openrouter_attempt key2 srv p t = (Inl e2, t2) \<longrightarrow>
      tryOpenRouter env srv p t =
        (Inr (Fail ''openrouter'' (String_error e2)), t2 @ [ConsoleError ''OpenRouter error:'' e2])) \<and>
   (env ''GOOGLE_GEMINI_API_KEY'' = Some key3 \<and> key3 \<noteq> [] \<and>
      gemini_attempt key3 srv p t = (Inl e3, t3) \<longrightarrow>
      tryGemini env srv p t =
        (Inr (Fail ''gemini'' (String_error e3)), t3 @ [ConsoleError ''Gemini error:'' e3])) \<and>
   (env ''HUGGING_FACE_ACCESS_TOKEN'' = Some key4 \<and> key4 \<noteq> [] \<and>
      huggingface_attempt key4 srv p t = (Inl e4, t4) \<longrightarrow>
      tryHuggingFace env srv p t =
        (Inr (Fail ''huggingface'' (String_error e4)), t4 @ [ConsoleError ''HuggingFace error:'' e4])) \<and>
   (env ''REPLICATE_API_KEY'' = Some key5 \<and> key5 \<noteq> [] \<and>
      replicate_attempt key5 srv p t = (Inl e5, t5) \<longrightarrow>
      tryReplicate env srv p t =
        (Inr (Fail ''replicate'' (String_error e5)), t5 @ [ConsoleError ''Replicate error:'' e5]))"
  using tryOpenAI_returns [of env srv p t] tryOpenRouter_returns [of env srv p t]
    tryGemini_returns [of env srv p t] tryHuggingFace_returns [of env srv p t]
    tryReplicate_returns [of env srv p t]
    tryOpenAI_downgrades [of env key1 srv p t e1 t1] tryOpenRouter_downgrades [of env key2 srv p t e2 t2]
    tryGemini_downgrades [of env key3 srv p t e3 t3] tryHuggingFace_downgrades [of env key4 srv p t e4 t4]
    tryReplicate_downgrades [of env key5 srv p t e5 t5]
  by blast

theorem adapters_never_raise_witness:
  "tryOpenAI all_keys_env faulty_server ''hi'' [] =
     (Inr (Fail ''openai'' ''TypeError: error sending request''),
      [Fetch (openai_request ''k1'' ''hi''),
       ConsoleError ''OpenAI error:'' (TypeError ''error sending request'')]) \<and>
   tryOpenRouter all_keys_env faulty_server ''hi'' [] =
     (Inr (Fail ''openrouter'' ''Error: OpenRouter HTTP 500''),
      [Fetch (openrouter_request ''k2'' ''hi''),
       ConsoleError ''OpenRouter error:'' (Error ''OpenRouter HTTP 500'')]) \<and>
   tryGemini all_keys_env faulty_server ''hi'' [] =
     (Inr (Fail ''gemini'' ''SyntaxError: Unexpected end of JSON input''),
      [Fetch (gemini_request ''k3'' ''hi''),
       ConsoleError ''Gemini error:'' (JsError ''SyntaxError'' ''Unexpected end of JSON input'')]) \<and>
   tryHuggingFace all_keys_env faulty_server ''hi'' [] =
     (Inr (Fail ''huggingface'' ''Error: HuggingFace HTTP 503''),
      [Fetch (huggingface_request ''k4'' ''hi''),
       ConsoleError ''HuggingFace error:'' (Error ''HuggingFace HTTP 503'')]) \<and>
   tryReplicate all_keys_env faulty_server ''hi'' [] =
     (Inr (Fail ''replicate'' ''TypeError: Cannot read properties of null (reading 'status')''),
      [Fetch (replicate_request ''k5'' ''hi''), Fetch (status_request ''k5'' ''status-url''),
       ConsoleError ''Replicate error:''
         (TypeError ''Cannot read properties of null (reading 'status')'')])"
proof -
  have a1: "openai_attempt ''k1'' faulty_server ''hi'' [] =
      (Inl (TypeError ''error sending request''), [Fetch (openai_request ''k1'' ''hi'')])"
    by (simp add: openai_attempt_def faulty_server_def openai_request_def effect_defs)
  have a2: "openrouter_attempt ''k2'' faulty_server ''hi'' [] =
      (Inl (Error ''OpenRouter HTTP 500''), [Fetch (openrouter_request ''k2'' ''hi'')])"
    by (simp add: openrouter_attempt_def faulty_server_def openai_request_def
        openrouter_request_def res_ok_def effect_defs)
  have a3: "gemini_attempt ''k3'' faulty_server ''hi'' [] =
      (Inl (JsError ''SyntaxError'' ''Unexpected end of JSON input''),
       [Fetch (gemini_request ''k3'' ''hi'')])"
    by (simp add: gemini_attempt_def faulty_server_def openai_request_def openrouter_request_def
        gemini_request_def res_ok_def effect_defs)
  have a4: "huggingface_attempt ''k4'' faulty_server ''hi'' [] =
      (Inl (Error ''HuggingFace HTTP 503''), [Fetch (huggingface_request ''k4'' ''hi'')])"
    by (simp add: huggingface_attempt_def faulty_server_def openai_request_def
        openrouter_request_def gemini_request_def huggingface_request_def res_ok_def effect_defs)
  have a5: "replicate_attempt ''k5'' faulty_server ''hi'' [] =
      (Inl (TypeError ''Cannot read properties of null (reading 'status')''),
       [Fetch (replicate_request ''k5'' ''hi''), Fetch (status_request ''k5'' ''status-url'')])"
    by (simp add: replicate_attempt_def replicate_poll.simps [of _ _ _ 0] faulty_server_def
        openai_request_def openrouter_request_def
        gemini_request_def huggingface_request_def replicate_request_def status_request_def
        res_ok_def when_truthy_def get_prop_def effect_defs)
  show ?thesis
    using adapters_never_raise
      [where env = all_keys_env and srv = faulty_server and p = "''hi''" and t = "[]"
         and ?key1.0 = "''k1''" and ?key2.0 = "''k2''" and ?key3.0 = "''k3''" and ?key4.0 = "''k4''"
         and ?key5.0 = "''k5''"
         and ?e1.0 = "TypeError ''error sending request''"
         and ?t1.0 = "[Fetch (openai_request ''k1'' ''hi'')]"
         and ?e2.0 = "Error ''OpenRouter HTTP 500''"
         and ?t2.0 = "[Fetch (openrouter_request ''k2'' ''hi'')]"
         and ?e3.0 = "JsError ''SyntaxError'' ''Unexpected end of JSON input''"
         and ?t3.0 = "[Fetch (gemini_request ''k3'' ''hi'')]"
         and ?e4.0 = "Error ''HuggingFace HTTP 503''"
         and ?t4.0 = "[Fetch (huggingface_request ''k4'' ''hi'')]"
         and ?e5.0 = "TypeError ''Cannot read properties of null (reading 'status')''"
         and ?t5.0 = "[Fetch (replicate_request ''k5'' ''hi''), Fetch (status_request ''k5'' ''status-url'')]"]
    by (simp add: a1 a2 a3 a4 a5 all_keys_env_def String_error_def TypeError_def Error_def)
qed

section \<open>The polling protocol of the Replicate adapter\<close>

lemma poll_rounds_Suc:
  "poll_rounds (Suc n) key u = poll_rounds n key u @ [Fetch (status_request key u), Sleep 1000]"
  unfolding poll_rounds_def by (simp add: replicate_append_same [symmetric])

lemma poll_pending_step:
  assumes "i < 30" and "js_toString endpoint = Inr u"
    and "srv t (status_request key u) = Inr (FetchResponse st (Inr b))"
    and "pending_body b"
  shows "replicate_poll srv key endpoint i t =
           replicate_poll srv key endpoint (Suc i) (t @ [Fetch (status_request key u), Sleep 1000])"
  using assms
  by (subst replicate_poll.simps)
     (simp add: pending_body_def get_prop_def bindE_fetch bindE_sleep)


lemma poll_pending_rounds:
  assumes "js_toString endpoint = Inr u"
    and "\<forall>j<n. pending_read (srv (t @ poll_rounds j key u) (status_request key u))"
    and "i + n \<le> 30"
  shows "replicate_poll srv key endpoint i t =
           replicate_poll srv key endpoint (i + n) (t @ poll_rounds n key u)"
  using assms(2,3)
proof (induction n)
  case 0
  then show ?case by (simp add: poll_rounds_def)
next
  case (Suc n)
  have "pending_read (srv (t @ poll_rounds n key u) (status_request key u))"
    using Suc.prems(1) by simp
  then obtain st b where r: "srv (t @ poll_rounds n key u) (status_request key u) =
      Inr (FetchResponse st (Inr b))" and b: "pending_body b"
    by (cases "srv (t @ poll_rounds n key u) (status_request key u)" rule: pending_read.cases) auto
  have "replicate_poll srv key endpoint i t =
          replicate_poll srv key endpoint (i + n) (t @ poll_rounds n key u)"
    using Suc by simp
  also have "\<dots> = replicate_poll srv key endpoint (Suc (i + n))
                     ((t @ poll_rounds n key u) @ [Fetch (status_request key u), Sleep 1000])"
    using Suc.prems(2)
    by (intro poll_pending_step [where srv = srv and t = "t @ poll_rounds n key u", OF _ assms(1) r b])
       simp
  finally show ?case by (simp add: poll_rounds_Suc)
qed

lemma poll_timeout:
  assumes "js_toString endpoint = Inr u"
    and "\<forall>j<30. pending_read (srv (t @ poll_rounds j key u) (status_request key u))"
  shows "replicate_poll srv key endpoint 0 t =
           (Inl (Error ''Replicate timeout''), t @ poll_rounds 30 key u)"
proof -
  have "replicate_poll srv key endpoint 0 t =
          replicate_poll srv key endpoint (0 + 30) (t @ poll_rounds 30 key u)"
    using assms by (intro poll_pending_rounds) simp_all
  then show ?thesis
    by (simp add: replicate_poll.simps [of _ _ _ 30] throwE_def)
qed

lemma poll_success_on_30th:
  assumes "js_toString endpoint = Inr u"
    and "\<forall>j<29. pending_read (srv (t @ poll_rounds j key u) (status_request key u))"
    and "srv (t @ poll_rounds 29 key u) (status_request key u) = Inr (FetchResponse st (Inr b))"
    and "own_prop b ''status'' = Some (JStr ''succeeded'')"
    and "own_prop b ''output'' = Some (JStr x)" and "x \<noteq> []"
  shows "replicate_poll srv key endpoint 0 t =
           (Inr (JStr x), t @ poll_rounds 29 key u @ [Fetch (status_request key u)])"
proof -
  have nn: "b \<noteq> JNull" using assms(4) by auto
  have "replicate_poll srv key endpoint 0 t =
          replicate_poll srv key endpoint (0 + 29) (t @ poll_rounds 29 key u)"
    using assms(1,2) by (intro poll_pending_rounds) simp_all
  also have "\<dots> = (Inr (JStr x), (t @ poll_rounds 29 key u) @ [Fetch (status_request key u)])"
    using assms nn
    by (simp add: replicate_poll.simps [of _ _ _ 29] bindE_fetch get_prop_def
        replicate_output_text_def returnE_def)
  finally show ?thesis by simp
qed

lemma poll_reads_bounded:
  "\<exists>es. snd (replicate_poll srv key endpoint i t) = t @ es \<and>
        length (filter is_status_read es) \<le> 30 - i"
proof (induction "30 - i" arbitrary: i t)
  case 0
  then show ?case by (simp add: replicate_poll.simps [of _ _ _ i] throwE_def)
next
  case (Suc k)
  then have i: "i < 30" by simp
  show ?case
  proof (cases "js_toString endpoint")
    case (Inl e)
    then show ?thesis using i by (simp add: replicate_poll.simps [of _ _ _ i] throwE_def)
  next
    case (Inr u)
    let ?rq = "status_request key u"
    let ?t1 = "t @ [Fetch ?rq]"
    have rd: "is_status_read (Fetch ?rq)" by (simp add: status_request_def)
    have "snd (replicate_poll srv key endpoint i t) = ?t1 \<or>
          replicate_poll srv key endpoint i t =
            replicate_poll srv key endpoint (Suc i) (?t1 @ [Sleep 1000])"
      using i Inr
      by (simp add: replicate_poll.simps [of _ _ _ i] bindE_fetch)
         (auto simp add: effect_defs split: sum.splits prod.splits)
    then show ?thesis
    proof
      assume "snd (replicate_poll srv key endpoint i t) = ?t1"
      then show ?thesis using i rd by (intro exI [of _ "[Fetch ?rq]"]) simp
    next
      assume eq: "replicate_poll srv key endpoint i t =
            replicate_poll srv key endpoint (Suc i) (?t1 @ [Sleep 1000])"
      have "k = 30 - Suc i" using Suc.hyps(2) by simp
      from Suc.hyps(1) [OF this, of "?t1 @ [Sleep 1000]"]
      obtain es where es: "snd (replicate_poll srv key endpoint (Suc i) (?t1 @ [Sleep 1000])) =
          (?t1 @ [Sleep 1000]) @ es" and le: "length (filter is_status_read es) \<le> 30 - Suc i"
        by blast
      show ?thesis
        using es le i rd eq by (intro exI [of _ "[Fetch ?rq, Sleep 1000] @ es"]) simp
    qed
  qed
qed


lemma replicate_attempt_polls:
  assumes "srv t (replicate_request key p) = Inr (FetchResponse st (Inr data))"
    and "200 \<le> st" and "st \<le> 299"
    and "opt_prop (opt_prop (Some data) ''urls'') ''get'' = Some (JStr u)" and "u \<noteq> []"
  shows "replicate_attempt key srv p t =
           replicate_poll srv key (JStr u) 0 (t @ [Fetch (replicate_request key p)])"
  using assms by (simp add: replicate_attempt_def bindE_fetch res_ok_def when_truthy_def)

lemma tryReplicate_with_key:
  assumes "env ''REPLICATE_API_KEY'' = Some key" and "key \<noteq> []"
  shows "tryReplicate env srv p t =
           (case replicate_attempt key srv p t of
              (Inl e, t') \<Rightarrow>
                (Inr (Fail ''replicate'' (String_error e)), t' @ [ConsoleError ''Replicate error:'' e])
            | (Inr txt, t') \<Rightarrow> (Inr (Ok ''replicate'' txt), t'))"
  using assms
  by (simp add: tryReplicate_def catchE_def bindE_def returnE_def console_error_def
      split: prod.splits sum.splits)

lemma replicate_attempt_trace:
  "snd (replicate_attempt key srv p t) = t @ [Fetch (replicate_request key p)] \<or>
   (\<exists>endpoint. replicate_attempt key srv p t =
      replicate_poll srv key endpoint 0 (t @ [Fetch (replicate_request key p)]))"
  by (simp add: replicate_attempt_def bindE_fetch)
     (auto simp add: effect_defs split: sum.splits option.splits)

lemma tryReplicate_reads_bounded:
  "\<exists>es. snd (tryReplicate env srv p t) = t @ es \<and> length (filter is_status_read es) \<le> 30"
proof (cases "\<exists>key. env ''REPLICATE_API_KEY'' = Some key \<and> key \<noteq> []")
  case False
  then have "snd (tryReplicate env srv p t) = t"
    by (auto simp add: tryReplicate_def returnE_def split: option.splits)
  then show ?thesis by simp
next
  case True
  then obtain key where key: "env ''REPLICATE_API_KEY'' = Some key" "key \<noteq> []" by blast
  let ?post = "Fetch (replicate_request key p)"
  have np: "\<not> is_status_read ?post" by (simp add: replicate_request_def)
  have "\<exists>es. snd (replicate_attempt key srv p t) = t @ es \<and>
             length (filter is_status_read es) \<le> 30"
    using replicate_attempt_trace [of key srv p t]
  proof
    assume "snd (replicate_attempt key srv p t) = t @ [?post]"
    then show ?thesis using np by (intro exI [of _ "[?post]"]) simp
  next
    assume "\<exists>endpoint. replicate_attempt key srv p t =
              replicate_poll srv key endpoint 0 (t @ [?post])"
    then obtain endpoint where eq: "replicate_attempt key srv p t =
              replicate_poll srv key endpoint 0 (t @ [?post])" by blast
    from poll_reads_bounded [of srv key endpoint 0 "t @ [?post]"]
    obtain es where "snd (replicate_poll srv key endpoint 0 (t @ [?post])) = (t @ [?post]) @ es"
      and "length (filter is_status_read es) \<le> 30" by auto
    then show ?thesis using np eq by (intro exI [of _ "?post # es"]) simp
  qed
  then obtain es where es: "snd (replicate_attempt key srv p t) = t @ es"
    and le: "length (filter is_status_read es) \<le> 30" by blast
  show ?thesis
  proof (cases "fst (replicate_attempt key srv p t)")
    case (Inl e)
    then have "snd (tryReplicate env srv p t) = t @ es @ [ConsoleError ''Replicate error:'' e]"
      using es by (auto simp add: tryReplicate_with_key [where env = env, OF key] split: prod.splits)
    then show ?thesis using le by (intro exI [of _ "es @ [ConsoleError ''Replicate error:'' e]"]) simp
  next
    case (Inr out)
    then have "snd (tryReplicate env srv p t) = t @ es"
      using es by (auto simp add: tryReplicate_with_key [where env = env, OF key] split: prod.splits)
    then show ?thesis using le by blast
  qed
qed

lemma tryReplicate_timeout:
  assumes "env ''REPLICATE_API_KEY'' = Some key" and "key \<noteq> []"
    and "srv t (replicate_request key p) = Inr (FetchResponse st (Inr data))"
    and "200 \<le> st" and "st \<le> 299"
    and "opt_prop (opt_prop (Some data) ''urls'') ''get'' = Some (JStr u)" and "u \<noteq> []"
    and "\<forall>j<30. pending_read
       (srv (t @ Fetch (replicate_request key p) # poll_rounds j key u) (status_request key u))"
  shows "tryReplicate env srv p t =
      (Inr (Fail ''replicate'' ''Error: Replicate timeout''),
       t @ Fetch (replicate_request key p) # poll_rounds 30 key u @
         [ConsoleError ''Replicate error:'' (Error ''Replicate timeout'')])"
proof -
  let ?t0 = "t @ [Fetch (replicate_request key p)]"
  have "replicate_attempt key srv p t = replicate_poll srv key (JStr u) 0 ?t0"
    using assms(3-7) by (rule replicate_attempt_polls)
  also have "\<dots> = (Inl (Error ''Replicate timeout''), ?t0 @ poll_rounds 30 key u)"
    using assms(8) by (intro poll_timeout) simp_all
  finally show ?thesis
    by (simp add: tryReplicate_with_key [where env = env, OF assms(1,2)] String_error_def Error_def)
qed

lemma tryReplicate_success_on_30th:
  assumes "env ''REPLICATE_API_KEY'' = Some key" and "key \<noteq> []"
    and "srv t (replicate_request key p) = Inr (FetchResponse st (Inr data))"
    and "200 \<le> st" and "st \<le> 299"
    and "opt_prop (opt_prop (Some data) ''urls'') ''get'' = Some (JStr u)" and "u \<noteq> []"
    and "\<forall>j<29. pending_read
       (srv (t @ Fetch (replicate_request key p) # poll_rounds j key u) (status_request key u))"
    and "srv (t @ Fetch (replicate_request key p) # poll_rounds 29 key u) (status_request key u) =
      Inr (FetchResponse st' (Inr b))"
    and "own_prop b ''status'' = Some (JStr ''succeeded'')"
    and "own_prop b ''output'' = Some (JStr x)" and "x \<noteq> []"
  shows "tryReplicate env srv p t =
      (Inr (Ok ''replicate'' (JStr x)),
       t @ Fetch (replicate_request key p) # poll_rounds 29 key u @ [Fetch (status_request key u)])"
proof -
  let ?t0 = "t @ [Fetch (replicate_request key p)]"
  have "replicate_attempt key srv p t = replicate_poll srv key (JStr u) 0 ?t0"
    using assms(3-7) by (rule replicate_attempt_polls)
  also have "\<dots> = (Inr (JStr x), ?t0 @ poll_rounds 29 key u @ [Fetch (status_request key u)])"
    using assms(8-12) by (intro poll_success_on_30th [where st = st' and b = b]) simp_all
  finally show ?thesis
    by (simp add: tryReplicate_with_key [where env = env, OF assms(1,2)])
qed

text \<open>
  C3.  Let the Replicate credential be set and the submission be answered 2xx with a body
  whose \<^verbatim>\<open>urls.get\<close> is the non-empty string \<open>u\<close>.
  \<^item> If each of the 30 status reads is pending, the adapter returns the failure
    \<^verbatim>\<open>Error: Replicate timeout\<close>, after the submission and exactly 30 rounds of a status read
    and a delay.
  \<^item> If the first 29 status reads are pending and the 30th answers \<^verbatim>\<open>succeeded\<close> with the
    non-empty string \<open>x\<close> as output, the adapter returns the success with text \<open>x\<close>.
  \<^item> In every run whatsoever, the events the adapter adds contain at most 30 status reads.
\<close>

theorem replicate_polling:
  "(env ''REPLICATE_API_KEY'' = Some key \<and> key \<noteq> [] \<and>
    srv t (replicate_request key p) = Inr (FetchResponse st (Inr data)) \<and>
    200 \<le> st \<and> st \<le> 299 \<and>
    opt_prop (opt_prop (Some data) ''urls'') ''get'' = Some (JStr u) \<and> u \<noteq> [] \<and>
    (\<forall>j<30. pending_read
       (srv (t @ Fetch (replicate_request key p) # poll_rounds j key u) (status_request key u))) \<longrightarrow>
    tryReplicate env srv p t =
      (Inr (Fail ''replicate'' ''Error: Replicate timeout''),
       t @ Fetch (replicate_request key p) # poll_rounds 30 key u @
         [ConsoleError ''Replicate error:'' (Error ''Replicate timeout'')])) \<and>
   (env ''REPLICATE_API_KEY'' = Some key \<and> key \<noteq> [] \<and>
    srv t (replicate_request key p) = Inr (FetchResponse st (Inr data)) \<and>
    200 \<le> st \<and> st \<le> 299 \<and>
    opt_prop (opt_prop (Some data) ''urls'') ''get'' = Some (JStr u) \<and> u \<noteq> [] \<and>
    (\<forall>j<29. pending_read
       (srv (t @ Fetch (replicate_request key p) # poll_rounds j key u) (status_request key u))) \<and>
    srv (t @ Fetch (replicate_request key p) # poll_rounds 29 key u) (status_request key u) =
      Inr (FetchResponse st' (Inr b)) \<and>
    own_prop b ''status'' = Some (JStr ''succeeded'') \<and>
    own_prop b ''output'' = Some (JStr x) \<and> x \<noteq> [] \<longrightarrow>
    tryReplicate env srv p t =
      (Inr (Ok ''replicate'' (JStr x)),
       t @ Fetch (replicate_request key p) # poll_rounds 29 key u @ [Fetch (status_request key u)])) \<and>
   (\<exists>es. snd (tryReplicate env srv p t) = t @ es \<and> length (filter is_status_read es) \<le> 30)"
  using tryReplicate_timeout [of env key srv t p st data u]
    tryReplicate_success_on_30th [of env key srv t p st data u st' b x]
    tryReplicate_reads_bounded [of env srv p t]
  by blast


lemma status_reads_poll_rounds: "length (filter is_status_read (poll_rounds n key u)) = n"
  by (induction n) (simp_all add: poll_rounds_def status_request_def)

theorem replicate_polling_witness:
  "tryReplicate replicate_only_env always_pending_server ''hi'' [] =
     (Inr (Fail ''replicate'' ''Error: Replicate timeout''),
      [] @ Fetch (replicate_request ''k'' ''hi'') # poll_rounds 30 ''k'' ''status-url'' @
        [ConsoleError ''Replicate error:'' (Error ''Replicate timeout'')]) \<and>
   tryReplicate replicate_only_env succeeds_on_30th_server ''hi'' [] =
     (Inr (Ok ''replicate'' (JStr ''X'')),
      [] @ Fetch (replicate_request ''k'' ''hi'') # poll_rounds 29 ''k'' ''status-url'' @
        [Fetch (status_request ''k'' ''status-url'')])"
proof -
  let ?js = "JObj [(''urls'', JObj [(''get'', JStr ''status-url'')])]"
  let ?done = "JObj [(''status'', JStr ''succeeded''), (''output'', JStr ''X'')]"
  have k: "replicate_only_env ''REPLICATE_API_KEY'' = Some ''k'' \<and> ''k'' \<noteq> []"
    by (simp add: replicate_only_env_def)
  have u: "opt_prop (opt_prop (Some ?js) ''urls'') ''get'' = Some (JStr ''status-url'') \<and>
           ''status-url'' \<noteq> []"
    by simp
  have s1: "always_pending_server [] (replicate_request ''k'' ''hi'') = Inr (FetchResponse 201 (Inr ?js))"
    by (simp add: always_pending_server_def replicate_request_def job_created_def)
  have p1: "\<forall>j<30. pending_read (always_pending_server
              ([] @ Fetch (replicate_request ''k'' ''hi'') # poll_rounds j ''k'' ''status-url'')
              (status_request ''k'' ''status-url''))"
    by (simp add: always_pending_server_def status_request_def pending_body_def)
  have s2: "succeeds_on_30th_server [] (replicate_request ''k'' ''hi'') = Inr (FetchResponse 201 (Inr ?js))"
    by (simp add: succeeds_on_30th_server_def replicate_request_def job_created_def)
  have p2: "\<forall>j<29. pending_read (succeeds_on_30th_server
              ([] @ Fetch (replicate_request ''k'' ''hi'') # poll_rounds j ''k'' ''status-url'')
              (status_request ''k'' ''status-url''))"
    by (simp add: succeeds_on_30th_server_def status_request_def pending_body_def
        status_reads_poll_rounds replicate_request_def)
  have d2: "succeeds_on_30th_server
              ([] @ Fetch (replicate_request ''k'' ''hi'') # poll_rounds 29 ''k'' ''status-url'')
              (status_request ''k'' ''status-url'') = Inr (FetchResponse 200 (Inr ?done))"
    by (simp add: succeeds_on_30th_server_def status_request_def
        status_reads_poll_rounds replicate_request_def)
  have o: "own_prop ?done ''status'' = Some (JStr ''succeeded'') \<and>
           own_prop ?done ''output'' = Some (JStr ''X'') \<and> ''X'' \<noteq> []"
    by simp
  have st: "(200::nat) \<le> 201 \<and> (201::nat) \<le> 299" by simp
  show ?thesis
    using k u s1 p1 s2 p2 d2 o st
      replicate_polling [where env = replicate_only_env and srv = always_pending_server
        and key = "''k''" and p = "''hi''" and t = "[]" and st = 201 and data = ?js
        and u = "''status-url''"]
      replicate_polling [where env = replicate_only_env and srv = succeeds_on_30th_server
        and key = "''k''" and p = "''hi''" and t = "[]" and st = 201 and data = ?js
        and u = "''status-url''" and st' = 200 and b = ?done and x = "''X''"]
    by blast
qed

section \<open>Request payloads\<close>

lemma tryOpenAI_first_event:
  assumes "env ''OPENAI_API_KEY'' = Some key" and "key \<noteq> []"
  shows "\<exists>es. snd (tryOpenAI env srv prompt t) = t @ Fetch (openai_request key prompt) # es"
  using assms
  by (auto simp add: tryOpenAI_def openai_attempt_def require_text_def effect_defs
      split: sum.splits prod.splits option.splits)

lemma tryOpenRouter_first_event:
  assumes "env ''OPENROUTER_API_KEY'' = Some key" and "key \<noteq> []"
  shows "\<exists>es. snd (tryOpenRouter env srv prompt t) = t @ Fetch (openrouter_request key prompt) # es"
  using assms
  by (auto simp add: tryOpenRouter_def openrouter_attempt_def require_text_def effect_defs
      split: sum.splits prod.splits option.splits)

lemma tryGemini_first_event:
  assumes "env ''GOOGLE_GEMINI_API_KEY'' = Some key" and "key \<noteq> []"
  shows "\<exists>es. snd (tryGemini env srv prompt t) = t @ Fetch (gemini_request key prompt) # es"
  using assms
  by (auto simp add: tryGemini_def gemini_attempt_def require_text_def effect_defs
      split: sum.splits prod.splits option.splits)

lemma tryHuggingFace_first_event:
  assumes "env ''HUGGING_FACE_ACCESS_TOKEN'' = Some key" and "key \<noteq> []"
  shows "\<exists>es. snd (tryHuggingFace env srv prompt t) = t @ Fetch (huggingface_request key prompt) # es"
  using assms
  by (auto simp add: tryHuggingFace_def huggingface_attempt_def effect_defs Let_def
      split: sum.splits prod.splits option.splits)

lemma chat_payload_fields:
  "own_prop (chat_payload model prompt) ''model'' = Some (JStr model) \<and>
   own_prop (chat_payload model prompt) ''temperature'' = Some (JNum ''0.2'') \<and>
   own_prop (chat_payload model prompt) ''messages'' =
     Some (JArr [JObj [(''role'', JStr ''system''), (''content'', JStr system_instruction)],
                 JObj [(''role'', JStr ''user''), (''content'', JStr prompt)]])"
  by (simp add: chat_payload_def)


text \<open>
  C6, as the code has it.  Each synchronous adapter whose credential is set first issues its
  request, whose body is the serialised payload.  The payloads of OpenAI and OpenRouter carry
  the fixed system instruction, a fixed model identifier and the temperature 0.2.  The
  payloads of Gemini and HuggingFace carry the prompt only (and, for HuggingFace, the option
  \<^verbatim>\<open>wait_for_model\<close>): no system instruction, no temperature; their fixed model identifier
  is part of the request URL.
\<close>

theorem request_payloads:
  "(env ''OPENAI_API_KEY'' = Some k1 \<and> k1 \<noteq> [] \<longrightarrow>
      (\<exists>es. snd (tryOpenAI env srv prompt t) = t @ Fetch (openai_request k1 prompt) # es)) \<and>
   (env ''OPENROUTER_API_KEY'' = Some k2 \<and> k2 \<noteq> [] \<longrightarrow>
      (\<exists>es. snd (tryOpenRouter env srv prompt t) = t @ Fetch (openrouter_request k2 prompt) # es)) \<and>
   (env ''GOOGLE_GEMINI_API_KEY'' = Some k3 \<and> k3 \<noteq> [] \<longrightarrow>
      (\<exists>es. snd (tryGemini env srv prompt t) = t @ Fetch (gemini_request k3 prompt) # es)) \<and>
   (env ''HUGGING_FACE_ACCESS_TOKEN'' = Some k4 \<and> k4 \<noteq> [] \<longrightarrow>
      (\<exists>es. snd (tryHuggingFace env srv prompt t) =
             t @ Fetch (huggingface_request k4 prompt) # es)) \<and>
   http_body (openai_request k1 prompt) = Some (json_stringify (openai_payload prompt)) \<and>
   http_body (openrouter_request k2 prompt) = Some (json_stringify (openrouter_payload prompt)) \<and>
   http_body (gemini_request k3 prompt) = Some (json_stringify (gemini_payload prompt)) \<and>
   http_body (huggingface_request k4 prompt) = Some (json_stringify (huggingface_payload prompt)) \<and>
   own_prop (openai_payload prompt) ''model'' = Some (JStr ''gpt-4.1-2025-04-14'') \<and>
   own_prop (openai_payload prompt) ''temperature'' = Some (JNum ''0.2'') \<and>
   own_prop (openai_payload prompt) ''messages'' =
     Some (JArr [JObj [(''role'', JStr ''system''), (''content'', JStr system_instruction)],
                 JObj [(''role'', JStr ''user''), (''content'', JStr prompt)]]) \<and>
   own_prop (openrouter_payload prompt) ''model'' = Some (JStr ''openai/gpt-4o-mini'') \<and>
   own_prop (openrouter_payload prompt) ''temperature'' = Some (JNum ''0.2'') \<and>
   own_prop (openrouter_payload prompt) ''messages'' =
     Some (JArr [JObj [(''role'', JStr ''system''), (''content'', JStr system_instruction)],
                 JObj [(''role'', JStr ''user''), (''content'', JStr prompt)]]) \<and>
   json_keys (gemini_payload prompt) = [''contents'', ''role'', ''parts'', ''text''] \<and>
   json_strings (gemini_payload prompt) = [''user'', prompt] \<and>
   url (gemini_request k3 prompt) =
     ''https://generativelanguage.googleapis.com/v1beta/models/gemini-1.5-flash:generateContent?key='' @ k3 \<and>
   json_keys (huggingface_payload prompt) = [''inputs'', ''options'', ''wait_for_model''] \<and>
   json_strings (huggingface_payload prompt) = [prompt] \<and>
   url (huggingface_request k4 prompt) =
     ''https://api-inference.huggingface.co/models/mistralai/Mixtral-8x7B-Instruct-v0.1''"
proof -
  have ev: "(env ''OPENAI_API_KEY'' = Some k1 \<and> k1 \<noteq> [] \<longrightarrow>
      (\<exists>es. snd (tryOpenAI env srv prompt t) = t @ Fetch (openai_request k1 prompt) # es)) \<and>
   (env ''OPENROUTER_API_KEY'' = Some k2 \<and> k2 \<noteq> [] \<longrightarrow>
      (\<exists>es. snd (tryOpenRouter env srv prompt t) = t @ Fetch (openrouter_request k2 prompt) # es)) \<and>
   (env ''GOOGLE_GEMINI_API_KEY'' = Some k3 \<and> k3 \<noteq> [] \<longrightarrow>
      (\<exists>es. snd (tryGemini env srv prompt t) = t @ Fetch (gemini_request k3 prompt) # es)) \<and>
   (env ''HUGGING_FACE_ACCESS_TOKEN'' = Some k4 \<and> k4 \<noteq> [] \<longrightarrow>
      (\<exists>es. snd (tryHuggingFace env srv prompt t) =
             t @ Fetch (huggingface_request k4 prompt) # es))"
    using tryOpenAI_first_event [of env k1 srv prompt t]
      tryOpenRouter_first_event [of env k2 srv prompt t]
      tryGemini_first_event [of env k3 srv prompt t]
      tryHuggingFace_first_event [of env k4 srv prompt t]
    by blast
  have bodies: "http_body (openai_request k1 prompt) = Some (json_stringify (openai_payload prompt)) \<and>
   http_body (openrouter_request k2 prompt) = Some (json_stringify (openrouter_payload prompt)) \<and>
   http_body (gemini_request k3 prompt) = Some (json_stringify (gemini_payload prompt)) \<and>
   http_body (huggingface_request k4 prompt) = Some (json_stringify (huggingface_payload prompt))"
    by (simp add: openai_request_def openrouter_request_def gemini_request_def
        huggingface_request_def)
  have chat: "own_prop (openai_payload prompt) ''model'' = Some (JStr ''gpt-4.1-2025-04-14'') \<and>
   own_prop (openai_payload prompt) ''temperature'' = Some (JNum ''0.2'') \<and>
   own_prop (openai_payload prompt) ''messages'' =
     Some (JArr [JObj [(''role'', JStr ''system''), (''content'', JStr system_instruction)],
                 JObj [(''role'', JStr ''user''), (''content'', JStr prompt)]]) \<and>
   own_prop (openrouter_payload prompt) ''model'' = Some (JStr ''openai/gpt-4o-mini'') \<and>
   own_prop (openrouter_payload prompt) ''temperature'' = Some (JNum ''0.2'') \<and>
   own_prop (openrouter_payload prompt) ''messages'' =
     Some (JArr [JObj [(''role'', JStr ''system''), (''content'', JStr system_instruction)],
                 JObj [(''role'', JStr ''user''), (''content'', JStr prompt)]])"
    using chat_payload_fields [of "''gpt-4.1-2025-04-14''" prompt]
      chat_payload_fields [of "''openai/gpt-4o-mini''" prompt]
    by (simp add: openai_payload_def openrouter_payload_def)
  have rest: "json_keys (gemini_payload prompt) = [''contents'', ''role'', ''parts'', ''text''] \<and>
   json_strings (gemini_payload prompt) = [''user'', prompt] \<and>
   url (gemini_request k3 prompt) =
     ''https://generativelanguage.googleapis.com/v1beta/models/gemini-1.5-flash:generateContent?key='' @ k3 \<and>
   json_keys (huggingface_payload prompt) = [''inputs'', ''options'', ''wait_for_model''] \<and>
   json_strings (huggingface_payload prompt) = [prompt] \<and>
   url (huggingface_request k4 prompt) =
     ''https://api-inference.huggingface.co/models/mistralai/Mixtral-8x7B-Instruct-v0.1''"
    by (simp add: gemini_payload_def huggingface_payload_def gemini_request_def
        huggingface_request_def)
  from ev bodies chat rest show ?thesis by blast
qed


theorem request_payloads_witness:
  "(\<exists>es. snd (tryOpenAI all_keys_env faulty_server ''hi'' []) =
            [] @ Fetch (openai_request ''k1'' ''hi'') # es) \<and>
   (\<exists>es. snd (tryOpenRouter all_keys_env faulty_server ''hi'' []) =
            [] @ Fetch (openrouter_request ''k2'' ''hi'') # es) \<and>
   (\<exists>es. snd (tryGemini all_keys_env faulty_server ''hi'' []) =
            [] @ Fetch (gemini_request ''k3'' ''hi'') # es) \<and>
   (\<exists>es. snd (tryHuggingFace all_keys_env faulty_server ''hi'' []) =
            [] @ Fetch (huggingface_request ''k4'' ''hi'') # es) \<and>
   own_prop (openai_payload ''hi'') ''temperature'' = Some (JNum ''0.2'') \<and>
   own_prop (openrouter_payload ''hi'') ''model'' = Some (JStr ''openai/gpt-4o-mini'') \<and>
   json_strings (gemini_payload ''hi'') = [''user'', ''hi''] \<and>
   json_strings (huggingface_payload ''hi'') = [''hi'']"
proof -
  have k: "all_keys_env ''OPENAI_API_KEY'' = Some ''k1'' \<and> ''k1'' \<noteq> []"
    "all_keys_env ''OPENROUTER_API_KEY'' = Some ''k2'' \<and> ''k2'' \<noteq> []"
    "all_keys_env ''GOOGLE_GEMINI_API_KEY'' = Some ''k3'' \<and> ''k3'' \<noteq> []"
    "all_keys_env ''HUGGING_FACE_ACCESS_TOKEN'' = Some ''k4'' \<and> ''k4'' \<noteq> []"
    by (simp_all add: all_keys_env_def)
  show ?thesis
    using k request_payloads [where env = all_keys_env and srv = faulty_server
        and prompt = "''hi''" and t = "[]" and ?k1.0 = "''k1''" and ?k2.0 = "''k2''"
        and ?k3.0 = "''k3''" and ?k4.0 = "''k4''"]
    by blast
qed

text \<open>
  C6, as stated, fails on Gemini and on HuggingFace: the request each sends for the prompt
  \<^verbatim>\<open>hi\<close> has a payload in which no string is the system instruction and no object has a
  \<^verbatim>\<open>temperature\<close> or a \<^verbatim>\<open>model\<close> key.
\<close>

theorem payload_without_instruction_counterexample:
  "snd (tryGemini all_keys_env faulty_server ''hi'' []) ! 0 = Fetch (gemini_request ''k3'' ''hi'') \<and>
   http_body (gemini_request ''k3'' ''hi'') = Some (json_stringify (gemini_payload ''hi'')) \<and>
   system_instruction \<notin> set (json_strings (gemini_payload ''hi'')) \<and>
   ''temperature'' \<notin> set (json_keys (gemini_payload ''hi'')) \<and>
   ''model'' \<notin> set (json_keys (gemini_payload ''hi'')) \<and>
   snd (tryHuggingFace all_keys_env faulty_server ''hi'' []) ! 0 =
     Fetch (huggingface_request ''k4'' ''hi'') \<and>
   http_body (huggingface_request ''k4'' ''hi'') = Some (json_stringify (huggingface_payload ''hi'')) \<and>
   system_instruction \<notin> set (json_strings (huggingface_payload ''hi'')) \<and>
   ''temperature'' \<notin> set (json_keys (huggingface_payload ''hi'')) \<and>
   ''model'' \<notin> set (json_keys (huggingface_payload ''hi''))"
proof -
  have g: "snd (tryGemini all_keys_env faulty_server ''hi'' []) ! 0 =
      Fetch (gemini_request ''k3'' ''hi'')"
    by (simp add: tryGemini_def all_keys_env_def gemini_attempt_def faulty_server_def
        openai_request_def openrouter_request_def gemini_request_def res_ok_def effect_defs)
  have h: "snd (tryHuggingFace all_keys_env faulty_server ''hi'' []) ! 0 =
      Fetch (huggingface_request ''k4'' ''hi'')"
    by (simp add: tryHuggingFace_def all_keys_env_def huggingface_attempt_def faulty_server_def
        openai_request_def openrouter_request_def gemini_request_def huggingface_request_def
        res_ok_def effect_defs)
  have p: "http_body (gemini_request ''k3'' ''hi'') = Some (json_stringify (gemini_payload ''hi'')) \<and>
   system_instruction \<notin> set (json_strings (gemini_payload ''hi'')) \<and>
   ''temperature'' \<notin> set (json_keys (gemini_payload ''hi'')) \<and>
   ''model'' \<notin> set (json_keys (gemini_payload ''hi''))"
    by (simp add: gemini_request_def gemini_payload_def system_instruction_def)
  have q: "http_body (huggingface_request ''k4'' ''hi'') = Some (json_stringify (huggingface_payload ''hi'')) \<and>
   system_instruction \<notin> set (json_strings (huggingface_payload ''hi'')) \<and>
   ''temperature'' \<notin> set (json_keys (huggingface_payload ''hi'')) \<and>
   ''model'' \<notin> set (json_keys (huggingface_payload ''hi''))"
    by (simp add: huggingface_request_def huggingface_payload_def system_instruction_def)
  from g h p q show ?thesis by blast
qed

section \<open>Text extraction\<close>

lemma answeredE:
  assumes "answered r data"
  obtains st where "r = Inr (FetchResponse st (Inr data))" and "200 \<le> st" and "st \<le> 299"
  using assms by (cases "(r, data)" rule: answered.cases) auto

lemma chat_text_string: "chat_content data = Some (JStr s) \<Longrightarrow> chat_text data = Inr (Some s)"
  by (simp add: chat_text_def)

lemma chat_text_empty:
  "chat_content data = None \<or> chat_content data = Some JNull \<or> chat_content data = Some (JStr []) \<Longrightarrow>
   chat_text data = Inr None \<or> chat_text data = Inr (Some [])"
  by (auto simp add: chat_text_def)

lemma gemini_text_string: "gemini_part_text data = Some (JStr s) \<Longrightarrow> gemini_text data = Inr (Some s)"
  by (simp add: gemini_text_def)

lemma gemini_text_empty:
  "gemini_part_text data = None \<or> gemini_part_text data = Some JNull \<or>
   gemini_part_text data = Some (JStr []) \<Longrightarrow>
   gemini_text data = Inr None \<or> gemini_text data = Inr (Some [])"
  by (auto simp add: gemini_text_def)

lemma tryOpenAI_text:
  assumes "credential env ''OPENAI_API_KEY'' key"
    and "answered (srv t (openai_request key p)) data"
    and "chat_content data = Some (JStr s)" and "s \<noteq> []"
  shows "tryOpenAI env srv p t =
           (Inr (Ok ''openai'' (JStr s)), t @ [Fetch (openai_request key p)])"
proof -
  from assms(2) obtain st where r: "srv t (openai_request key p) = Inr (FetchResponse st (Inr data))"
    and st: "200 \<le> st" "st \<le> 299" by (rule answeredE)
  show ?thesis
    using assms(1,4) r st chat_text_string [OF assms(3)]
    by (simp add: credential_def tryOpenAI_def openai_attempt_def require_text_def res_ok_def
        effect_defs)
qed

lemma tryOpenAI_no_text:
  assumes "credential env ''OPENAI_API_KEY'' key"
    and "answered (srv t (openai_request key p)) data"
    and "chat_content data = None \<or> chat_content data = Some JNull \<or> chat_content data = Some (JStr [])"
  shows "tryOpenAI env srv p t =
           (Inr (Fail ''openai'' ''Error: OpenAI empty response''),
            t @ [Fetch (openai_request key p),
                 ConsoleError ''OpenAI error:'' (Error ''OpenAI empty response'')])"
proof -
  from assms(2) obtain st where r: "srv t (openai_request key p) = Inr (FetchResponse st (Inr data))"
    and st: "200 \<le> st" "st \<le> 299" by (rule answeredE)
  show ?thesis
    using assms(1) r st chat_text_empty [OF assms(3)]
    by (auto simp add: credential_def tryOpenAI_def openai_attempt_def require_text_def res_ok_def
        effect_defs String_error_def Error_def)
qed

lemma tryOpenRouter_text:
  assumes "credential env ''OPENROUTER_API_KEY'' key"
    and "answered (srv t (openrouter_request key p)) data"
    and "chat_content data = Some (JStr s)" and "s \<noteq> []"
  shows "tryOpenRouter env srv p t =
           (Inr (Ok ''openrouter'' (JStr s)), t @ [Fetch (openrouter_request key p)])"
proof -
  from assms(2) obtain st where r: "srv t (openrouter_request key p) = Inr (FetchResponse st (Inr data))"
    and st: "200 \<le> st" "st \<le> 299" by (rule answeredE)
  show ?thesis
    using assms(1,4) r st chat_text_string [OF assms(3)]
    by (simp add: credential_def tryOpenRouter_def openrouter_attempt_def require_text_def res_ok_def
        effect_defs)
qed

lemma tryOpenRouter_no_text:
  assumes "credential env ''OPENROUTER_API_KEY'' key"
    and "answered (srv t (openrouter_request key p)) data"
    and "chat_content data = None \<or> chat_content data = Some JNull \<or> chat_content data = Some (JStr [])"
  shows "tryOpenRouter env srv p t =
           (Inr (Fail ''openrouter'' ''Error: OpenRouter empty response''),
            t @ [Fetch (openrouter_request key p),
                 ConsoleError ''OpenRouter error:'' (Error ''OpenRouter empty response'')])"
proof -
  from assms(2) obtain st where r: "srv t (openrouter_request key p) = Inr (FetchResponse st (Inr data))"
    and st: "200 \<le> st" "st \<le> 299" by (rule answeredE)
  show ?thesis
    using assms(1) r st chat_text_empty [OF assms(3)]
    by (auto simp add: credential_def tryOpenRouter_def openrouter_attempt_def require_text_def res_ok_def
        effect_defs String_error_def Error_def)
qed

lemma tryGemini_text:
  assumes "credential env ''GOOGLE_GEMINI_API_KEY'' key"
    and "answered (srv t (gemini_request key p)) data"
    and "gemini_part_text data = Some (JStr s)" and "s \<noteq> []"
  shows "tryGemini env srv p t =
           (Inr (Ok ''gemini'' (JStr s)), t @ [Fetch (gemini_request key p)])"
proof -
  from assms(2) obtain st where r: "srv t (gemini_request key p) = Inr (FetchResponse st (Inr data))"
    and st: "200 \<le> st" "st \<le> 299" by (rule answeredE)
  show ?thesis
    using assms(1,4) r st gemini_text_string [OF assms(3)]
    by (simp add: credential_def tryGemini_def gemini_attempt_def require_text_def res_ok_def
        effect_defs)
qed

lemma tryGemini_no_text:
  assumes "credential env ''GOOGLE_GEMINI_API_KEY'' key"
    and "answered (srv t (gemini_request key p)) data"
    and "gemini_part_text data = None \<or> gemini_part_text data = Some JNull \<or> gemini_part_text data = Some (JStr [])"
  shows "tryGemini env srv p t =
           (Inr (Fail ''gemini'' ''Error: Gemini empty response''),
            t @ [Fetch (gemini_request key p),
                 ConsoleError ''Gemini error:'' (Error ''Gemini empty response'')])"
proof -
  from assms(2) obtain st where r: "srv t (gemini_request key p) = Inr (FetchResponse st (Inr data))"
    and st: "200 \<le> st" "st \<le> 299" by (rule answeredE)
  show ?thesis
    using assms(1) r st gemini_text_empty [OF assms(3)]
    by (auto simp add: credential_def tryGemini_def gemini_attempt_def require_text_def res_ok_def
        effect_defs String_error_def Error_def)
qed

lemma json_stringify_nonempty: "data \<noteq> JNum [] \<Longrightarrow> json_stringify data \<noteq> []"
  by (cases data) (auto simp add: json_quote_def)

lemma huggingface_text_truthy: "data \<noteq> JNum [] \<Longrightarrow> truthy (Some (huggingface_text data))"
  by (auto simp add: huggingface_text_def when_truthy_def json_stringify_nonempty
      split: option.splits if_splits)

lemma tryHuggingFace_text:
  assumes "credential env ''HUGGING_FACE_ACCESS_TOKEN'' key"
    and "answered (srv t (huggingface_request key p)) data"
    and "data \<noteq> JNum []"
  shows "tryHuggingFace env srv p t =
           (Inr (Ok ''huggingface'' (huggingface_text data)),
            t @ [Fetch (huggingface_request key p)])"
proof -
  from assms(2) obtain st where r: "srv t (huggingface_request key p) = Inr (FetchResponse st (Inr data))"
    and st: "200 \<le> st" "st \<le> 299" by (rule answeredE)
  show ?thesis
    using assms(1) r st huggingface_text_truthy [OF assms(3)]
    by (simp add: credential_def tryHuggingFace_def huggingface_attempt_def res_ok_def
        effect_defs Let_def)
qed

lemma huggingface_text_array:
  "data = JArr (d # ds) \<Longrightarrow> own_prop d ''generated_text'' = Some (JStr s) \<Longrightarrow> s \<noteq> [] \<Longrightarrow>
   huggingface_text data = JStr s"
  by (simp add: huggingface_text_def when_truthy_def)

lemma huggingface_text_object:
  "own_prop data ''generated_text'' = Some (JStr s) \<Longrightarrow> s \<noteq> [] \<Longrightarrow>
   huggingface_text data = JStr s"
  by (cases data) (simp_all add: huggingface_text_def when_truthy_def)

lemma huggingface_text_summary:
  "data = JArr (d # ds) \<Longrightarrow> \<not> truthy (own_prop d ''generated_text'') \<Longrightarrow>
   own_prop d ''summary_text'' = Some (JStr s) \<Longrightarrow> s \<noteq> [] \<Longrightarrow>
   huggingface_text data = JStr s"
  by (simp add: huggingface_text_def when_truthy_def)

lemma huggingface_text_fallback:
  "\<not> truthy (own_prop data ''generated_text'') \<Longrightarrow>
   \<not> truthy (opt_prop (opt_index0 (Some data)) ''generated_text'') \<or> \<not> isArray data \<Longrightarrow>
   \<not> truthy (opt_prop (opt_index0 (Some data)) ''summary_text'') \<or> \<not> isArray data \<Longrightarrow>
   huggingface_text data = JStr (json_stringify data)"
  by (cases data) (auto simp add: huggingface_text_def when_truthy_def)

lemma js_join_strings: "js_join sep (map JStr segs) = Inr (intercalate sep segs)"
  by (induction sep segs rule: intercalate.induct) simp_all

lemma replicate_output_text_cases:
  "replicate_output_text (Some (JArr (map JStr segs))) = Inr (intercalate [CHR 0x0A] segs)"
  "replicate_output_text (Some (JStr s)) = Inr s"
  "out = None \<or> out = Some JNull \<or> out = Some (JStr []) \<or> out = Some (JArr []) \<Longrightarrow>
   replicate_output_text out = Inr []"
  by (auto simp add: replicate_output_text_def js_join_strings)

lemma poll_succeeded_after:
  assumes "js_toString endpoint = Inr u" and "n < 30"
    and "\<forall>j<n. pending_read (srv (t @ poll_rounds j key u) (status_request key u))"
    and "succeeded_read (srv (t @ poll_rounds n key u) (status_request key u)) out"
    and "replicate_output_text out = Inr s"
  shows "replicate_poll srv key endpoint 0 t =
           (if s = [] then Inl (Error ''Replicate empty output'') else Inr (JStr s),
            t @ poll_rounds n key u @ [Fetch (status_request key u)])"
proof -
  from assms(4) obtain st b where r: "srv (t @ poll_rounds n key u) (status_request key u) =
      Inr (FetchResponse st (Inr b))" and b: "own_prop b ''status'' = Some (JStr ''succeeded'')"
      "own_prop b ''output'' = out"
    by (cases "(srv (t @ poll_rounds n key u) (status_request key u), out)"
        rule: succeeded_read.cases) auto
  have nn: "b \<noteq> JNull" using b(1) by auto
  have "replicate_poll srv key endpoint 0 t =
          replicate_poll srv key endpoint (0 + n) (t @ poll_rounds n key u)"
    using assms(1,2,3) by (intro poll_pending_rounds) simp_all
  also have "\<dots> = (if s = [] then Inl (Error ''Replicate empty output'') else Inr (JStr s),
            (t @ poll_rounds n key u) @ [Fetch (status_request key u)])"
    using assms(1,2,5) r b nn
    by (simp add: replicate_poll.simps [of _ _ _ n] bindE_fetch get_prop_def returnE_def throwE_def)
  finally show ?thesis by simp
qed

lemma tryReplicate_output:
  assumes "credential env ''REPLICATE_API_KEY'' key"
    and "answered (srv t (replicate_request key p)) data"
    and "opt_prop (opt_prop (Some data) ''urls'') ''get'' = Some (JStr u)" and "u \<noteq> []"
    and "n < 30"
    and "\<forall>j<n. pending_read
           (srv (t @ Fetch (replicate_request key p) # poll_rounds j key u) (status_request key u))"
    and "succeeded_read
           (srv (t @ Fetch (replicate_request key p) # poll_rounds n key u) (status_request key u)) out"
    and "replicate_output_text out = Inr s"
  shows "tryReplicate env srv p t =
           (if s = []
            then (Inr (Fail ''replicate'' ''Error: Replicate empty output''),
                  t @ Fetch (replicate_request key p) # poll_rounds n key u @
                    [Fetch (status_request key u),
                     ConsoleError ''Replicate error:'' (Error ''Replicate empty output'')])
            else (Inr (Ok ''replicate'' (JStr s)),
                  t @ Fetch (replicate_request key p) # poll_rounds n key u @
                    [Fetch (status_request key u)]))"
proof -
  let ?t0 = "t @ [Fetch (replicate_request key p)]"
  from assms(2) obtain st where r: "srv t (replicate_request key p) = Inr (FetchResponse st (Inr data))"
    and st: "200 \<le> st" "st \<le> 299" by (rule answeredE)
  have k: "env ''REPLICATE_API_KEY'' = Some key" "key \<noteq> []"
    using assms(1) by (simp_all add: credential_def)
  have "replicate_attempt key srv p t = replicate_poll srv key (JStr u) 0 ?t0"
    using r st assms(3,4) by (rule replicate_attempt_polls)
  also have "\<dots> = (if s = [] then Inl (Error ''Replicate empty output'') else Inr (JStr s),
            ?t0 @ poll_rounds n key u @ [Fetch (status_request key u)])"
    using assms(5-8) by (intro poll_succeeded_after [where out = out]) simp_all
  finally show ?thesis
    by (simp add: tryReplicate_with_key [where env = env, OF k] String_error_def Error_def)
qed

lemma chat_content_shape:
  "own_prop d ''choices'' = Some (JArr (c # cs)) \<Longrightarrow> own_prop c ''message'' = Some m \<Longrightarrow>
   chat_content d = own_prop m ''content''"
  by (simp add: chat_content_def)

lemma chat_content_absent:
  "own_prop d ''choices'' = None \<or> own_prop d ''choices'' = Some (JArr []) \<or>
   own_prop d ''choices'' = Some (JArr (c # cs)) \<and> own_prop c ''message'' = None \<Longrightarrow>
   chat_content d = None"
  by (auto simp add: chat_content_def)

lemma gemini_part_text_shape:
  "own_prop d ''candidates'' = Some (JArr (c # cs)) \<Longrightarrow> own_prop c ''content'' = Some ct \<Longrightarrow>
   own_prop ct ''parts'' = Some (JArr (pt # pts)) \<Longrightarrow>
   gemini_part_text d = own_prop pt ''text''"
  by (simp add: gemini_part_text_def)

lemma gemini_part_text_absent:
  "own_prop d ''candidates'' = None \<or> own_prop d ''candidates'' = Some (JArr []) \<or>
   own_prop d ''candidates'' = Some (JArr (c # cs)) \<and>
     (own_prop c ''content'' = None \<or>
      own_prop c ''content'' = Some ct \<and>
        (own_prop ct ''parts'' = None \<or> own_prop ct ''parts'' = Some (JArr []))) \<Longrightarrow>
   gemini_part_text d = None"
  by (auto simp add: gemini_part_text_def)

lemma poll_result_string:
  "fst (replicate_poll srv key endpoint i t) = Inr v \<Longrightarrow> \<exists>s. v = JStr s \<and> s \<noteq> []"
proof (induction "30 - i" arbitrary: i t)
  case 0
  then show ?case by (simp add: replicate_poll.simps [of _ _ _ i] throwE_def)
next
  case (Suc k)
  then have i: "i < 30" by simp
  have k: "k = 30 - Suc i" using Suc.hyps(2) by simp
  have "(\<forall>v. fst (replicate_poll srv key endpoint i t) = Inr v \<longrightarrow> (\<exists>s. v = JStr s \<and> s \<noteq> [])) \<or>
        (\<exists>t'. replicate_poll srv key endpoint i t = replicate_poll srv key endpoint (Suc i) t')"
    using i
    by (simp add: replicate_poll.simps [of _ _ _ i])
       (auto simp add: effect_defs split: sum.splits prod.splits)
  then show ?case using Suc.hyps(1) [OF k] Suc.prems by auto
qed

lemma success_text_string:
  "fst (tryOpenAI env srv p t) = Inr (Ok pr tx) \<Longrightarrow> \<exists>s. tx = JStr s \<and> s \<noteq> []"
  "fst (tryOpenRouter env srv p t) = Inr (Ok pr tx) \<Longrightarrow> \<exists>s. tx = JStr s \<and> s \<noteq> []"
  "fst (tryGemini env srv p t) = Inr (Ok pr tx) \<Longrightarrow> \<exists>s. tx = JStr s \<and> s \<noteq> []"
  by (auto simp add: tryOpenAI_def openai_attempt_def tryOpenRouter_def openrouter_attempt_def
      tryGemini_def gemini_attempt_def require_text_def effect_defs
      split: option.splits if_splits sum.splits prod.splits)

lemma huggingface_success_truthy:
  "fst (tryHuggingFace env srv p t) = Inr (Ok pr tx) \<Longrightarrow> truthy (Some tx) \<and> tx \<noteq> JStr []"
  by (auto simp add: tryHuggingFace_def huggingface_attempt_def effect_defs Let_def
      split: option.splits if_splits sum.splits prod.splits)

lemma replicate_success_text_string:
  assumes "fst (tryReplicate env srv p t) = Inr (Ok pr tx)"
  shows "\<exists>s. tx = JStr s \<and> s \<noteq> []"
proof -
  have "\<exists>key t'. replicate_attempt key srv p t = (Inr tx, t')"
    using assms
    by (auto simp add: tryReplicate_def catchE_def bindE_def returnE_def console_error_def
        split: option.splits if_splits sum.splits prod.splits)
  then obtain key where a: "fst (replicate_attempt key srv p t) = Inr tx"
    by (metis fst_conv)
  have "\<exists>endpoint t'. fst (replicate_poll srv key endpoint 0 t') = Inr tx"
    using a
    by (simp add: replicate_attempt_def bindE_fetch)
       (auto simp add: effect_defs split: sum.splits option.splits if_splits)
  then show ?thesis using poll_result_string by blast
qed

lemma openai_documented_text:
  "credential env ''OPENAI_API_KEY'' k1 \<and> answered (srv t (openai_request k1 p)) d1 \<and>
      own_prop d1 ''choices'' = Some (JArr (c1 # cs1)) \<and> own_prop c1 ''message'' = Some m1 \<and>
      own_prop m1 ''content'' = Some (JStr s1) \<and> s1 \<noteq> [] \<Longrightarrow>
      tryOpenAI env srv p t =
        (Inr (Ok ''openai'' (JStr s1)), t @ [Fetch (openai_request k1 p)])"
proof -
  assume h: "credential env ''OPENAI_API_KEY'' k1 \<and> answered (srv t (openai_request k1 p)) d1 \<and>
      own_prop d1 ''choices'' = Some (JArr (c1 # cs1)) \<and> own_prop c1 ''message'' = Some m1 \<and>
      own_prop m1 ''content'' = Some (JStr s1) \<and> s1 \<noteq> []"
  then have "chat_content d1 = Some (JStr s1)" by (simp add: chat_content_def)
  with h show ?thesis
    by (intro tryOpenAI_text [where env = env and srv = srv and data = d1]) simp_all
qed

lemma openai_empty_text:
  "credential env ''OPENAI_API_KEY'' k1 \<and> answered (srv t (openai_request k1 p)) d1 \<and>
      (own_prop d1 ''choices'' = None \<or> own_prop d1 ''choices'' = Some (JArr []) \<or>
       own_prop d1 ''choices'' = Some (JArr (c1 # cs1)) \<and>
         (own_prop c1 ''message'' = None \<or>
          own_prop c1 ''message'' = Some m1 \<and>
            (own_prop m1 ''content'' = None \<or> own_prop m1 ''content'' = Some JNull \<or>
             own_prop m1 ''content'' = Some (JStr [])))) \<Longrightarrow>
      tryOpenAI env srv p t =
        (Inr (Fail ''openai'' ''Error: OpenAI empty response''),
         t @ [Fetch (openai_request k1 p),
              ConsoleError ''OpenAI error:'' (Error ''OpenAI empty response'')])"
proof -
  assume h: "credential env ''OPENAI_API_KEY'' k1 \<and> answered (srv t (openai_request k1 p)) d1 \<and>
      (own_prop d1 ''choices'' = None \<or> own_prop d1 ''choices'' = Some (JArr []) \<or>
       own_prop d1 ''choices'' = Some (JArr (c1 # cs1)) \<and>
         (own_prop c1 ''message'' = None \<or>
          own_prop c1 ''message'' = Some m1 \<and>
            (own_prop m1 ''content'' = None \<or> own_prop m1 ''content'' = Some JNull \<or>
             own_prop m1 ''content'' = Some (JStr []))))"
  then have "chat_content d1 = None \<or> chat_content d1 = Some JNull \<or> chat_content d1 = Some (JStr [])"
    by (auto simp add: chat_content_def)
  with h show ?thesis
    by (intro tryOpenAI_no_text [where env = env and srv = srv and data = d1]) simp_all
qed

lemma openrouter_documented_text:
  "credential env ''OPENROUTER_API_KEY'' k2 \<and> answered (srv t (openrouter_request k2 p)) d2 \<and>
      own_prop d2 ''choices'' = Some (JArr (c2 # cs2)) \<and> own_prop c2 ''message'' = Some m2 \<and>
      own_prop m2 ''content'' = Some (JStr s2) \<and> s2 \<noteq> [] \<Longrightarrow>
      tryOpenRouter env srv p t =
        (Inr (Ok ''openrouter'' (JStr s2)), t @ [Fetch (openrouter_request k2 p)])"
proof -
  assume h: "credential env ''OPENROUTER_API_KEY'' k2 \<and> answered (srv t (openrouter_request k2 p)) d2 \<and>
      own_prop d2 ''choices'' = Some (JArr (c2 # cs2)) \<and> own_prop c2 ''message'' = Some m2 \<and>
      own_prop m2 ''content'' = Some (JStr s2) \<and> s2 \<noteq> []"
  then have "chat_content d2 = Some (JStr s2)" by (simp add: chat_content_def)
  with h show ?thesis
    by (intro tryOpenRouter_text [where env = env and srv = srv and data = d2]) simp_all
qed

lemma openrouter_empty_text:
  "credential env ''OPENROUTER_API_KEY'' k2 \<and> answered (srv t (openrouter_request k2 p)) d2 \<and>
      (own_prop d2 ''choices'' = None \<or> own_prop d2 ''choices'' = Some (JArr []) \<or>
       own_prop d2 ''choices'' = Some (JArr (c2 # cs2)) \<and>
         (own_prop c2 ''message'' = None \<or>
          own_prop c2 ''message'' = Some m2 \<and>
            (own_prop m2 ''content'' = None \<or> own_prop m2 ''content'' = Some JNull \<or>
             own_prop m2 ''content'' = Some (JStr [])))) \<Longrightarrow>
      tryOpenRouter env srv p t =
        (Inr (Fail ''openrouter'' ''Error: OpenRouter empty response''),
         t @ [Fetch (openrouter_request k2 p),
              ConsoleError ''OpenRouter error:'' (Error ''OpenRouter empty response'')])"
proof -
  assume h: "credential env ''OPENROUTER_API_KEY'' k2 \<and> answered (srv t (openrouter_request k2 p)) d2 \<and>
      (own_prop d2 ''choices'' = None \<or> own_prop d2 ''choices'' = Some (JArr []) \<or>
       own_prop d2 ''choices'' = Some (JArr (c2 # cs2)) \<and>
         (own_prop c2 ''message'' = None \<or>
          own_prop c2 ''message'' = Some m2 \<and>
            (own_prop m2 ''content'' = None \<or> own_prop m2 ''content'' = Some JNull \<or>
             own_prop m2 ''content'' = Some (JStr []))))"
  then have "chat_content d2 = None \<or> chat_content d2 = Some JNull \<or> chat_content d2 = Some (JStr [])"
    by (auto simp add: chat_content_def)
  with h show ?thesis
    by (intro tryOpenRouter_no_text [where env = env and srv = srv and data = d2]) simp_all
qed

lemma gemini_documented_text:
  "credential env ''GOOGLE_GEMINI_API_KEY'' k3 \<and> answered (srv t (gemini_request k3 p)) d3 \<and>
      own_prop d3 ''candidates'' = Some (JArr (c3 # cs3)) \<and> own_prop c3 ''content'' = Some ct3 \<and>
      own_prop ct3 ''parts'' = Some (JArr (pt3 # pts3)) \<and>
      own_prop pt3 ''text'' = Some (JStr s3) \<and> s3 \<noteq> [] \<Longrightarrow>
      tryGemini env srv p t =
        (Inr (Ok ''gemini'' (JStr s3)), t @ [Fetch (gemini_request k3 p)])"
proof -
  assume h: "credential env ''GOOGLE_GEMINI_API_KEY'' k3 \<and> answered (srv t (gemini_request k3 p)) d3 \<and>
      own_prop d3 ''candidates'' = Some (JArr (c3 # cs3)) \<and> own_prop c3 ''content'' = Some ct3 \<and>
      own_prop ct3 ''parts'' = Some (JArr (pt3 # pts3)) \<and>
      own_prop pt3 ''text'' = Some (JStr s3) \<and> s3 \<noteq> []"
  then have "gemini_part_text d3 = Some (JStr s3)" by (simp add: gemini_part_text_def)
  with h show ?thesis
    by (intro tryGemini_text [where env = env and srv = srv and data = d3]) simp_all
qed

lemma gemini_empty_text:
  "credential env ''GOOGLE_GEMINI_API_KEY'' k3 \<and> answered (srv t (gemini_request k3 p)) d3 \<and>
      (own_prop d3 ''candidates'' = None \<or> own_prop d3 ''candidates'' = Some (JArr []) \<or>
       own_prop d3 ''candidates'' = Some (JArr (c3 # cs3)) \<and>
         (own_prop c3 ''content'' = None \<or>
          own_prop c3 ''content'' = Some ct3 \<and>
            (own_prop ct3 ''parts'' = None \<or> own_prop ct3 ''parts'' = Some (JArr []) \<or>
             own_prop ct3 ''parts'' = Some (JArr (pt3 # pts3)) \<and>
               (own_prop pt3 ''text'' = None \<or> own_prop pt3 ''text'' = Some JNull \<or>
                own_prop pt3 ''text'' = Some (JStr []))))) \<Longrightarrow>
      tryGemini env srv p t =
        (Inr (Fail ''gemini'' ''Error: Gemini empty response''),
         t @ [Fetch (gemini_request k3 p),
              ConsoleError ''Gemini error:'' (Error ''Gemini empty response'')])"
proof -
  assume h: "credential env ''GOOGLE_GEMINI_API_KEY'' k3 \<and> answered (srv t (gemini_request k3 p)) d3 \<and>
      (own_prop d3 ''candidates'' = None \<or> own_prop d3 ''candidates'' = Some (JArr []) \<or>
       own_prop d3 ''candidates'' = Some (JArr (c3 # cs3)) \<and>
         (own_prop c3 ''content'' = None \<or>
          own_prop c3 ''content'' = Some ct3 \<and>
            (own_prop ct3 ''parts'' = None \<or> own_prop ct3 ''parts'' = Some (JArr []) \<or>
             own_prop ct3 ''parts'' = Some (JArr (pt3 # pts3)) \<and>
               (own_prop pt3 ''text'' = None \<or> own_prop pt3 ''text'' = Some JNull \<or>
                own_prop pt3 ''text'' = Some (JStr [])))))"
  then have "gemini_part_text d3 = None \<or> gemini_part_text d3 = Some JNull \<or> gemini_part_text d3 = Some (JStr [])"
    by (auto simp add: gemini_part_text_def)
  with h show ?thesis
    by (intro tryGemini_no_text [where env = env and srv = srv and data = d3]) simp_all
qed

lemma huggingface_hfa:
  "credential env ''HUGGING_FACE_ACCESS_TOKEN'' k4 \<and>
      answered (srv t (huggingface_request k4 p)) d4 \<and>
      d4 = JArr (e4 # es4) \<and> own_prop e4 ''generated_text'' = Some (JStr s4) \<and> s4 \<noteq> [] \<Longrightarrow>
      tryHuggingFace env srv p t =
        (Inr (Ok ''huggingface'' (JStr s4)), t @ [Fetch (huggingface_request k4 p)])"
proof -
  assume h: "credential env ''HUGGING_FACE_ACCESS_TOKEN'' k4 \<and>
      answered (srv t (huggingface_request k4 p)) d4 \<and>
      d4 = JArr (e4 # es4) \<and> own_prop e4 ''generated_text'' = Some (JStr s4) \<and> s4 \<noteq> []"
  then have x: "huggingface_text d4 = JStr s4" using huggingface_text_array [of d4 e4 es4 s4] by blast
  from h have nn: "d4 \<noteq> JNum []" by auto
  from h have c: "credential env ''HUGGING_FACE_ACCESS_TOKEN'' k4"
    and a: "answered (srv t (huggingface_request k4 p)) d4" by blast+
  have "tryHuggingFace env srv p t =
        (Inr (Ok ''huggingface'' (huggingface_text d4)), t @ [Fetch (huggingface_request k4 p)])"
    by (rule tryHuggingFace_text [where env = env and srv = srv, OF c a nn])
  then show ?thesis by (simp add: x)
qed

lemma huggingface_hfo:
  "credential env ''HUGGING_FACE_ACCESS_TOKEN'' k4 \<and>
      answered (srv t (huggingface_request k4 p)) d4 \<and>
      own_prop d4 ''generated_text'' = Some (JStr s4) \<and> s4 \<noteq> [] \<Longrightarrow>
      tryHuggingFace env srv p t =
        (Inr (Ok ''huggingface'' (JStr s4)), t @ [Fetch (huggingface_request k4 p)])"
proof -
  assume h: "credential env ''HUGGING_FACE_ACCESS_TOKEN'' k4 \<and>
      answered (srv t (huggingface_request k4 p)) d4 \<and>
      own_prop d4 ''generated_text'' = Some (JStr s4) \<and> s4 \<noteq> []"
  then have x: "huggingface_text d4 = JStr s4" using huggingface_text_object [of d4 s4] by blast
  from h have nn: "d4 \<noteq> JNum []" by auto
  from h have c: "credential env ''HUGGING_FACE_ACCESS_TOKEN'' k4"
    and a: "answered (srv t (huggingface_request k4 p)) d4" by blast+
  have "tryHuggingFace env srv p t =
        (Inr (Ok ''huggingface'' (huggingface_text d4)), t @ [Fetch (huggingface_request k4 p)])"
    by (rule tryHuggingFace_text [where env = env and srv = srv, OF c a nn])
  then show ?thesis by (simp add: x)
qed

lemma huggingface_hfs:
  "credential env ''HUGGING_FACE_ACCESS_TOKEN'' k4 \<and>
      answered (srv t (huggingface_request k4 p)) d4 \<and>
      d4 = JArr (e4 # es4) \<and> \<not> truthy (own_prop e4 ''generated_text'') \<and>
      own_prop e4 ''summary_text'' = Some (JStr s4) \<and> s4 \<noteq> [] \<Longrightarrow>
      tryHuggingFace env srv p t =
        (Inr (Ok ''huggingface'' (JStr s4)), t @ [Fetch (huggingface_request k4 p)])"
proof -
  assume h: "credential env ''HUGGING_FACE_ACCESS_TOKEN'' k4 \<and>
      answered (srv t (huggingface_request k4 p)) d4 \<and>
      d4 = JArr (e4 # es4) \<and> \<not> truthy (own_prop e4 ''generated_text'') \<and>
      own_prop e4 ''summary_text'' = Some (JStr s4) \<and> s4 \<noteq> []"
  then have x: "huggingface_text d4 = JStr s4" using huggingface_text_summary [of d4 e4 es4 s4] by blast
  from h have nn: "d4 \<noteq> JNum []" by auto
  from h have c: "credential env ''HUGGING_FACE_ACCESS_TOKEN'' k4"
    and a: "answered (srv t (huggingface_request k4 p)) d4" by blast+
  have "tryHuggingFace env srv p t =
        (Inr (Ok ''huggingface'' (huggingface_text d4)), t @ [Fetch (huggingface_request k4 p)])"
    by (rule tryHuggingFace_text [where env = env and srv = srv, OF c a nn])
  then show ?thesis by (simp add: x)
qed

lemma replicate_succeeded_outputs:
  "credential env ''REPLICATE_API_KEY'' k5 \<and>
    answered (srv t (replicate_request k5 p)) d5 \<and>
    opt_prop (opt_prop (Some d5) ''urls'') ''get'' = Some (JStr u) \<and> u \<noteq> [] \<and> n < 30 \<and>
    (\<forall>j<n. pending_read
       (srv (t @ Fetch (replicate_request k5 p) # poll_rounds j k5 u) (status_request k5 u))) \<and>
    succeeded_read
       (srv (t @ Fetch (replicate_request k5 p) # poll_rounds n k5 u) (status_request k5 u)) out \<Longrightarrow>
      (out = Some (JArr (map JStr segs)) \<and> intercalate [CHR 0x0A] segs \<noteq> [] \<longrightarrow>
         tryReplicate env srv p t =
           (Inr (Ok ''replicate'' (JStr (intercalate [CHR 0x0A] segs))),
            t @ Fetch (replicate_request k5 p) # poll_rounds n k5 u @
              [Fetch (status_request k5 u)])) \<and>
      (out = Some (JStr s5) \<and> s5 \<noteq> [] \<longrightarrow>
         tryReplicate env srv p t =
           (Inr (Ok ''replicate'' (JStr s5)),
            t @ Fetch (replicate_request k5 p) # poll_rounds n k5 u @
              [Fetch (status_request k5 u)])) \<and>
      (out = None \<or> out = Some JNull \<or> out = Some (JStr []) \<or> out = Some (JArr []) \<longrightarrow>
         tryReplicate env srv p t =
           (Inr (Fail ''replicate'' ''Error: Replicate empty output''),
            t @ Fetch (replicate_request k5 p) # poll_rounds n k5 u @
              [Fetch (status_request k5 u),
               ConsoleError ''Replicate error:'' (Error ''Replicate empty output'')]))"
proof (intro impI conjI)
  assume h: "credential env ''REPLICATE_API_KEY'' k5 \<and>
      answered (srv t (replicate_request k5 p)) d5 \<and>
      opt_prop (opt_prop (Some d5) ''urls'') ''get'' = Some (JStr u) \<and> u \<noteq> [] \<and> n < 30 \<and>
      (\<forall>j<n. pending_read
         (srv (t @ Fetch (replicate_request k5 p) # poll_rounds j k5 u) (status_request k5 u))) \<and>
      succeeded_read
         (srv (t @ Fetch (replicate_request k5 p) # poll_rounds n k5 u) (status_request k5 u)) out"
  note out = tryReplicate_output [where env = env and srv = srv and t = t and key = k5
      and p = p and data = d5 and u = u and n = n and out = out]
  {
    assume o: "out = Some (JArr (map JStr segs)) \<and> intercalate [CHR 0x0A] segs \<noteq> []"
    then have "replicate_output_text out = Inr (intercalate [CHR 0x0A] segs)"
      by (simp add: replicate_output_text_cases)
    with h o out [of "intercalate [CHR 0x0A] segs"]
    show "tryReplicate env srv p t =
         (Inr (Ok ''replicate'' (JStr (intercalate [CHR 0x0A] segs))),
          t @ Fetch (replicate_request k5 p) # poll_rounds n k5 u @
            [Fetch (status_request k5 u)])"
      by simp
  }
  {
    assume o: "out = Some (JStr s5) \<and> s5 \<noteq> []"
    then have "replicate_output_text out = Inr s5"
      by (simp add: replicate_output_text_cases)
    with h o out [of s5]
    show "tryReplicate env srv p t =
         (Inr (Ok ''replicate'' (JStr s5)),
          t @ Fetch (replicate_request k5 p) # poll_rounds n k5 u @
            [Fetch (status_request k5 u)])"
      by simp
  }
  {
    assume o: "out = None \<or> out = Some JNull \<or> out = Some (JStr []) \<or> out = Some (JArr [])"
    then have "replicate_output_text out = Inr []"
      by (rule replicate_output_text_cases)
    with h out [of "[]"]
    show "tryReplicate env srv p t =
         (Inr (Fail ''replicate'' ''Error: Replicate empty output''),
          t @ Fetch (replicate_request k5 p) # poll_rounds n k5 u @
            [Fetch (status_request k5 u),
             ConsoleError ''Replicate error:'' (Error ''Replicate empty output'')])"
      by simp
  }
qed

text \<open>
  C5, as the code has it.  In each case the adapter's credential is set and its request is
  answered 2xx with a body that parses.
  \<^item> OpenAI and OpenRouter: when the \<^verbatim>\<open>content\<close> of the \<^verbatim>\<open>message\<close> of the first of
    \<^verbatim>\<open>choices\<close> is a non-empty string, that string is the text of the success, unchanged (a
    whitespace-only string included); when \<^verbatim>\<open>choices\<close> is missing or empty, the first choice
    has no \<^verbatim>\<open>message\<close>, or the \<^verbatim>\<open>content\<close> is missing, \<^verbatim>\<open>null\<close> or the empty string, the
    adapter returns the failure \<^verbatim>\<open>Error: <Provider> empty response\<close>.
  \<^item> Gemini: the same, for the \<^verbatim>\<open>text\<close> of the first of \<^verbatim>\<open>parts\<close> of the \<^verbatim>\<open>content\<close> of the first
    of \<^verbatim>\<open>candidates\<close>.
  \<^item> HuggingFace: a non-empty string \<^verbatim>\<open>generated_text\<close> of the first element of an array
    body, or of an object body, or else (no truthy \<^verbatim>\<open>generated_text\<close>) a non-empty string
    \<^verbatim>\<open>summary_text\<close> of the first element, is the text of the success.
  \<^item> Replicate, when a status read reports \<^verbatim>\<open>succeeded\<close>: an output array of strings whose
    join by newline is not empty gives the joined text, a non-empty output string gives
    itself; a missing, \<^verbatim>\<open>null\<close> or empty output gives the failure
    \<^verbatim>\<open>Error: Replicate empty output\<close>.
  \<^item> The text of a success is a non-empty string for OpenAI, OpenRouter, Gemini and
    Replicate, and a truthy value, never the empty string, for HuggingFace.
\<close>

theorem extraction_outcomes:
  "(credential env ''OPENAI_API_KEY'' k1 \<and> answered (srv t (openai_request k1 p)) d1 \<and>
      own_prop d1 ''choices'' = Some (JArr (c1 # cs1)) \<and> own_prop c1 ''message'' = Some m1 \<and>
      own_prop m1 ''content'' = Some (JStr s1) \<and> s1 \<noteq> [] \<longrightarrow>
      tryOpenAI env srv p t =
        (Inr (Ok ''openai'' (JStr s1)), t @ [Fetch (openai_request k1 p)])) \<and>
   (credential env ''OPENAI_API_KEY'' k1 \<and> answered (srv t (openai_request k1 p)) d1 \<and>
      (own_prop d1 ''choices'' = None \<or> own_prop d1 ''choices'' = Some (JArr []) \<or>
       own_prop d1 ''choices'' = Some (JArr (c1 # cs1)) \<and>
         (own_prop c1 ''message'' = None \<or>
          own_prop c1 ''message'' = Some m1 \<and>
            (own_prop m1 ''content'' = None \<or> own_prop m1 ''content'' = Some JNull \<or>
             own_prop m1 ''content'' = Some (JStr [])))) \<longrightarrow>
      tryOpenAI env srv p t =
        (Inr (Fail ''openai'' ''Error: OpenAI empty response''),
         t @ [Fetch (openai_request k1 p),
              ConsoleError ''OpenAI error:'' (Error ''OpenAI empty response'')])) \<and>
   (credential env ''OPENROUTER_API_KEY'' k2 \<and> answered (srv t (openrouter_request k2 p)) d2 \<and>
      own_prop d2 ''choices'' = Some (JArr (c2 # cs2)) \<and> own_prop c2 ''message'' = Some m2 \<and>
      own_prop m2 ''content'' = Some (JStr s2) \<and> s2 \<noteq> [] \<longrightarrow>
      tryOpenRouter env srv p t =
        (Inr (Ok ''openrouter'' (JStr s2)), t @ [Fetch (openrouter_request k2 p)])) \<and>
   (credential env ''OPENROUTER_API_KEY'' k2 \<and> answered (srv t (openrouter_request k2 p)) d2 \<and>
      (own_prop d2 ''choices'' = None \<or> own_prop d2 ''choices'' = Some (JArr []) \<or>
       own_prop d2 ''choices'' = Some (JArr (c2 # cs2)) \<and>
         (own_prop c2 ''message'' = None \<or>
          own_prop c2 ''message'' = Some m2 \<and>
            (own_prop m2 ''content'' = None \<or> own_prop m2 ''content'' = Some JNull \<or>
             own_prop m2 ''content'' = Some (JStr [])))) \<longrightarrow>
      tryOpenRouter env srv p t =
        (Inr (Fail ''openrouter'' ''Error: OpenRouter empty response''),
         t @ [Fetch (openrouter_request k2 p),
              ConsoleError ''OpenRouter error:'' (Error ''OpenRouter empty response'')])) \<and>
   (credential env ''GOOGLE_GEMINI_API_KEY'' k3 \<and> answered (srv t (gemini_request k3 p)) d3 \<and>
      own_prop d3 ''candidates'' = Some (JArr (c3 # cs3)) \<and> own_prop c3 ''content'' = Some ct3 \<and>
      own_prop ct3 ''parts'' = Some (JArr (pt3 # pts3)) \<and>
      own_prop pt3 ''text'' = Some (JStr s3) \<and> s3 \<noteq> [] \<longrightarrow>
      tryGemini env srv p t =
        (Inr (Ok ''gemini'' (JStr s3)), t @ [Fetch (gemini_request k3 p)])) \<and>
   (credential env ''GOOGLE_GEMINI_API_KEY'' k3 \<and> answered (srv t (gemini_request k3 p)) d3 \<and>
      (own_prop d3 ''candidates'' = None \<or> own_prop d3 ''candidates'' = Some (JArr []) \<or>
       own_prop d3 ''candidates'' = Some (JArr (c3 # cs3)) \<and>
         (own_prop c3 ''content'' = None \<or>
          own_prop c3 ''content'' = Some ct3 \<and>
            (own_prop ct3 ''parts'' = None \<or> own_prop ct3 ''parts'' = Some (JArr []) \<or>
             own_prop ct3 ''parts'' = Some (JArr (pt3 # pts3)) \<and>
               (own_prop pt3 ''text'' = None \<or> own_prop pt3 ''text'' = Some JNull \<or>
                own_prop pt3 ''text'' = Some (JStr []))))) \<longrightarrow>
      tryGemini env srv p t =
        (Inr (Fail ''gemini'' ''Error: Gemini empty response''),
         t @ [Fetch (gemini_request k3 p),
              ConsoleError ''Gemini error:'' (Error ''Gemini empty response'')])) \<and>
   (credential env ''HUGGING_FACE_ACCESS_TOKEN'' k4 \<and>
      answered (srv t (huggingface_request k4 p)) d4 \<and>
      d4 = JArr (e4 # es4) \<and> own_prop e4 ''generated_text'' = Some (JStr s4) \<and> s4 \<noteq> [] \<longrightarrow>
      tryHuggingFace env srv p t =
        (Inr (Ok ''huggingface'' (JStr s4)), t @ [Fetch (huggingface_request k4 p)])) \<and>
   (credential env ''HUGGING_FACE_ACCESS_TOKEN'' k4 \<and>
      answered (srv t (huggingface_request k4 p)) d4 \<and>
      own_prop d4 ''generated_text'' = Some (JStr s4) \<and> s4 \<noteq> [] \<longrightarrow>
      tryHuggingFace env srv p t =
        (Inr (Ok ''huggingface'' (JStr s4)), t @ [Fetch (huggingface_request k4 p)])) \<and>
   (credential env ''HUGGING_FACE_ACCESS_TOKEN'' k4 \<and>
      answered (srv t (huggingface_request k4 p)) d4 \<and>
      d4 = JArr (e4 # es4) \<and> \<not> truthy (own_prop e4 ''generated_text'') \<and>
      own_prop e4 ''summary_text'' = Some (JStr s4) \<and> s4 \<noteq> [] \<longrightarrow>
      tryHuggingFace env srv p t =
        (Inr (Ok ''huggingface'' (JStr s4)), t @ [Fetch (huggingface_request k4 p)])) \<and>
   (credential env ''REPLICATE_API_KEY'' k5 \<and>
    answered (srv t (replicate_request k5 p)) d5 \<and>
    opt_prop (opt_prop (Some d5) ''urls'') ''get'' = Some (JStr u) \<and> u \<noteq> [] \<and> n < 30 \<and>
    (\<forall>j<n. pending_read
       (srv (t @ Fetch (replicate_request k5 p) # poll_rounds j k5 u) (status_request k5 u))) \<and>
    succeeded_read
       (srv (t @ Fetch (replicate_request k5 p) # poll_rounds n k5 u) (status_request k5 u)) out \<longrightarrow>
      (out = Some (JArr (map JStr segs)) \<and> intercalate [CHR 0x0A] segs \<noteq> [] \<longrightarrow>
         tryReplicate env srv p t =
           (Inr (Ok ''replicate'' (JStr (intercalate [CHR 0x0A] segs))),
            t @ Fetch (replicate_request k5 p) # poll_rounds n k5 u @
              [Fetch (status_request k5 u)])) \<and>
      (out = Some (JStr s5) \<and> s5 \<noteq> [] \<longrightarrow>
         tryReplicate env srv p t =
           (Inr (Ok ''replicate'' (JStr s5)),
            t @ Fetch (replicate_request k5 p) # poll_rounds n k5 u @
              [Fetch (status_request k5 u)])) \<and>
      (out = None \<or> out = Some JNull \<or> out = Some (JStr []) \<or> out = Some (JArr []) \<longrightarrow>
         tryReplicate env srv p t =
           (Inr (Fail ''replicate'' ''Error: Replicate empty output''),
            t @ Fetch (replicate_request k5 p) # poll_rounds n k5 u @
              [Fetch (status_request k5 u),
               ConsoleError ''Replicate error:'' (Error ''Replicate empty output'')]))) \<and>
   (fst (tryOpenAI env srv p t) = Inr (Ok pr tx) \<or> fst (tryOpenRouter env srv p t) = Inr (Ok pr tx) \<or>
    fst (tryGemini env srv p t) = Inr (Ok pr tx) \<or> fst (tryReplicate env srv p t) = Inr (Ok pr tx) \<longrightarrow>
      (\<exists>s. tx = JStr s \<and> s \<noteq> [])) \<and>
   (fst (tryHuggingFace env srv p t) = Inr (Ok pr tx) \<longrightarrow> truthy (Some tx) \<and> tx \<noteq> JStr [])"
proof -
  have ok1: "(credential env ''OPENAI_API_KEY'' k1 \<and> answered (srv t (openai_request k1 p)) d1 \<and>
      own_prop d1 ''choices'' = Some (JArr (c1 # cs1)) \<and> own_prop c1 ''message'' = Some m1 \<and>
      own_prop m1 ''content'' = Some (JStr s1) \<and> s1 \<noteq> [] \<longrightarrow>
      tryOpenAI env srv p t =
        (Inr (Ok ''openai'' (JStr s1)), t @ [Fetch (openai_request k1 p)]))"
    by (rule impI, erule openai_documented_text)
  have em1: "(credential env ''OPENAI_API_KEY'' k1 \<and> answered (srv t (openai_request k1 p)) d1 \<and>
      (own_prop d1 ''choices'' = None \<or> own_prop d1 ''choices'' = Some (JArr []) \<or>
       own_prop d1 ''choices'' = Some (JArr (c1 # cs1)) \<and>
         (own_prop c1 ''message'' = None \<or>
          own_prop c1 ''message'' = Some m1 \<and>
            (own_prop m1 ''content'' = None \<or> own_prop m1 ''content'' = Some JNull \<or>
             own_prop m1 ''content'' = Some (JStr [])))) \<longrightarrow>
      tryOpenAI env srv p t =
        (Inr (Fail ''openai'' ''Error: OpenAI empty response''),
         t @ [Fetch (openai_request k1 p),
              ConsoleError ''OpenAI error:'' (Error ''OpenAI empty response'')]))"
    by (rule impI, erule openai_empty_text)
  have ok2: "(credential env ''OPENROUTER_API_KEY'' k2 \<and> answered (srv t (openrouter_request k2 p)) d2 \<and>
      own_prop d2 ''choices'' = Some (JArr (c2 # cs2)) \<and> own_prop c2 ''message'' = Some m2 \<and>
      own_prop m2 ''content'' = Some (JStr s2) \<and> s2 \<noteq> [] \<longrightarrow>
      tryOpenRouter env srv p t =
        (Inr (Ok ''openrouter'' (JStr s2)), t @ [Fetch (openrouter_request k2 p)]))"
    by (rule impI, erule openrouter_documented_text)
  have em2: "(credential env ''OPENROUTER_API_KEY'' k2 \<and> answered (srv t (openrouter_request k2 p)) d2 \<and>
      (own_prop d2 ''choices'' = None \<or> own_prop d2 ''choices'' = Some (JArr []) \<or>
       own_prop d2 ''choices'' = Some (JArr (c2 # cs2)) \<and>
         (own_prop c2 ''message'' = None \<or>
          own_prop c2 ''message'' = Some m2 \<and>
            (own_prop m2 ''content'' = None \<or> own_prop m2 ''content'' = Some JNull \<or>
             own_prop m2 ''content'' = Some (JStr [])))) \<longrightarrow>
      tryOpenRouter env srv p t =
        (Inr (Fail ''openrouter'' ''Error: OpenRouter empty response''),
         t @ [Fetch (openrouter_request k2 p),
              ConsoleError ''OpenRouter error:'' (Error ''OpenRouter empty response'')]))"
    by (rule impI, erule openrouter_empty_text)
  have ok3: "(credential env ''GOOGLE_GEMINI_API_KEY'' k3 \<and> answered (srv t (gemini_request k3 p)) d3 \<and>
      own_prop d3 ''candidates'' = Some (JArr (c3 # cs3)) \<and> own_prop c3 ''content'' = Some ct3 \<and>
      own_prop ct3 ''parts'' = Some (JArr (pt3 # pts3)) \<and>
      own_prop pt3 ''text'' = Some (JStr s3) \<and> s3 \<noteq> [] \<longrightarrow>
      tryGemini env srv p t =
        (Inr (Ok ''gemini'' (JStr s3)), t @ [Fetch (gemini_request k3 p)]))"
    by (rule impI, erule gemini_documented_text)
  have em3: "(credential env ''GOOGLE_GEMINI_API_KEY'' k3 \<and> answered (srv t (gemini_request k3 p)) d3 \<and>
      (own_prop d3 ''candidates'' = None \<or> own_prop d3 ''candidates'' = Some (JArr []) \<or>
       own_prop d3 ''candidates'' = Some (JArr (c3 # cs3)) \<and>
         (own_prop c3 ''content'' = None \<or>
          own_prop c3 ''content'' = Some ct3 \<and>
            (own_prop ct3 ''parts'' = None \<or> own_prop ct3 ''parts'' = Some (JArr []) \<or>
             own_prop ct3 ''parts'' = Some (JArr (pt3 # pts3)) \<and>
               (own_prop pt3 ''text'' = None \<or> own_prop pt3 ''text'' = Some JNull \<or>
                own_prop pt3 ''text'' = Some (JStr []))))) \<longrightarrow>
      tryGemini env srv p t =
        (Inr (Fail ''gemini'' ''Error: Gemini empty response''),
         t @ [Fetch (gemini_request k3 p),
              ConsoleError ''Gemini error:'' (Error ''Gemini empty response'')]))"
    by (rule impI, erule gemini_empty_text)
  have hfa: "(credential env ''HUGGING_FACE_ACCESS_TOKEN'' k4 \<and>
      answered (srv t (huggingface_request k4 p)) d4 \<and>
      d4 = JArr (e4 # es4) \<and> own_prop e4 ''generated_text'' = Some (JStr s4) \<and> s4 \<noteq> [] \<longrightarrow>
      tryHuggingFace env srv p t =
        (Inr (Ok ''huggingface'' (JStr s4)), t @ [Fetch (huggingface_request k4 p)]))"
    by (rule impI, erule huggingface_hfa)
  have hfo: "(credential env ''HUGGING_FACE_ACCESS_TOKEN'' k4 \<and>
      answered (srv t (huggingface_request k4 p)) d4 \<and>
      own_prop d4 ''generated_text'' = Some (JStr s4) \<and> s4 \<noteq> [] \<longrightarrow>
      tryHuggingFace env srv p t =
        (Inr (Ok ''huggingface'' (JStr s4)), t @ [Fetch (huggingface_request k4 p)]))"
    by (rule impI, erule huggingface_hfo)
  have hfs: "(credential env ''HUGGING_FACE_ACCESS_TOKEN'' k4 \<and>
      answered (srv t (huggingface_request k4 p)) d4 \<and>
      d4 = JArr (e4 # es4) \<and> \<not> truthy (own_prop e4 ''generated_text'') \<and>
      own_prop e4 ''summary_text'' = Some (JStr s4) \<and> s4 \<noteq> [] \<longrightarrow>
      tryHuggingFace env srv p t =
        (Inr (Ok ''huggingface'' (JStr s4)), t @ [Fetch (huggingface_request k4 p)]))"
    by (rule impI, erule huggingface_hfs)
  have e: "(credential env ''REPLICATE_API_KEY'' k5 \<and>
    answered (srv t (replicate_request k5 p)) d5 \<and>
    opt_prop (opt_prop (Some d5) ''urls'') ''get'' = Some (JStr u) \<and> u \<noteq> [] \<and> n < 30 \<and>
    (\<forall>j<n. pending_read
       (srv (t @ Fetch (replicate_request k5 p) # poll_rounds j k5 u) (status_request k5 u))) \<and>
    succeeded_read
       (srv (t @ Fetch (replicate_request k5 p) # poll_rounds n k5 u) (status_request k5 u)) out \<longrightarrow>
      (out = Some (JArr (map JStr segs)) \<and> intercalate [CHR 0x0A] segs \<noteq> [] \<longrightarrow>
         tryReplicate env srv p t =
           (Inr (Ok ''replicate'' (JStr (intercalate [CHR 0x0A] segs))),
            t @ Fetch (replicate_request k5 p) # poll_rounds n k5 u @
              [Fetch (status_request k5 u)])) \<and>
      (out = Some (JStr s5) \<and> s5 \<noteq> [] \<longrightarrow>
         tryReplicate env srv p t =
           (Inr (Ok ''replicate'' (JStr s5)),
            t @ Fetch (replicate_request k5 p) # poll_rounds n k5 u @
              [Fetch (status_request k5 u)])) \<and>
      (out = None \<or> out = Some JNull \<or> out = Some (JStr []) \<or> out = Some (JArr []) \<longrightarrow>
         tryReplicate env srv p t =
           (Inr (Fail ''replicate'' ''Error: Replicate empty output''),
            t @ Fetch (replicate_request k5 p) # poll_rounds n k5 u @
              [Fetch (status_request k5 u),
               ConsoleError ''Replicate error:'' (Error ''Replicate empty output'')])))"
    by (rule impI, erule replicate_succeeded_outputs)
  have n1: "(fst (tryOpenAI env srv p t) = Inr (Ok pr tx) \<or> fst (tryOpenRouter env srv p t) = Inr (Ok pr tx) \<or>
    fst (tryGemini env srv p t) = Inr (Ok pr tx) \<or> fst (tryReplicate env srv p t) = Inr (Ok pr tx) \<longrightarrow>
      (\<exists>s. tx = JStr s \<and> s \<noteq> []))"
    using success_text_string [of env srv p t pr tx]
      replicate_success_text_string [of env srv p t pr tx]
    by blast
  have n2: "(fst (tryHuggingFace env srv p t) = Inr (Ok pr tx) \<longrightarrow> truthy (Some tx) \<and> tx \<noteq> JStr [])"
    by (rule impI, erule huggingface_success_truthy)
  show ?thesis
    by (intro conjI, rule ok1, rule em1, rule ok2, rule em2, rule ok3, rule em3, rule hfa, rule hfo, rule hfs, rule e, rule n1, rule n2)
qed


theorem extraction_outcomes_witness:
  "tryOpenAI all_keys_env extraction_server ''hi'' [] =
     (Inr (Ok ''openai'' (JStr '' '')), [] @ [Fetch (openai_request ''k1'' ''hi'')]) \<and>
   tryOpenRouter all_keys_env extraction_server ''hi'' [] =
     (Inr (Fail ''openrouter'' ''Error: OpenRouter empty response''),
      [] @ [Fetch (openrouter_request ''k2'' ''hi''),
            ConsoleError ''OpenRouter error:'' (Error ''OpenRouter empty response'')]) \<and>
   tryGemini all_keys_env extraction_server ''hi'' [] =
     (Inr (Ok ''gemini'' (JStr ''hello'')), [] @ [Fetch (gemini_request ''k3'' ''hi'')]) \<and>
   tryHuggingFace all_keys_env extraction_server ''hi'' [] =
     (Inr (Ok ''huggingface'' (JStr ''report'')), [] @ [Fetch (huggingface_request ''k4'' ''hi'')]) \<and>
   tryReplicate all_keys_env extraction_server ''hi'' [] =
     (Inr (Ok ''replicate'' (JStr (''a'' @ [CHR 0x0A] @ ''b''))),
      [] @ Fetch (replicate_request ''k5'' ''hi'') # poll_rounds 0 ''k5'' ''status-url'' @
        [Fetch (status_request ''k5'' ''status-url'')])"
proof -
  let ?m1 = "JObj [(''role'', JStr ''assistant''), (''content'', JStr '' '')]"
  let ?c1 = "JObj [(''message'', ?m1)]"
  let ?d1 = "JObj [(''choices'', JArr [?c1])]"
  let ?d2 = "JObj [(''choices'', JArr [])]"
  let ?pt3 = "JObj [(''text'', JStr ''hello'')]"
  let ?ct3 = "JObj [(''parts'', JArr [?pt3])]"
  let ?c3 = "JObj [(''content'', ?ct3)]"
  let ?d3 = "JObj [(''candidates'', JArr [?c3])]"
  let ?e4 = "JObj [(''generated_text'', JStr ''report'')]"
  let ?d4 = "JArr [?e4]"
  let ?d5 = "JObj [(''urls'', JObj [(''get'', JStr ''status-url'')])]"
  let ?out = "Some (JArr (map JStr [''a'', ''b'']))"
  have k: "credential all_keys_env ''OPENAI_API_KEY'' ''k1''"
    "credential all_keys_env ''OPENROUTER_API_KEY'' ''k2''"
    "credential all_keys_env ''GOOGLE_GEMINI_API_KEY'' ''k3''"
    "credential all_keys_env ''HUGGING_FACE_ACCESS_TOKEN'' ''k4''"
    "credential all_keys_env ''REPLICATE_API_KEY'' ''k5''"
    by (simp_all add: credential_def all_keys_env_def)
  have r: "answered (extraction_server [] (openai_request ''k1'' ''hi'')) ?d1"
    "answered (extraction_server [] (openrouter_request ''k2'' ''hi'')) ?d2"
    "answered (extraction_server [] (gemini_request ''k3'' ''hi'')) ?d3"
    "answered (extraction_server [] (huggingface_request ''k4'' ''hi'')) ?d4"
    "answered (extraction_server [] (replicate_request ''k5'' ''hi'')) ?d5"
    by (simp_all add: extraction_server_def openai_request_def openrouter_request_def
        gemini_request_def huggingface_request_def replicate_request_def gemini_hello_server_def
        job_created_def)
  have x: "own_prop ?d1 ''choices'' = Some (JArr (?c1 # [])) \<and> own_prop ?c1 ''message'' = Some ?m1 \<and>
      own_prop ?m1 ''content'' = Some (JStr '' '') \<and> '' '' \<noteq> []"
    "own_prop ?d2 ''choices'' = Some (JArr [])"
    "own_prop ?d3 ''candidates'' = Some (JArr (?c3 # [])) \<and> own_prop ?c3 ''content'' = Some ?ct3 \<and>
      own_prop ?ct3 ''parts'' = Some (JArr (?pt3 # [])) \<and>
      own_prop ?pt3 ''text'' = Some (JStr ''hello'') \<and> ''hello'' \<noteq> []"
    "?d4 = JArr (?e4 # []) \<and> own_prop ?e4 ''generated_text'' = Some (JStr ''report'') \<and>
      ''report'' \<noteq> []"
    by simp_all
  have e: "opt_prop (opt_prop (Some ?d5) ''urls'') ''get'' = Some (JStr ''status-url'') \<and>
      ''status-url'' \<noteq> [] \<and> (0::nat) < 30"
    "\<forall>j<0::nat. pending_read (extraction_server
        ([] @ Fetch (replicate_request ''k5'' ''hi'') # poll_rounds j ''k5'' ''status-url'')
        (status_request ''k5'' ''status-url''))"
    "succeeded_read (extraction_server
        ([] @ Fetch (replicate_request ''k5'' ''hi'') # poll_rounds 0 ''k5'' ''status-url'')
        (status_request ''k5'' ''status-url'')) ?out"
    "intercalate [CHR 0x0A] [''a'', ''b''] = ''a'' @ [CHR 0x0A] @ ''b'' \<and>
     intercalate [CHR 0x0A] [''a'', ''b''] \<noteq> []"
    by (simp_all add: extraction_server_def openai_request_def openrouter_request_def
        gemini_request_def huggingface_request_def status_request_def)
  note T = extraction_outcomes [where env = all_keys_env and srv = extraction_server
      and p = "''hi''" and t = "[]" and ?k1.0 = "''k1''" and ?k2.0 = "''k2''" and ?k3.0 = "''k3''"
      and ?k4.0 = "''k4''" and ?k5.0 = "''k5''"
      and ?d1.0 = ?d1 and ?c1.0 = ?c1 and ?cs1.0 = "[]" and ?m1.0 = ?m1 and ?s1.0 = "'' ''"
      and ?d2.0 = ?d2
      and ?d3.0 = ?d3 and ?c3.0 = ?c3 and ?cs3.0 = "[]" and ?ct3.0 = ?ct3 and ?pt3.0 = ?pt3
      and ?pts3.0 = "[]" and ?s3.0 = "''hello''"
      and ?d4.0 = ?d4 and ?e4.0 = ?e4 and ?es4.0 = "[]" and ?s4.0 = "''report''"
      and ?d5.0 = ?d5 and u = "''status-url''" and n = 0 and out = ?out
      and segs = "[''a'', ''b'']"]
  note TA = T [THEN conjunct1]
    and TB = T [THEN conjunct2, THEN conjunct2, THEN conjunct2, THEN conjunct1]
    and TC = T [THEN conjunct2, THEN conjunct2, THEN conjunct2, THEN conjunct2, THEN conjunct1]
    and TD = T [THEN conjunct2, THEN conjunct2, THEN conjunct2, THEN conjunct2, THEN conjunct2, THEN conjunct2, THEN conjunct1]
    and TE = T [THEN conjunct2, THEN conjunct2, THEN conjunct2, THEN conjunct2, THEN conjunct2, THEN conjunct2, THEN conjunct2, THEN conjunct2, THEN conjunct2, THEN conjunct1]
  have a: "tryOpenAI all_keys_env extraction_server ''hi'' [] =
     (Inr (Ok ''openai'' (JStr '' '')), [] @ [Fetch (openai_request ''k1'' ''hi'')])"
    using TA k(1) r(1) x(1) by simp
  have b: "tryOpenRouter all_keys_env extraction_server ''hi'' [] =
     (Inr (Fail ''openrouter'' ''Error: OpenRouter empty response''),
      [] @ [Fetch (openrouter_request ''k2'' ''hi''),
            ConsoleError ''OpenRouter error:'' (Error ''OpenRouter empty response'')])"
    using TB k(2) r(2) x(2) by simp
  have c: "tryGemini all_keys_env extraction_server ''hi'' [] =
     (Inr (Ok ''gemini'' (JStr ''hello'')), [] @ [Fetch (gemini_request ''k3'' ''hi'')])"
    using TC k(3) r(3) x(3) by simp
  have d: "tryHuggingFace all_keys_env extraction_server ''hi'' [] =
     (Inr (Ok ''huggingface'' (JStr ''report'')), [] @ [Fetch (huggingface_request ''k4'' ''hi'')])"
    using TD k(4) r(4) x(4) by simp
  have f: "tryReplicate all_keys_env extraction_server ''hi'' [] =
     (Inr (Ok ''replicate'' (JStr (intercalate [CHR 0x0A] [''a'', ''b'']))),
      [] @ Fetch (replicate_request ''k5'' ''hi'') # poll_rounds 0 ''k5'' ''status-url'' @
        [Fetch (status_request ''k5'' ''status-url'')])"
    using TE k(5) r(5) e(1,2,3) e(4) by simp
  from a b c d f e(4) show ?thesis by simp
qed

text \<open>
  C5, as stated, fails: a whitespace-only text is returned as a success (here by OpenAI),
  and a HuggingFace body of unrecognized shape, the empty object, is returned as a success
  whose text is its serialisation.
\<close>

theorem whitespace_and_unrecognized_counterexample:
  "tryOpenAI all_keys_env extraction_server ''hi'' [] =
     (Inr (Ok ''openai'' (JStr '' '')), [Fetch (openai_request ''k1'' ''hi'')]) \<and>
   tryHuggingFace all_keys_env third_succeeds_server ''hi'' [] =
     (Inr (Ok ''huggingface'' (JStr ''{}'')), [Fetch (huggingface_request ''k4'' ''hi'')])"
proof -
  have a: "tryOpenAI all_keys_env extraction_server ''hi'' [] =
     (Inr (Ok ''openai'' (JStr '' '')), [Fetch (openai_request ''k1'' ''hi'')])"
    by (simp add: tryOpenAI_def all_keys_env_def openai_attempt_def extraction_server_def
        openai_request_def chat_text_def chat_content_def require_text_def res_ok_def effect_defs)
  have b: "tryHuggingFace all_keys_env third_succeeds_server ''hi'' [] =
     (Inr (Ok ''huggingface'' (JStr ''{}'')), [Fetch (huggingface_request ''k4'' ''hi'')])"
    by (simp add: tryHuggingFace_def all_keys_env_def huggingface_attempt_def
        third_succeeds_server_def openai_request_def openrouter_request_def gemini_request_def
        huggingface_request_def huggingface_text_def when_truthy_def res_ok_def effect_defs)
  from a b show ?thesis by simp
qed

section \<open>Non-terminal status reads\<close>

lemma poll_step_cases:
  assumes "i < 30" and "js_toString endpoint = Inr u"
  shows "snd (replicate_poll srv key endpoint i t) = t @ [Fetch (status_request key u)] \<or>
         replicate_poll srv key endpoint i t =
           replicate_poll srv key endpoint (Suc i)
             ((t @ [Fetch (status_request key u)]) @ [Sleep 1000])"
  using assms
  by (simp add: replicate_poll.simps [of _ _ _ i] bindE_fetch)
     (auto simp add: effect_defs split: sum.splits prod.splits)

lemma poll_continues:
  assumes "js_toString endpoint = Inr u" and "n < 30"
    and "\<forall>j<n. pending_read (srv (t @ poll_rounds j key u) (status_request key u))"
  shows "\<exists>es. snd (replicate_poll srv key endpoint 0 t) =
              t @ poll_rounds n key u @ Fetch (status_request key u) # es"
proof -
  let ?t = "t @ poll_rounds n key u"
  have eq: "replicate_poll srv key endpoint 0 t = replicate_poll srv key endpoint (0 + n) ?t"
    using assms by (intro poll_pending_rounds) simp_all
  from poll_step_cases [OF assms(2,1), of srv key ?t]
  have "\<exists>es. snd (replicate_poll srv key endpoint n ?t) = ?t @ Fetch (status_request key u) # es"
  proof
    assume "snd (replicate_poll srv key endpoint n ?t) = ?t @ [Fetch (status_request key u)]"
    then show ?thesis by simp
  next
    assume s: "replicate_poll srv key endpoint n ?t =
           replicate_poll srv key endpoint (Suc n) ((?t @ [Fetch (status_request key u)]) @ [Sleep 1000])"
    from poll_reads_bounded [of srv key endpoint "Suc n" "(?t @ [Fetch (status_request key u)]) @ [Sleep 1000]"]
    obtain es where "snd (replicate_poll srv key endpoint (Suc n)
        ((?t @ [Fetch (status_request key u)]) @ [Sleep 1000])) =
        ((?t @ [Fetch (status_request key u)]) @ [Sleep 1000]) @ es" by blast
    with s show ?thesis by simp
  qed
  with eq show ?thesis by simp
qed

lemma poll_failed_after:
  assumes "js_toString endpoint = Inr u" and "n < 30"
    and "\<forall>j<n. pending_read (srv (t @ poll_rounds j key u) (status_request key u))"
    and "failed_read (srv (t @ poll_rounds n key u) (status_request key u)) s"
  shows "replicate_poll srv key endpoint 0 t =
           (Inl (Error (''Replicate '' @ s)),
            t @ poll_rounds n key u @ [Fetch (status_request key u)])"
proof -
  from assms(4) obtain st b where r: "srv (t @ poll_rounds n key u) (status_request key u) =
      Inr (FetchResponse st (Inr b))" and b: "own_prop b ''status'' = Some (JStr s)"
      and s: "s = ''failed'' \<or> s = ''canceled''"
    by (cases "(srv (t @ poll_rounds n key u) (status_request key u), s)"
        rule: failed_read.cases) auto
  have nn: "b \<noteq> JNull" using b by auto
  have "replicate_poll srv key endpoint 0 t =
          replicate_poll srv key endpoint (0 + n) (t @ poll_rounds n key u)"
    using assms(1,2,3) by (intro poll_pending_rounds) simp_all
  also have "\<dots> = (Inl (Error (''Replicate '' @ s)),
            (t @ poll_rounds n key u) @ [Fetch (status_request key u)])"
    using assms(1,2) r b nn s
    by (auto simp add: replicate_poll.simps [of _ _ _ n] bindE_fetch get_prop_def throwE_def)
  finally show ?thesis by simp
qed


lemma replicate_attempt_answered:
  assumes "answered (srv t (replicate_request key p)) data"
    and "opt_prop (opt_prop (Some data) ''urls'') ''get'' = Some (JStr u)" and "u \<noteq> []"
  shows "replicate_attempt key srv p t =
           replicate_poll srv key (JStr u) 0 (t @ [Fetch (replicate_request key p)])"
proof -
  from assms(1) obtain st where "srv t (replicate_request key p) = Inr (FetchResponse st (Inr data))"
    and "200 \<le> st" and "st \<le> 299" by (rule answeredE)
  then show ?thesis using assms(2,3) by (rule replicate_attempt_polls)
qed

lemma tryReplicate_continues:
  assumes "credential env ''REPLICATE_API_KEY'' key"
    and "answered (srv t (replicate_request key p)) data"
    and "opt_prop (opt_prop (Some data) ''urls'') ''get'' = Some (JStr u)" and "u \<noteq> []"
    and "n < 30"
    and "\<forall>j<n. pending_read
           (srv (t @ Fetch (replicate_request key p) # poll_rounds j key u) (status_request key u))"
  shows "\<exists>es. snd (tryReplicate env srv p t) =
              t @ Fetch (replicate_request key p) # poll_rounds n key u @
                Fetch (status_request key u) # es"
proof -
  let ?t0 = "t @ [Fetch (replicate_request key p)]"
  have k: "env ''REPLICATE_API_KEY'' = Some key" "key \<noteq> []"
    using assms(1) by (simp_all add: credential_def)
  have a: "replicate_attempt key srv p t = replicate_poll srv key (JStr u) 0 ?t0"
    using assms(2-4) by (rule replicate_attempt_answered)
  have "\<exists>es. snd (replicate_poll srv key (JStr u) 0 ?t0) =
              ?t0 @ poll_rounds n key u @ Fetch (status_request key u) # es"
    using assms(5,6) by (intro poll_continues) simp_all
  then obtain es where es: "snd (replicate_attempt key srv p t) =
              ?t0 @ poll_rounds n key u @ Fetch (status_request key u) # es"
    using a by auto
  show ?thesis
  proof (cases "fst (replicate_attempt key srv p t)")
    case (Inl e)
    then have "snd (tryReplicate env srv p t) =
        (?t0 @ poll_rounds n key u @ Fetch (status_request key u) # es) @
          [ConsoleError ''Replicate error:'' e]"
      using es by (auto simp add: tryReplicate_with_key [where env = env, OF k] split: prod.splits)
    then show ?thesis by simp
  next
    case (Inr out)
    then have "snd (tryReplicate env srv p t) =
        ?t0 @ poll_rounds n key u @ Fetch (status_request key u) # es"
      using es by (auto simp add: tryReplicate_with_key [where env = env, OF k] split: prod.splits)
    then show ?thesis by simp
  qed
qed

lemma tryReplicate_failed_after:
  assumes "credential env ''REPLICATE_API_KEY'' key"
    and "answered (srv t (replicate_request key p)) data"
    and "opt_prop (opt_prop (Some data) ''urls'') ''get'' = Some (JStr u)" and "u \<noteq> []"
    and "n < 30"
    and "\<forall>j<n. pending_read
           (srv (t @ Fetch (replicate_request key p) # poll_rounds j key u) (status_request key u))"
    and "failed_read
           (srv (t @ Fetch (replicate_request key p) # poll_rounds n key u) (status_request key u)) s"
  shows "tryReplicate env srv p t =
           (Inr (Fail ''replicate'' (''Error: Replicate '' @ s)),
            t @ Fetch (replicate_request key p) # poll_rounds n key u @
              [Fetch (status_request key u),
               ConsoleError ''Replicate error:'' (Error (''Replicate '' @ s))])"
proof -
  let ?t0 = "t @ [Fetch (replicate_request key p)]"
  have k: "env ''REPLICATE_API_KEY'' = Some key" "key \<noteq> []"
    using assms(1) by (simp_all add: credential_def)
  have "replicate_attempt key srv p t = replicate_poll srv key (JStr u) 0 ?t0"
    using assms(2-4) by (rule replicate_attempt_answered)
  also have "\<dots> = (Inl (Error (''Replicate '' @ s)),
            ?t0 @ poll_rounds n key u @ [Fetch (status_request key u)])"
    using assms(5-7) by (intro poll_failed_after) simp_all
  finally show ?thesis
    by (simp add: tryReplicate_with_key [where env = env, OF k] String_error_def Error_def)
qed

lemma tryReplicate_all_pending:
  assumes "credential env ''REPLICATE_API_KEY'' key"
    and "answered (srv t (replicate_request key p)) data"
    and "opt_prop (opt_prop (Some data) ''urls'') ''get'' = Some (JStr u)" and "u \<noteq> []"
    and "\<forall>j<30. pending_read
           (srv (t @ Fetch (replicate_request key p) # poll_rounds j key u) (status_request key u))"
  shows "tryReplicate env srv p t =
      (Inr (Fail ''replicate'' ''Error: Replicate timeout''),
       t @ Fetch (replicate_request key p) # poll_rounds 30 key u @
         [ConsoleError ''Replicate error:'' (Error ''Replicate timeout'')])"
proof -
  from assms(2) obtain st where r: "srv t (replicate_request key p) = Inr (FetchResponse st (Inr data))"
    and st: "200 \<le> st" "st \<le> 299" by (rule answeredE)
  have k: "env ''REPLICATE_API_KEY'' = Some key" "key \<noteq> []"
    using assms(1) by (simp_all add: credential_def)
  show ?thesis
    by (rule tryReplicate_timeout [where env = env, OF k r st assms(3,4,5)])
qed

text \<open>
  C10.  Let the Replicate credential be set and the submission be answered 2xx with the
  status URL \<open>u\<close>.  A status read that answers, with any HTTP status, a parsed body whose
  \<^verbatim>\<open>status\<close> is none of \<^verbatim>\<open>succeeded\<close>, \<^verbatim>\<open>failed\<close>, \<^verbatim>\<open>canceled\<close> is a pending read.  When the
  first \<open>n\<close> status reads are pending and \<open>n < 30\<close>, the adapter has not failed on them: its
  trace is the submission, then \<open>n\<close> rounds of a status read followed by the delay of one
  second, then one more status read, and this read decides: \<^verbatim>\<open>succeeded\<close> with a non-empty
  string gives the success, \<^verbatim>\<open>failed\<close> or \<^verbatim>\<open>canceled\<close> the failure of that name.  Each pending
  read spends one unit of the budget: when 30 reads are pending the adapter stops after
  exactly 30 rounds with the timeout failure.
\<close>

theorem nonterminal_status_keeps_polling:
  assumes "credential env ''REPLICATE_API_KEY'' key"
    and "answered (srv t (replicate_request key p)) data"
    and "opt_prop (opt_prop (Some data) ''urls'') ''get'' = Some (JStr u)" and "u \<noteq> []"
  shows
   "(n < 30 \<and>
     (\<forall>j<n. pending_read
        (srv (t @ Fetch (replicate_request key p) # poll_rounds j key u) (status_request key u))) \<longrightarrow>
       (\<exists>es. snd (tryReplicate env srv p t) =
              t @ Fetch (replicate_request key p) # poll_rounds n key u @
                Fetch (status_request key u) # es)) \<and>
    (n < 30 \<and>
     (\<forall>j<n. pending_read
        (srv (t @ Fetch (replicate_request key p) # poll_rounds j key u) (status_request key u))) \<and>
     succeeded_read
        (srv (t @ Fetch (replicate_request key p) # poll_rounds n key u) (status_request key u))
        (Some (JStr x)) \<and> x \<noteq> [] \<longrightarrow>
       tryReplicate env srv p t =
         (Inr (Ok ''replicate'' (JStr x)),
          t @ Fetch (replicate_request key p) # poll_rounds n key u @
            [Fetch (status_request key u)])) \<and>
    (n < 30 \<and>
     (\<forall>j<n. pending_read
        (srv (t @ Fetch (replicate_request key p) # poll_rounds j key u) (status_request key u))) \<and>
     failed_read
        (srv (t @ Fetch (replicate_request key p) # poll_rounds n key u) (status_request key u)) s \<longrightarrow>
       tryReplicate env srv p t =
         (Inr (Fail ''replicate'' (''Error: Replicate '' @ s)),
          t @ Fetch (replicate_request key p) # poll_rounds n key u @
            [Fetch (status_request key u),
             ConsoleError ''Replicate error:'' (Error (''Replicate '' @ s))])) \<and>
    ((\<forall>j<30. pending_read
        (srv (t @ Fetch (replicate_request key p) # poll_rounds j key u) (status_request key u))) \<longrightarrow>
       tryReplicate env srv p t =
         (Inr (Fail ''replicate'' ''Error: Replicate timeout''),
          t @ Fetch (replicate_request key p) # poll_rounds 30 key u @
            [ConsoleError ''Replicate error:'' (Error ''Replicate timeout'')]))"
proof (intro conjI impI)
  assume "n < 30 \<and>
     (\<forall>j<n. pending_read
        (srv (t @ Fetch (replicate_request key p) # poll_rounds j key u) (status_request key u)))"
  then have n: "n < 30" and pend: "\<forall>j<n. pending_read
        (srv (t @ Fetch (replicate_request key p) # poll_rounds j key u) (status_request key u))"
    by blast+
  show "\<exists>es. snd (tryReplicate env srv p t) =
              t @ Fetch (replicate_request key p) # poll_rounds n key u @
                Fetch (status_request key u) # es"
    by (rule tryReplicate_continues [where env = env and srv = srv, OF assms n pend])
next
  assume "n < 30 \<and>
     (\<forall>j<n. pending_read
        (srv (t @ Fetch (replicate_request key p) # poll_rounds j key u) (status_request key u))) \<and>
     succeeded_read
        (srv (t @ Fetch (replicate_request key p) # poll_rounds n key u) (status_request key u))
        (Some (JStr x)) \<and> x \<noteq> []"
  then have n: "n < 30" and pend: "\<forall>j<n. pending_read
        (srv (t @ Fetch (replicate_request key p) # poll_rounds j key u) (status_request key u))"
    and ok: "succeeded_read
        (srv (t @ Fetch (replicate_request key p) # poll_rounds n key u) (status_request key u))
        (Some (JStr x))" and x: "x \<noteq> []"
    by blast+
  have o: "replicate_output_text (Some (JStr x)) = Inr x"
    by (rule replicate_output_text_cases)
  from tryReplicate_output [where env = env and srv = srv, OF assms n pend ok o] x
  show "tryReplicate env srv p t =
         (Inr (Ok ''replicate'' (JStr x)),
          t @ Fetch (replicate_request key p) # poll_rounds n key u @
            [Fetch (status_request key u)])"
    by simp
next
  assume "n < 30 \<and>
     (\<forall>j<n. pending_read
        (srv (t @ Fetch (replicate_request key p) # poll_rounds j key u) (status_request key u))) \<and>
     failed_read
        (srv (t @ Fetch (replicate_request key p) # poll_rounds n key u) (status_request key u)) s"
  then have n: "n < 30" and pend: "\<forall>j<n. pending_read
        (srv (t @ Fetch (replicate_request key p) # poll_rounds j key u) (status_request key u))"
    and f: "failed_read
        (srv (t @ Fetch (replicate_request key p) # poll_rounds n key u) (status_request key u)) s"
    by blast+
  show "tryReplicate env srv p t =
         (Inr (Fail ''replicate'' (''Error: Replicate '' @ s)),
          t @ Fetch (replicate_request key p) # poll_rounds n key u @
            [Fetch (status_request key u),
             ConsoleError ''Replicate error:'' (Error (''Replicate '' @ s))])"
    by (rule tryReplicate_failed_after [where env = env and srv = srv, OF assms n pend f])
next
  assume pend: "\<forall>j<30. pending_read
        (srv (t @ Fetch (replicate_request key p) # poll_rounds j key u) (status_request key u))"
  show "tryReplicate env srv p t =
         (Inr (Fail ''replicate'' ''Error: Replicate timeout''),
          t @ Fetch (replicate_request key p) # poll_rounds 30 key u @
            [ConsoleError ''Replicate error:'' (Error ''Replicate timeout'')])"
    by (rule tryReplicate_all_pending [where env = env and srv = srv, OF assms pend])
qed


theorem nonterminal_status_keeps_polling_witness:
  "tryReplicate replicate_only_env slow_job_server ''hi'' [] =
     (Inr (Ok ''replicate'' (JStr ''X'')),
      [Fetch (replicate_request ''k'' ''hi''),
       Fetch (status_request ''k'' ''status-url''), Sleep 1000,
       Fetch (status_request ''k'' ''status-url''), Sleep 1000,
       Fetch (status_request ''k'' ''status-url''), Sleep 1000,
       Fetch (status_request ''k'' ''status-url'')])"
proof -
  let ?js = "JObj [(''urls'', JObj [(''get'', JStr ''status-url'')])]"
  have c: "credential replicate_only_env ''REPLICATE_API_KEY'' ''k''"
    by (simp add: credential_def replicate_only_env_def)
  have a: "answered (slow_job_server [] (replicate_request ''k'' ''hi'')) ?js"
    by (simp add: slow_job_server_def replicate_request_def job_created_def)
  have u: "opt_prop (opt_prop (Some ?js) ''urls'') ''get'' = Some (JStr ''status-url'')"
    and v: "''status-url'' \<noteq> []"
    by simp_all
  have cnt: "length (filter is_status_read
      ([] @ Fetch (replicate_request ''k'' ''hi'') # poll_rounds j ''k'' ''status-url'')) = j" for j
    by (simp add: status_reads_poll_rounds replicate_request_def)
  have pend: "\<forall>j<3. pending_read (slow_job_server
      ([] @ Fetch (replicate_request ''k'' ''hi'') # poll_rounds j ''k'' ''status-url'')
      (status_request ''k'' ''status-url''))"
  proof (intro allI impI)
    fix j :: nat
    assume "j < 3"
    then have "j = 0 \<or> j = 1 \<or> j = 2" by arith
    then show "pending_read (slow_job_server
      ([] @ Fetch (replicate_request ''k'' ''hi'') # poll_rounds j ''k'' ''status-url'')
      (status_request ''k'' ''status-url''))"
      unfolding slow_job_server_def cnt
      by (auto simp add: status_request_def pending_body_def)
  qed
  have ok: "succeeded_read (slow_job_server
      ([] @ Fetch (replicate_request ''k'' ''hi'') # poll_rounds 3 ''k'' ''status-url'')
      (status_request ''k'' ''status-url'')) (Some (JStr ''X''))"
    unfolding slow_job_server_def cnt by (simp add: status_request_def)
  have r: "poll_rounds 3 ''k'' ''status-url'' =
      [Fetch (status_request ''k'' ''status-url''), Sleep 1000,
       Fetch (status_request ''k'' ''status-url''), Sleep 1000,
       Fetch (status_request ''k'' ''status-url''), Sleep 1000]"
    by (simp add: poll_rounds_def numeral_3_eq_3)
  have "tryReplicate replicate_only_env slow_job_server ''hi'' [] =
         (Inr (Ok ''replicate'' (JStr ''X'')),
          [] @ Fetch (replicate_request ''k'' ''hi'') # poll_rounds 3 ''k'' ''status-url'' @
            [Fetch (status_request ''k'' ''status-url'')])"
    using nonterminal_status_keeps_polling
      [where env = replicate_only_env and srv = slow_job_server and t = "[]" and n = 3
         and x = "''X''", OF c a u v, THEN conjunct2, THEN conjunct1]
      pend ok
    by simp
  then show ?thesis by (simp add: r)
qed

end
